theory Spec2Isabelle
  imports Complex_Main "HOL-Library.Monad_Syntax"
begin

section \<open>Procedural facial and gesture animator\<close>

text \<open>
  A shallow embedding of the avatar animation code: the viseme classifier
  \<^verbatim>\<open>pickExpressionFromWord\<close> and the expression drive of \<^verbatim>\<open>VRMModel\<close>
  (VRMAvatarApp.js), and the per-frame callback of \<^verbatim>\<open>VRMScene\<close>
  (TalkingAvatar.jsx, in its variants).

  JavaScript numbers are modelled as \<^typ>\<open>real\<close>: arithmetic is exact, rounding of
  doubles is not modelled.  A reference that may be \<^verbatim>\<open>null\<close> or \<^verbatim>\<open>undefined\<close>
  is an \<^typ>\<open>'a option\<close>; writing through an absent reference is the thrown
  \<^verbatim>\<open>TypeError\<close>, modelled as the result \<^term>\<open>None\<close>.  Each call of
  \<^verbatim>\<open>Math.random()\<close> is an input of the frame.
\<close>

subsection \<open>Viseme classifier\<close>

text \<open>
  \<^verbatim>\<open>VRMExpressionPresetName\<close> is an object of the VRM library, which is not part of
  the repository.  It is a parameter of the model: for each member that the code
  reads, the value of the member, a string, or \<^term>\<open>None\<close> when the object has no such
  member and the read gives \<^verbatim>\<open>undefined\<close>.  Nothing is assumed about which members
  exist.
\<close>

datatype preset_member = MemberAa | MemberE | MemberI | MemberO | MemberU

type_synonym VRMExpressionPresetName = "preset_member \<Rightarrow> string option"

text \<open>
  The truth value that JavaScript gives a preset name: \<^verbatim>\<open>undefined\<close>, \<^verbatim>\<open>null\<close>
  and the empty string are false.
\<close>

definition truthy :: "string option \<Rightarrow> bool" where
  "truthy v = (case v of None \<Rightarrow> False | Some s \<Rightarrow> s \<noteq> [])"

text \<open>
  A word is a JavaScript string: a list of UTF-16 code units.  \<open>code_units\<close> gives
  the code units of a string of ASCII characters.
\<close>

type_synonym code_unit = nat

definition code_units :: "string \<Rightarrow> code_unit list" where
  "code_units s = map of_char s"

text \<open>
  \<^verbatim>\<open>toLowerCase()\<close> follows the Unicode case tables of the JavaScript engine.  The
  model has their entries for \<^verbatim>\<open>A\<close> to \<^verbatim>\<open>Z\<close> (65 to 90, lowered by adding 32),
  for U+0130 (304, lowered to \<^verbatim>\<open>i\<close> followed by U+0307) and for U+212A (8490, the
  Kelvin sign, lowered to \<^verbatim>\<open>k\<close>): these are the characters, other than \<^verbatim>\<open>a\<close> to
  \<^verbatim>\<open>z\<close> themselves, whose lower case contains a letter of \<^verbatim>\<open>a-z\<close>.  Every other
  code unit is kept as it is; where the tables lower it, neither the unit nor its
  lower case is in \<^verbatim>\<open>a-z\<close>, and the replace that follows removes the one as it
  would the other.
\<close>

definition toLowerCase_unit :: "code_unit \<Rightarrow> code_unit list" where
  "toLowerCase_unit c =
     (if 65 \<le> c \<and> c \<le> 90 then [c + 32]
      else if c = 304 then [105, 775]
      else if c = 8490 then [107]
      else [c])"

definition toLowerCase :: "code_unit list \<Rightarrow> code_unit list" where
  "toLowerCase s = concat (map toLowerCase_unit s)"

text \<open>\<^verbatim>\<open>replace(/[^a-z]/g, "")\<close>: keep the code units 97 to 122.\<close>

definition replace_non_az :: "code_unit list \<Rightarrow> code_unit list" where
  "replace_non_az s = filter (\<lambda>c. 97 \<le> c \<and> c \<le> 122) s"

text \<open>
  \<^verbatim>\<open>/[...]/.test(w)\<close>: some code unit of \<open>w\<close> is in the class.  The classes of the
  source are \<^verbatim>\<open>o\<close>, U+0254, U+0252 (111, 596, 594); \<^verbatim>\<open>e\<close>, U+025B (101, 603);
  \<^verbatim>\<open>i\<close>, U+026A, \<^verbatim>\<open>y\<close> (105, 618, 121); and \<^verbatim>\<open>u\<close>, U+028A, \<^verbatim>\<open>w\<close>
  (117, 650, 119).
\<close>

definition regex_test :: "code_unit list \<Rightarrow> code_unit list \<Rightarrow> bool" where
  "regex_test cls w = list_ex (\<lambda>c. c \<in> set cls) w"

definition pickExpressionFromWord ::
  "VRMExpressionPresetName \<Rightarrow> code_unit list \<Rightarrow> string option" where
  "pickExpressionFromWord enum word =
     (if word = [] then enum MemberAa
      else let w = replace_non_az (toLowerCase word) in
        if regex_test [111, 596, 594] w \<or> regex_test [111] w then enum MemberO
        else if regex_test [101, 603] w \<or> regex_test [101] w then enum MemberE
        else if regex_test [105, 618, 121] w \<or> regex_test [105] w then enum MemberI
        else if regex_test [117, 650, 119] w \<or> regex_test [117] w then enum MemberU
        else enum MemberAa)"

text \<open>
  The classifier as the specification words it.  The word is lower-cased and what is
  no letter is dropped; the vowel classes are tried in their priority order, the first
  class with a letter in the word wins, and the open jaw is the fallback.  The letter
  that a code unit leaves is read from a table: a capital or small letter leaves the
  small letter, U+0130 leaves \<^verbatim>\<open>i\<close> and U+212A leaves \<^verbatim>\<open>k\<close>, and any other code
  unit leaves none.
\<close>

definition lower_case_letter :: "code_unit \<Rightarrow> char option" where
  "lower_case_letter =
     map_of (zip (code_units ''ABCDEFGHIJKLMNOPQRSTUVWXYZ''
                  @ code_units ''abcdefghijklmnopqrstuvwxyz'' @ [304, 8490])
                 (''abcdefghijklmnopqrstuvwxyz''
                  @ ''abcdefghijklmnopqrstuvwxyz'' @ ''ik''))"

definition lower_case_letters :: "code_unit list \<Rightarrow> string" where
  "lower_case_letters word =
     concat (map (\<lambda>c. case lower_case_letter c of Some l \<Rightarrow> [l] | None \<Rightarrow> []) word)"

definition vowel_priority :: "(preset_member \<times> string) list" where
  "vowel_priority =
     [(MemberO, ''o''), (MemberE, ''e''), (MemberI, ''iy''), (MemberU, ''uw'')]"

definition classify :: "code_unit list \<Rightarrow> preset_member" where
  "classify word =
     (case find (\<lambda>pc. set (snd pc) \<inter> set (lower_case_letters word) \<noteq> {})
                vowel_priority of
        Some pc \<Rightarrow> fst pc
      | None \<Rightarrow> MemberAa)"

subsection \<open>Expression drive\<close>

text \<open>
  \<^verbatim>\<open>expressionDrive.current\<close>: the name of the driven preset (\<^term>\<open>None\<close> for
  \<^verbatim>\<open>null\<close> and for \<^verbatim>\<open>undefined\<close>) and its weight.
\<close>

record expressionDrive =
  drive_name :: "string option"
  drive_weight :: real

text \<open>The values held by the expression manager; \<^verbatim>\<open>getValue(name) || 0\<close>.\<close>

type_synonym expressionValues = "string \<rightharpoonup> real"

definition getValue_or_0 :: "expressionValues \<Rightarrow> string \<Rightarrow> real" where
  "getValue_or_0 em n = (case em n of None \<Rightarrow> 0 | Some x \<Rightarrow> x)"

text \<open>The \<^verbatim>\<open>onWord\<close> handler of \<^verbatim>\<open>VRMAvatarApp\<close>: pulse the drive.\<close>

definition onWord ::
  "VRMExpressionPresetName \<Rightarrow> code_unit list \<Rightarrow> expressionDrive \<Rightarrow> expressionDrive" where
  "onWord enum word d =
     d\<lparr>drive_name := pickExpressionFromWord enum word, drive_weight := 1.0\<rparr>"

text \<open>
  The frame callback of \<^verbatim>\<open>VRMModel\<close>.  \<open>names\<close> is
  \<^verbatim>\<open>Object.values(VRMExpressionPresetName)\<close>; \<open>loaded\<close> tells whether
  \<^verbatim>\<open>vrmRef.current\<close> and its expression manager exist in this frame.  The jaw is
  written under the name \<^verbatim>\<open>VRMExpressionPresetName.Aa\<close>; when that is
  \<^verbatim>\<open>undefined\<close> the write names no expression and the values stay as they are.
\<close>

definition decay_presets ::
  "string list \<Rightarrow> real \<Rightarrow> expressionValues \<Rightarrow> expressionValues" where
  "decay_presets names dt em =
     fold (\<lambda>n e. e(n \<mapsto> max 0 (getValue_or_0 e n - dt * 3.2 * 0.1))) names em"

definition VRMModel_useFrame ::
  "VRMExpressionPresetName \<Rightarrow> string list \<Rightarrow> bool \<times> real \<Rightarrow>
   expressionValues \<times> expressionDrive \<Rightarrow> expressionValues \<times> expressionDrive" where
  "VRMModel_useFrame enum names fr st =
     (let loaded = fst fr; dt = snd fr; em = fst st; d = snd st in
      if \<not> loaded then (em, d)
      else
        let em1 = decay_presets names dt em in
        case drive_name d of
          None \<Rightarrow> (em1, d)
        | Some n \<Rightarrow>
            if n \<noteq> [] \<and> drive_weight d > 0 then
              let cur = getValue_or_0 em1 n;
                  target = max cur (drive_weight d);
                  em2 = em1(n \<mapsto> target);
                  em3 = (if Some n \<noteq> enum MemberAa
                         then (case enum MemberAa of
                                 None \<Rightarrow> em2
                               | Some aa \<Rightarrow>
                                   em2(aa \<mapsto> max (getValue_or_0 em2 aa) (drive_weight d * 0.25)))
                         else em2);
                  w = drive_weight d * 0.82
              in if w < 0.02 then (em3, d\<lparr>drive_name := None, drive_weight := 0\<rparr>)
                 else (em3, d\<lparr>drive_weight := w\<rparr>)
            else (em1, d))"

text \<open>A run of frames, oldest first.\<close>

definition VRMModel_frames ::
  "VRMExpressionPresetName \<Rightarrow> string list \<Rightarrow> (bool \<times> real) list \<Rightarrow>
   expressionValues \<times> expressionDrive \<Rightarrow> expressionValues \<times> expressionDrive" where
  "VRMModel_frames enum names frs st = fold (VRMModel_useFrame enum names) frs st"

text \<open>
  Two objects for \<^verbatim>\<open>VRMExpressionPresetName\<close>: one that has the five members the
  code reads, and one whose mouth presets are named \<^verbatim>\<open>aa\<close>, \<^verbatim>\<open>ih\<close>, \<^verbatim>\<open>ou\<close>,
  \<^verbatim>\<open>ee\<close> and \<^verbatim>\<open>oh\<close>, the names under which \<^verbatim>\<open>VRMScene\<close> addresses them, so
  that of the five members only \<^verbatim>\<open>Aa\<close> exists.
\<close>

definition example_enum :: VRMExpressionPresetName where
  "example_enum m =
     Some (case m of MemberAa \<Rightarrow> ''aa'' | MemberE \<Rightarrow> ''e'' | MemberI \<Rightarrow> ''i''
           | MemberO \<Rightarrow> ''o'' | MemberU \<Rightarrow> ''u'')"

definition example_enum_aa :: VRMExpressionPresetName where
  "example_enum_aa m = (case m of MemberAa \<Rightarrow> Some ''aa'' | _ \<Rightarrow> None)"

subsection \<open>Humanoid rig and scene state\<close>

datatype VRMHumanBoneName =
    Head | Neck | Chest | UpperChest | Spine
  | LeftUpperArm | RightUpperArm | LeftLowerArm | RightLowerArm
  | LeftHand | RightHand | LeftShoulder | RightShoulder

text \<open>The Euler rotation of a bone node, and the rotations of all nodes.\<close>

record rotation =
  rot_x :: real
  rot_y :: real
  rot_z :: real

type_synonym pose = "VRMHumanBoneName \<Rightarrow> rotation"

text \<open>
  What the frame callback uses of the loaded model: \<open>humanoid\<close> is the set of bones
  for which \<^verbatim>\<open>getNormalizedBoneNode\<close> returns a node (\<^term>\<open>None\<close> when the model
  has no humanoid), \<open>expressionManager\<close> tells whether the model has one, and
  \<open>matrixWorld_y\<close> is the forward kinematics of the library: the height of a node's
  world position after \<^verbatim>\<open>scene.updateMatrixWorld(true)\<close>, a function of the
  rotations of the joints.
\<close>

record vrm =
  humanoid :: "VRMHumanBoneName set option"
  expressionManager :: bool
  matrixWorld_y :: "pose \<Rightarrow> VRMHumanBoneName \<Rightarrow> real"

text \<open>The object returned by \<^verbatim>\<open>getBones\<close>: a node or \<^verbatim>\<open>null\<close> for each field.\<close>

record bones =
  head :: "VRMHumanBoneName option"
  neck :: "VRMHumanBoneName option"
  chest :: "VRMHumanBoneName option"
  spine :: "VRMHumanBoneName option"
  lUpperArm :: "VRMHumanBoneName option"
  rUpperArm :: "VRMHumanBoneName option"
  lLowerArm :: "VRMHumanBoneName option"
  rLowerArm :: "VRMHumanBoneName option"
  lHand :: "VRMHumanBoneName option"
  rHand :: "VRMHumanBoneName option"
  lShoulder :: "VRMHumanBoneName option"
  rShoulder :: "VRMHumanBoneName option"

text \<open>
  \<^verbatim>\<open>blinkRef\<close>, \<^verbatim>\<open>gestureRef\<close> and \<^verbatim>\<open>dirRef\<close>.  The fields \<^verbatim>\<open>t\<close>, \<^verbatim>\<open>v\<close>,
  \<^verbatim>\<open>next\<close>, \<^verbatim>\<open>l\<close>, \<^verbatim>\<open>r\<close> and the others carry a prefix here.
\<close>

record blink =
  b_t :: real
  b_nextBlink :: real
  b_phase :: nat
  b_v :: real

record gesture =
  g_active :: bool
  g_side :: string
  g_t :: real
  g_dur :: real
  g_next :: real

record dir =
  dir_l :: real
  dir_r :: real
  dir_done :: bool

text \<open>
  The mutable state the callback of \<^verbatim>\<open>VRMScene\<close> works on: its refs, the rotations
  of the bone nodes, the values of the expression manager, and \<^verbatim>\<open>rotation.y\<close> of the
  group when \<^verbatim>\<open>groupRef.current\<close> is set.
\<close>

record scene =
  tRef :: real
  bonesRef :: "bones option"
  blinkRef :: blink
  gestureRef :: gesture
  dirRef :: dir
  joints :: pose
  expressions :: "string \<Rightarrow> real"
  groupRef :: "real option"

text \<open>
  The inputs of one frame: the props \<^verbatim>\<open>vrm\<close>, \<^verbatim>\<open>speaking\<close> and \<^verbatim>\<open>gestures\<close>, the
  frame's \<^verbatim>\<open>delta\<close>, and the values the calls of \<^verbatim>\<open>Math.random()\<close> return (for the
  side, the duration and the next countdown of a gesture, and for the next blink).
\<close>

record tick =
  tick_vrm :: "vrm option"
  delta :: real
  speaking :: bool
  gestures :: bool
  random_side :: real
  random_dur :: real
  random_next :: real
  random_blink :: real

text \<open>
  The copies of TalkingAvatar.jsx differ in three places: whether the calibration also
  waits for both shoulders, whether a gesture needs the \<^verbatim>\<open>gestures\<close> toggle besides
  \<^verbatim>\<open>speaking\<close>, and the factor on \<^verbatim>\<open>delta\<close> in the countdown.
\<close>

record variant =
  needs_shoulders :: bool
  gesture_toggle :: bool
  countdown_rate :: real

definition TalkingAvatar_copy_4 :: variant where
  "TalkingAvatar_copy_4 =
     \<lparr>needs_shoulders = False, gesture_toggle = False, countdown_rate = 1.1\<rparr>"

definition TalkingAvatar_part_000 :: variant where
  "TalkingAvatar_part_000 =
     \<lparr>needs_shoulders = True, gesture_toggle = True, countdown_rate = 1.0\<rparr>"

definition getNormalizedBoneNode :: "vrm \<Rightarrow> VRMHumanBoneName \<Rightarrow> VRMHumanBoneName option" where
  "getNormalizedBoneNode v n =
     (case humanoid v of
        None \<Rightarrow> None
      | Some h \<Rightarrow> if n \<in> h then Some n else None)"

definition getBones :: "vrm option \<Rightarrow> bones option" where
  "getBones vo =
     (case vo of
        None \<Rightarrow> None
      | Some v \<Rightarrow> Some
         \<lparr>head = getNormalizedBoneNode v Head,
          neck = getNormalizedBoneNode v Neck,
          chest = (case getNormalizedBoneNode v Chest of
                     Some c \<Rightarrow> Some c
                   | None \<Rightarrow> getNormalizedBoneNode v UpperChest),
          spine = getNormalizedBoneNode v Spine,
          lUpperArm = getNormalizedBoneNode v LeftUpperArm,
          rUpperArm = getNormalizedBoneNode v RightUpperArm,
          lLowerArm = getNormalizedBoneNode v LeftLowerArm,
          rLowerArm = getNormalizedBoneNode v RightLowerArm,
          lHand = getNormalizedBoneNode v LeftHand,
          rHand = getNormalizedBoneNode v RightHand,
          lShoulder = getNormalizedBoneNode v LeftShoulder,
          rShoulder = getNormalizedBoneNode v RightShoulder\<rparr>)"

text \<open>The destructuring of \<^verbatim>\<open>bonesRef.current || {}\<close>: every field undefined.\<close>

definition no_bones :: bones where
  "no_bones =
     \<lparr>head = None, neck = None, chest = None, spine = None,
      lUpperArm = None, rUpperArm = None, lLowerArm = None, rLowerArm = None,
      lHand = None, rHand = None, lShoulder = None, rShoulder = None\<rparr>"

definition clamp01 :: "real \<Rightarrow> real" where
  "clamp01 x = max 0 (min 1 x)"

definition easeInOut :: "real \<Rightarrow> real" where
  "easeInOut x = 0.5 - 0.5 * cos (pi * clamp01 x)"

subsection \<open>Reading and writing through a reference\<close>

datatype axis = AxisX | AxisY | AxisZ

definition set_axis :: "axis \<Rightarrow> real \<Rightarrow> rotation \<Rightarrow> rotation" where
  "set_axis a x q =
     (case a of AxisX \<Rightarrow> q\<lparr>rot_x := x\<rparr> | AxisY \<Rightarrow> q\<lparr>rot_y := x\<rparr> | AxisZ \<Rightarrow> q\<lparr>rot_z := x\<rparr>)"

text \<open>\<^verbatim>\<open>node.rotation.a = x\<close>; a \<^verbatim>\<open>TypeError\<close> when the node is absent.\<close>

definition write_rotation ::
  "VRMHumanBoneName option \<Rightarrow> axis \<Rightarrow> real \<Rightarrow> pose \<Rightarrow> pose option" where
  "write_rotation node a x p =
     (case node of
        None \<Rightarrow> None
      | Some n \<Rightarrow> Some (p(n := set_axis a x (p n))))"

definition read_rotation_z :: "VRMHumanBoneName option \<Rightarrow> pose \<Rightarrow> real option" where
  "read_rotation_z node p =
     (case node of
        None \<Rightarrow> None
      | Some n \<Rightarrow> Some (rot_z (p n)))"

text \<open>The assignments of one statement block, in order.\<close>

fun write_all ::
  "VRMHumanBoneName option \<Rightarrow> (axis \<times> real) list \<Rightarrow> pose \<Rightarrow> pose option" where
  "write_all node [] p = Some p"
| "write_all node (w # ws) p = write_rotation node (fst w) (snd w) p \<bind> write_all node ws"

text \<open>\<^verbatim>\<open>if (node) { node.rotation.a = x; ... }\<close>\<close>

definition if_present ::
  "VRMHumanBoneName option \<Rightarrow> (axis \<times> real) list \<Rightarrow> pose \<Rightarrow> pose option" where
  "if_present node ws p = (if node \<noteq> None then write_all node ws p else Some p)"

text \<open>\<^verbatim>\<open>em.setValue(name, x)\<close>; a \<^verbatim>\<open>TypeError\<close> when there is no expression manager.\<close>

definition setValue ::
  "bool \<Rightarrow> string \<Rightarrow> real \<Rightarrow> (string \<Rightarrow> real) \<Rightarrow> (string \<Rightarrow> real) option" where
  "setValue em name x ex = (if em then Some (ex(name := x)) else None)"

text \<open>
  \<^verbatim>\<open>new THREE.Vector3().setFromMatrixPosition(hand.matrixWorld).y\<close> after
  \<^verbatim>\<open>vrm.scene.updateMatrixWorld(true)\<close>.
\<close>

definition world_height :: "vrm \<Rightarrow> pose \<Rightarrow> VRMHumanBoneName option \<Rightarrow> real option" where
  "world_height v p node =
     (case node of
        None \<Rightarrow> None
      | Some n \<Rightarrow> Some (matrixWorld_y v p n))"

subsection \<open>The frame callback of VRMScene\<close>

definition measureRaiseSign ::
  "vrm \<Rightarrow> VRMHumanBoneName option \<Rightarrow> VRMHumanBoneName option \<Rightarrow> pose
   \<Rightarrow> (real \<times> pose) option" where
  "measureRaiseSign v upper hand p =
     do {
       saved \<leftarrow> read_rotation_z upper p;
       p \<leftarrow> write_rotation upper AxisZ (saved + 0.18) p;
       hy1 \<leftarrow> world_height v p hand;
       p \<leftarrow> write_rotation upper AxisZ (saved - 0.18) p;
       hy2 \<leftarrow> world_height v p hand;
       p \<leftarrow> write_rotation upper AxisZ saved p;
       Some (if hy1 > hy2 then 1 else - 1, p)
     }"

text \<open>The guard of the one-time calibration.\<close>

definition calibration_due :: "variant \<Rightarrow> bones \<Rightarrow> dir \<Rightarrow> bool" where
  "calibration_due var b d =
     (\<not> dir_done d \<and> lUpperArm b \<noteq> None \<and> rUpperArm b \<noteq> None
      \<and> lHand b \<noteq> None \<and> rHand b \<noteq> None
      \<and> (if needs_shoulders var then lShoulder b \<noteq> None \<and> rShoulder b \<noteq> None else True))"

definition calibrate :: "variant \<Rightarrow> vrm \<Rightarrow> bones \<Rightarrow> dir \<times> pose \<Rightarrow> (dir \<times> pose) option" where
  "calibrate var v b dp =
     (let d = fst dp; p = snd dp in
      if calibration_due var b d then
        do {
          lp \<leftarrow> measureRaiseSign v (lUpperArm b) (lHand b) p;
          rp \<leftarrow> measureRaiseSign v (rUpperArm b) (rHand b) (snd lp);
          Some (d\<lparr>dir_l := fst lp, dir_r := fst rp, dir_done := True\<rparr>, snd rp)
        }
      else Some (d, p))"

definition idle_sway :: "bones \<Rightarrow> real \<Rightarrow> pose \<Rightarrow> pose option" where
  "idle_sway b t p =
     do {
       p \<leftarrow> if_present (spine b)
              [(AxisX, sin (t * 1.2) * 0.01), (AxisY, sin (t * 0.7) * 0.01)] p;
       p \<leftarrow> if_present (chest b)
              [(AxisX, sin (t * 1.0) * 0.015), (AxisY, sin (t * 0.5) * 0.012)] p;
       p \<leftarrow> if_present (neck b)
              [(AxisX, sin (t * 0.9) * 0.02), (AxisY, sin (t * 0.6 + 0.5) * 0.02)] p;
       if_present (head b)
              [(AxisX, sin (t * 1.1 + 0.3) * 0.018), (AxisY, sin (t * 0.8) * 0.018)] p
     }"

definition REST :: real where "REST = 0.9"

definition ELBOW :: real where "ELBOW = 0.35"

definition arms_rest :: "bones \<Rightarrow> real \<Rightarrow> real \<Rightarrow> real \<Rightarrow> pose \<Rightarrow> pose option" where
  "arms_rest b t raiseL raiseR p =
     (let restZL = - raiseL * REST; restZR = - raiseR * REST in
      do {
        p \<leftarrow> if_present (lUpperArm b)
               [(AxisZ, restZL + sin (t * 0.7) * 0.025),
                (AxisX, sin (t * 0.55) * 0.02),
                (AxisY, 0)] p;
        p \<leftarrow> if_present (rUpperArm b)
               [(AxisZ, restZR + sin (t * 0.75 + 0.4) * 0.025),
                (AxisX, sin (t * 0.6) * 0.02),
                (AxisY, 0)] p;
        p \<leftarrow> if_present (lLowerArm b) [(AxisX, ELBOW + sin (t * 0.85) * 0.03)] p;
        p \<leftarrow> if_present (rLowerArm b) [(AxisX, ELBOW + sin (t * 0.9 + 0.25) * 0.03)] p;
        p \<leftarrow> if_present (lHand b)
               [(AxisY, sin (t * 1.0) * 0.08), (AxisX, sin (t * 0.5) * 0.04)] p;
        p \<leftarrow> if_present (rHand b)
               [(AxisY, sin (t * 1.05 + 0.35) * 0.08), (AxisX, sin (t * 0.55 + 0.2) * 0.04)] p;
        p \<leftarrow> if_present (lShoulder b)
               [(AxisZ, 0.035 * (if raiseL = 1 then 1 else - 1) + sin (t * 0.7) * 0.015)] p;
        if_present (rShoulder b)
               [(AxisZ, 0.035 * (if raiseR = - 1 then 1 else - 1)
                        + sin (t * 0.75 + 0.45) * 0.015)] p
      })"

text \<open>Whether a gesture may run in this frame.\<close>

definition eligible :: "variant \<Rightarrow> tick \<Rightarrow> bool" where
  "eligible var tk = (if gesture_toggle var then gestures tk \<and> speaking tk else speaking tk)"

text \<open>The countdown and the start of a new gesture.\<close>

definition gesture_trigger :: "variant \<Rightarrow> tick \<Rightarrow> gesture \<Rightarrow> gesture" where
  "gesture_trigger var tk g =
     (let g = g\<lparr>g_next := g_next g - delta tk * countdown_rate var\<rparr> in
      if \<not> g_active g \<and> g_next g \<le> 0 then
        g\<lparr>g_active := True,
          g_side := (if random_side tk < 0.5 then ''left'' else ''right''),
          g_t := 0,
          g_dur := 1.1 + random_dur tk * 0.4,
          g_next := 3.0 + random_next tk * 2.0\<rparr>
      else g)"

text \<open>The overlay of an active gesture on the arm of its side.\<close>

definition gesture_overlay ::
  "bones \<Rightarrow> real \<Rightarrow> real \<Rightarrow> real \<Rightarrow> gesture \<Rightarrow> pose \<Rightarrow> pose option" where
  "gesture_overlay b t raiseL raiseR g p =
     (let restZL = - raiseL * REST; restZR = - raiseR * REST;
          k = easeInOut (g_t g / g_dur g);
          LIFT = 0.45 * k;
          BEND = ELBOW + 0.45 * k;
          WRIST = 0.55 * sin (t * 10) * k in
      if g_side g = ''left'' then
        do {
          p \<leftarrow> if_present (lUpperArm b)
                 [(AxisZ, restZL + raiseL * LIFT), (AxisY, - 0.18 * k)] p;
          p \<leftarrow> if_present (lLowerArm b) [(AxisX, BEND)] p;
          if_present (lHand b) [(AxisY, WRIST), (AxisX, 0.25 * k)] p
        }
      else
        do {
          p \<leftarrow> if_present (rUpperArm b)
                 [(AxisZ, restZR + raiseR * LIFT), (AxisY, 0.18 * k)] p;
          p \<leftarrow> if_present (rLowerArm b) [(AxisX, BEND)] p;
          if_present (rHand b) [(AxisY, - WRIST), (AxisX, 0.25 * k)] p
        })"

definition wave_gesture ::
  "variant \<Rightarrow> bones \<Rightarrow> tick \<Rightarrow> real \<Rightarrow> real \<Rightarrow> real \<Rightarrow> gesture \<times> pose
   \<Rightarrow> (gesture \<times> pose) option" where
  "wave_gesture var b tk t raiseL raiseR gp =
     (let g = fst gp; p = snd gp in
      if \<not> eligible var tk then Some (g\<lparr>g_active := False, g_next := 2.5\<rparr>, p)
      else
        let g = gesture_trigger var tk g in
        if g_active g then
          let g = g\<lparr>g_t := g_t g + delta tk\<rparr> in
          do {
            p \<leftarrow> gesture_overlay b t raiseL raiseR g p;
            Some (if g_t g \<ge> g_dur g then g\<lparr>g_active := False\<rparr> else g, p)
          }
        else Some (g, p))"

definition mouth_value :: "real \<Rightarrow> bool \<Rightarrow> real" where
  "mouth_value t spk =
     (let mouth = 0.02 + max 0 (sin (t * 1.2)) * 0.01 in
      if spk then
        let s1 = (sin (t * 8.0) + 1) * 0.5;
            s2 = (sin (t * 3.7 + 1.3) + 1) * 0.5;
            s3 = (sin (t * 1.9 + 0.7) + 1) * 0.5;
            mouth = 0.05 + (0.65 * s1 + 0.25 * s2 + 0.10 * s3) * 0.8
        in min 1 (max 0 mouth)
      else mouth)"

definition blink_step :: "tick \<Rightarrow> blink \<Rightarrow> blink" where
  "blink_step tk B0 =
     (let B = B0\<lparr>b_t := b_t B0 + delta tk\<rparr>;
          B = (if b_phase B = 0 \<and> b_t B > b_nextBlink B then B\<lparr>b_phase := 1\<rparr> else B) in
      if b_phase B = 1 then
        let B = B\<lparr>b_v := b_v B + delta tk * 12\<rparr> in
        if b_v B \<ge> 1 then B\<lparr>b_v := 1, b_phase := 2\<rparr> else B
      else if b_phase B = 2 then
        let B = B\<lparr>b_v := b_v B - delta tk * 10\<rparr> in
        if b_v B \<le> 0
        then B\<lparr>b_v := 0, b_phase := 0, b_t := 0,
               b_nextBlink := 1.5 + random_blink tk * 2.0\<rparr>
        else B
      else B)"

definition mouth_blink ::
  "bool \<Rightarrow> tick \<Rightarrow> real \<Rightarrow> (string \<Rightarrow> real) \<times> blink
   \<Rightarrow> ((string \<Rightarrow> real) \<times> blink) option" where
  "mouth_blink em tk t eb =
     (let ex = fst eb; B = snd eb in
      if em then
        do {
          ex \<leftarrow> setValue em ''ih'' 0 ex;
          ex \<leftarrow> setValue em ''ou'' 0 ex;
          ex \<leftarrow> setValue em ''ee'' 0 ex;
          ex \<leftarrow> setValue em ''oh'' 0 ex;
          ex \<leftarrow> setValue em ''aa'' (mouth_value t (speaking tk)) ex;
          let B = blink_step tk B;
          ex \<leftarrow> setValue em ''blink'' (clamp01 (b_v B)) ex;
          Some (ex, B)
        }
      else Some (ex, B))"

text \<open>
  The callback passed to \<^verbatim>\<open>useFrame\<close>.  The calls into the library at its end
  (\<^verbatim>\<open>em.update()\<close>, \<^verbatim>\<open>vrm.springBoneManager?.update(delta)\<close>,
  \<^verbatim>\<open>vrm.update?.(delta)\<close>) write none of the state modelled here.
\<close>

definition useFrame :: "variant \<Rightarrow> tick \<Rightarrow> scene \<Rightarrow> scene option" where
  "useFrame var tk s =
     (case tick_vrm tk of
        None \<Rightarrow> Some s
      | Some v \<Rightarrow>
          let t = tRef s + delta tk;
              em = expressionManager v;
              bref = (if bonesRef s = None then getBones (Some v) else bonesRef s);
              b = (case bref of None \<Rightarrow> no_bones | Some bs \<Rightarrow> bs)
          in do {
            dp \<leftarrow> calibrate var v b (dirRef s, joints s);
            let raiseL = dir_l (fst dp);
            let raiseR = dir_r (fst dp);
            p \<leftarrow> idle_sway b t (snd dp);
            p \<leftarrow> arms_rest b t raiseL raiseR p;
            gp \<leftarrow> wave_gesture var b tk t raiseL raiseR (gestureRef s, p);
            eb \<leftarrow> mouth_blink em tk t (expressions s, blinkRef s);
            Some \<lparr>tRef = t, bonesRef = bref, blinkRef = snd eb, gestureRef = fst gp,
                  dirRef = fst dp, joints = snd gp, expressions = fst eb,
                  groupRef = (case groupRef s of
                                None \<Rightarrow> None
                              | Some y \<Rightarrow> Some (sin (t * 0.2) * 0.05))\<rparr>
          })"

text \<open>A run of frames, oldest first; it stops at the first frame that throws.\<close>

fun frames :: "variant \<Rightarrow> tick list \<Rightarrow> scene \<Rightarrow> scene option" where
  "frames var [] s = Some s"
| "frames var (tk # tks) s = useFrame var tk s \<bind> frames var tks"

text \<open>
  The state at mount: the initial values of the refs.  \<open>r\<close> is the value of
  \<^verbatim>\<open>Math.random()\<close> in the initial \<^verbatim>\<open>nextBlink\<close>.
\<close>

definition mounted :: "real \<Rightarrow> pose \<Rightarrow> (string \<Rightarrow> real) \<Rightarrow> real option \<Rightarrow> scene" where
  "mounted r p ex grp =
     \<lparr>tRef = 0, bonesRef = None,
      blinkRef = \<lparr>b_t = 0, b_nextBlink = 1.5 + r * 2.0, b_phase = 0, b_v = 0\<rparr>,
      gestureRef = \<lparr>g_active = False, g_side = ''right'', g_t = 0, g_dur = 1.2, g_next = 2.5\<rparr>,
      dirRef = \<lparr>dir_l = 1, dir_r = 1, dir_done = False\<rparr>,
      joints = p, expressions = ex, groupRef = grp\<rparr>"

text \<open>
  The callback of the first copy of TalkingAvatar.jsx, which drives the mouth only.  Its
  state is \<^verbatim>\<open>tRef\<close>, the expression values and the group's \<^verbatim>\<open>rotation.y\<close>.
\<close>

definition useFrame_copy ::
  "tick \<Rightarrow> real \<times> (string \<Rightarrow> real) \<times> real option
   \<Rightarrow> (real \<times> (string \<Rightarrow> real) \<times> real option) option" where
  "useFrame_copy tk st =
     (case tick_vrm tk of
        None \<Rightarrow> Some st
      | Some v \<Rightarrow>
          let t = fst st + delta tk;
              em = expressionManager v;
              ex = fst (snd st);
              grp = snd (snd st)
          in if \<not> em then Some (t, ex, grp)
             else do {
               ex \<leftarrow> setValue em ''ih'' 0 ex;
               ex \<leftarrow> setValue em ''ou'' 0 ex;
               ex \<leftarrow> setValue em ''ee'' 0 ex;
               ex \<leftarrow> setValue em ''oh'' 0 ex;
               ex \<leftarrow> setValue em ''aa'' (mouth_value t (speaking tk)) ex;
               Some (t, ex,
                     (case grp of None \<Rightarrow> None | Some y \<Rightarrow> Some (sin (t * 0.2) * 0.05)))
             })"

subsection \<open>Auxiliary notions\<close>

text \<open>The rotation after the assignments of a block, and the pose after the block.\<close>

definition apply_writes :: "(axis \<times> real) list \<Rightarrow> rotation \<Rightarrow> rotation" where
  "apply_writes ws q = fold (\<lambda>w. set_axis (fst w) (snd w)) ws q"

definition written ::
  "VRMHumanBoneName option \<Rightarrow> (axis \<times> real) list \<Rightarrow> pose \<Rightarrow> pose" where
  "written node ws p =
     (case node of
        None \<Rightarrow> p
      | Some n \<Rightarrow> p(n := apply_writes ws (p n)))"

text \<open>
  The comparison \<^verbatim>\<open>measureRaiseSign\<close> makes: the height of the hand with the upper
  arm turned by \<open>+0.18\<close> against its height with the upper arm turned by \<open>-0.18\<close>.
\<close>

definition raise_sign :: "vrm \<Rightarrow> VRMHumanBoneName \<Rightarrow> VRMHumanBoneName \<Rightarrow> pose \<Rightarrow> real" where
  "raise_sign v u h p =
     (if matrixWorld_y v (p(u := (p u)\<lparr>rot_z := rot_z (p u) + 0.18\<rparr>)) h
         > matrixWorld_y v (p(u := (p u)\<lparr>rot_z := rot_z (p u) - 0.18\<rparr>)) h
      then 1 else - 1)"

text \<open>What one frame with a model makes of \<^verbatim>\<open>gestureRef\<close>.\<close>

definition gesture_step :: "variant \<Rightarrow> tick \<Rightarrow> gesture \<Rightarrow> gesture" where
  "gesture_step var tk g0 =
     (if \<not> eligible var tk then g0\<lparr>g_active := False, g_next := 2.5\<rparr>
      else
        let g = gesture_trigger var tk g0 in
        if g_active g then
          let g = g\<lparr>g_t := g_t g + delta tk\<rparr> in
          if g_t g \<ge> g_dur g then g\<lparr>g_active := False\<rparr> else g
        else g)"

text \<open>
  Whether a frame overlays a gesture: the tick is eligible and, the countdown served, a
  gesture is active.
\<close>

definition waving :: "variant \<Rightarrow> tick \<Rightarrow> gesture \<Rightarrow> bool" where
  "waving var tk g = (eligible var tk \<and> g_active (gesture_trigger var tk g))"

text \<open>The bones a frame works on, and whether the frame runs the calibration.\<close>

definition frame_bones :: "vrm \<Rightarrow> scene \<Rightarrow> bones" where
  "frame_bones v s =
     (case (if bonesRef s = None then getBones (Some v) else bonesRef s) of
        None \<Rightarrow> no_bones
      | Some bs \<Rightarrow> bs)"

definition calibrating :: "variant \<Rightarrow> tick \<Rightarrow> scene \<Rightarrow> bool" where
  "calibrating var tk s =
     (case tick_vrm tk of
        None \<Rightarrow> False
      | Some v \<Rightarrow> calibration_due var (frame_bones v s) (dirRef s))"

text \<open>Whether a rig exposes the bones that the guard of the calibration asks for.\<close>

definition calibration_rig :: "variant \<Rightarrow> vrm \<Rightarrow> bool" where
  "calibration_rig var v =
     (getNormalizedBoneNode v LeftUpperArm \<noteq> None
      \<and> getNormalizedBoneNode v RightUpperArm \<noteq> None
      \<and> getNormalizedBoneNode v LeftHand \<noteq> None
      \<and> getNormalizedBoneNode v RightHand \<noteq> None
      \<and> (if needs_shoulders var
          then getNormalizedBoneNode v LeftShoulder \<noteq> None
               \<and> getNormalizedBoneNode v RightShoulder \<noteq> None
          else True))"

text \<open>The number of frames of a run that run the calibration.\<close>

fun calibrations :: "variant \<Rightarrow> tick list \<Rightarrow> scene \<Rightarrow> nat" where
  "calibrations var [] s = 0"
| "calibrations var (tk # tks) s =
     (if calibrating var tk s then 1 else 0)
     + (case useFrame var tk s of
          None \<Rightarrow> 0
        | Some s' \<Rightarrow> calibrations var tks s')"

text \<open>The range of the blink state: the weight, the wait, and the idle phase at weight 0.\<close>

definition blink_in_range :: "blink \<Rightarrow> bool" where
  "blink_in_range B =
     (0 \<le> b_v B \<and> b_v B \<le> 1 \<and> 1.5 \<le> b_nextBlink B \<and> b_nextBlink B \<le> 3.5
      \<and> b_phase B \<le> 2 \<and> (if b_phase B = 0 then b_v B = 0 else True))"

text \<open>A sinusoid of angular frequency \<open>w\<close> and phase \<open>ph\<close>, normalised to \<open>[0, 1]\<close>.\<close>

definition normalized_sinusoid :: "real \<Rightarrow> real \<Rightarrow> real \<Rightarrow> real" where
  "normalized_sinusoid w ph t = (sin (w * t + ph) + 1) / 2"

subsection \<open>Example inputs\<close>

text \<open>
  A rig with a head, both upper arms and both hands, and an expression manager; its
  hands rise with the z rotation of the left upper arm and against that of the right.
\<close>

definition example_vrm :: vrm where
  "example_vrm =
     \<lparr>humanoid = Some {Head, LeftUpperArm, RightUpperArm, LeftHand, RightHand},
      expressionManager = True,
      matrixWorld_y = (\<lambda>p n. if n = LeftHand then rot_z (p LeftUpperArm)
                              else if n = RightHand then - rot_z (p RightUpperArm)
                              else 0)\<rparr>"

definition example_tick :: "real \<Rightarrow> bool \<Rightarrow> bool \<Rightarrow> tick" where
  "example_tick dt spk gst =
     \<lparr>tick_vrm = Some example_vrm, delta = dt, speaking = spk, gestures = gst,
      random_side = 0.25, random_dur = 0.25, random_next = 0.25, random_blink = 0.5\<rparr>"

definition example_pose :: pose where
  "example_pose = (\<lambda>n. \<lparr>rot_x = 0, rot_y = 0, rot_z = 0\<rparr>)"

definition example_scene :: scene where
  "example_scene = mounted 0.5 example_pose (\<lambda>n. 0) (Some 0)"

text \<open>The example scene after a frame of 2 s, and after a further frame of 0.5 s.\<close>

definition example_scene_1 :: scene where
  "example_scene_1 =
     the (useFrame TalkingAvatar_copy_4 (example_tick 2 True True) example_scene)"

definition example_scene_2 :: scene where
  "example_scene_2 =
     the (useFrame TalkingAvatar_copy_4 (example_tick 0.5 True True) example_scene_1)"

text \<open>A rig with every bone the callback looks up, and frames of it.\<close>

definition example_full_vrm :: vrm where
  "example_full_vrm = example_vrm\<lparr>humanoid := Some UNIV\<rparr>"

definition example_full_tick :: "real \<Rightarrow> bool \<Rightarrow> bool \<Rightarrow> tick" where
  "example_full_tick dt spk gst = (example_tick dt spk gst)\<lparr>tick_vrm := Some example_full_vrm\<rparr>"

text \<open>
  A rig whose only bone is the upper chest, the example rig without its expression
  manager, and frames of any model or of none.
\<close>

definition example_upper_chest_vrm :: vrm where
  "example_upper_chest_vrm = example_vrm\<lparr>humanoid := Some {UpperChest}\<rparr>"

definition example_no_em_vrm :: vrm where
  "example_no_em_vrm = example_vrm\<lparr>expressionManager := False\<rparr>"

definition example_tick_of :: "vrm option \<Rightarrow> real \<Rightarrow> bool \<Rightarrow> bool \<Rightarrow> tick" where
  "example_tick_of vo dt spk gst = (example_tick dt spk gst)\<lparr>tick_vrm := vo\<rparr>"

section \<open>Properties\<close>

subsection \<open>Viseme classifier\<close>

lemma regex_test_inter: "regex_test cls w = (set cls \<inter> set w \<noteq> {})"
  by (auto simp: regex_test_def list_ex_iff)

lemma lowered_member:
  "(x \<in> set (replace_non_az (toLowerCase word))) =
     (97 \<le> x \<and> x \<le> 122 \<and> (\<exists>c \<in> set word. x \<in> set (toLowerCase_unit c)))"
  by (auto simp: replace_non_az_def toLowerCase_def)

lemma unit_lowered:
  "(111 \<in> set (toLowerCase_unit c)) = (c = 79 \<or> c = 111)"
  "(101 \<in> set (toLowerCase_unit c)) = (c = 69 \<or> c = 101)"
  "(105 \<in> set (toLowerCase_unit c)) = (c = 73 \<or> c = 105 \<or> c = 304)"
  "(121 \<in> set (toLowerCase_unit c)) = (c = 89 \<or> c = 121)"
  "(117 \<in> set (toLowerCase_unit c)) = (c = 85 \<or> c = 117)"
  "(119 \<in> set (toLowerCase_unit c)) = (c = 87 \<or> c = 119)"
  unfolding toLowerCase_unit_def by (simp_all; arith)+

lemma lowered_o:
  "(111 \<in> set (replace_non_az (toLowerCase word))) = (set word \<inter> {79, 111} \<noteq> {})"
  by (auto simp: lowered_member unit_lowered)

lemma lowered_e:
  "(101 \<in> set (replace_non_az (toLowerCase word))) = (set word \<inter> {69, 101} \<noteq> {})"
  by (auto simp: lowered_member unit_lowered)

lemma lowered_i:
  "(105 \<in> set (replace_non_az (toLowerCase word))) = (set word \<inter> {73, 105, 304} \<noteq> {})"
  by (auto simp: lowered_member unit_lowered)

lemma lowered_y:
  "(121 \<in> set (replace_non_az (toLowerCase word))) = (set word \<inter> {89, 121} \<noteq> {})"
  by (auto simp: lowered_member unit_lowered)

lemma lowered_u:
  "(117 \<in> set (replace_non_az (toLowerCase word))) = (set word \<inter> {85, 117} \<noteq> {})"
  by (auto simp: lowered_member unit_lowered)

lemma lowered_w:
  "(119 \<in> set (replace_non_az (toLowerCase word))) = (set word \<inter> {87, 119} \<noteq> {})"
  by (auto simp: lowered_member unit_lowered)

text \<open>The replace leaves none of the phonetic letters that the classes of the source list.\<close>

lemma lowered_no_ipa:
  "596 \<notin> set (replace_non_az (toLowerCase word))"
  "594 \<notin> set (replace_non_az (toLowerCase word))"
  "603 \<notin> set (replace_non_az (toLowerCase word))"
  "618 \<notin> set (replace_non_az (toLowerCase word))"
  "650 \<notin> set (replace_non_az (toLowerCase word))"
  by (simp_all add: lowered_member)

lemma pick_raw:
  "pickExpressionFromWord enum word =
     enum (if set word \<inter> {79, 111} \<noteq> {} then MemberO
           else if set word \<inter> {69, 101} \<noteq> {} then MemberE
           else if set word \<inter> {73, 105, 304, 89, 121} \<noteq> {} then MemberI
           else if set word \<inter> {85, 117, 87, 119} \<noteq> {} then MemberU
           else MemberAa)"
proof (cases "word = []")
  case True
  then show ?thesis by (simp add: pickExpressionFromWord_def)
next
  case False
  have o: "(set [111, 596, 594] \<inter> set (replace_non_az (toLowerCase word)) \<noteq> {}) =
           (set word \<inter> {79, 111} \<noteq> {})"
    using lowered_o [of word] lowered_no_ipa [of word] by auto
  have e: "(set [101, 603] \<inter> set (replace_non_az (toLowerCase word)) \<noteq> {}) =
           (set word \<inter> {69, 101} \<noteq> {})"
    using lowered_e [of word] lowered_no_ipa [of word] by auto
  have i: "(set [105, 618, 121] \<inter> set (replace_non_az (toLowerCase word)) \<noteq> {}) =
           (set word \<inter> {73, 105, 304, 89, 121} \<noteq> {})"
    using lowered_i [of word] lowered_y [of word] lowered_no_ipa [of word] by auto
  have u: "(set [117, 650, 119] \<inter> set (replace_non_az (toLowerCase word)) \<noteq> {}) =
           (set word \<inter> {85, 117, 87, 119} \<noteq> {})"
    using lowered_u [of word] lowered_w [of word] lowered_no_ipa [of word] by auto
  have o1: "(set [111] \<inter> set (replace_non_az (toLowerCase word)) \<noteq> {}) =
            (set word \<inter> {79, 111} \<noteq> {})"
    using lowered_o [of word] by auto
  have e1: "(set [101] \<inter> set (replace_non_az (toLowerCase word)) \<noteq> {}) =
            (set word \<inter> {69, 101} \<noteq> {})"
    using lowered_e [of word] by auto
  have i1: "set [105] \<inter> set (replace_non_az (toLowerCase word)) \<noteq> {} \<Longrightarrow>
            set word \<inter> {73, 105, 304, 89, 121} \<noteq> {}"
    using lowered_i [of word] by auto
  have u1: "set [117] \<inter> set (replace_non_az (toLowerCase word)) \<noteq> {} \<Longrightarrow>
            set word \<inter> {85, 117, 87, 119} \<noteq> {}"
    using lowered_u [of word] by auto
  show ?thesis
    unfolding pickExpressionFromWord_def Let_def regex_test_inter o e i u o1 e1
    using False i1 u1 by auto
qed

lemma letters_member:
  "(l \<in> set (lower_case_letters word)) = (\<exists>c \<in> set word. lower_case_letter c = Some l)"
  by (auto simp: lower_case_letters_def split: option.splits) (metis bexI)

lemma letter_vowel:
  "(lower_case_letter c = Some CHR ''o'') = (c = 79 \<or> c = 111)"
  "(lower_case_letter c = Some CHR ''e'') = (c = 69 \<or> c = 101)"
  "(lower_case_letter c = Some CHR ''i'') = (c = 73 \<or> c = 105 \<or> c = 304)"
  "(lower_case_letter c = Some CHR ''y'') = (c = 89 \<or> c = 121)"
  "(lower_case_letter c = Some CHR ''u'') = (c = 85 \<or> c = 117)"
  "(lower_case_letter c = Some CHR ''w'') = (c = 87 \<or> c = 119)"
  by (simp_all add: lower_case_letter_def code_units_def)

lemma classify_raw:
  "classify word =
     (if set word \<inter> {79, 111} \<noteq> {} then MemberO
      else if set word \<inter> {69, 101} \<noteq> {} then MemberE
      else if set word \<inter> {73, 105, 304, 89, 121} \<noteq> {} then MemberI
      else if set word \<inter> {85, 117, 87, 119} \<noteq> {} then MemberU
      else MemberAa)"
proof -
  have o: "(set ''o'' \<inter> set (lower_case_letters word) \<noteq> {}) = (set word \<inter> {79, 111} \<noteq> {})"
    by (auto simp: letters_member letter_vowel)
  have e: "(set ''e'' \<inter> set (lower_case_letters word) \<noteq> {}) = (set word \<inter> {69, 101} \<noteq> {})"
    by (auto simp: letters_member letter_vowel)
  have i: "(set ''iy'' \<inter> set (lower_case_letters word) \<noteq> {}) =
           (set word \<inter> {73, 105, 304, 89, 121} \<noteq> {})"
    by (auto simp: letters_member letter_vowel)
  have u: "(set ''uw'' \<inter> set (lower_case_letters word) \<noteq> {}) =
           (set word \<inter> {85, 117, 87, 119} \<noteq> {})"
    by (auto simp: letters_member letter_vowel)
  show ?thesis
    unfolding classify_def vowel_priority_def using o e i u by simp
qed

lemma unit_is_letter:
  "filter (\<lambda>c. 97 \<le> c \<and> c \<le> 122) (toLowerCase_unit c) =
     map of_char (case lower_case_letter c of Some l \<Rightarrow> [l] | None \<Rightarrow> [])"
proof (cases "c \<in> set (code_units ''ABCDEFGHIJKLMNOPQRSTUVWXYZ''
                      @ code_units ''abcdefghijklmnopqrstuvwxyz'' @ [304, 8490])")
  case True
  then show ?thesis
    by (auto simp: toLowerCase_unit_def lower_case_letter_def code_units_def)
next
  case False
  then have n: "lower_case_letter c = None"
    by (simp add: lower_case_letter_def code_units_def)
  have "\<not> (65 \<le> c \<and> c \<le> 90)" "\<not> (97 \<le> c \<and> c \<le> 122)" "c \<noteq> 304" "c \<noteq> 8490"
    using False by (simp_all add: code_units_def; arith)+
  then show ?thesis using n by (simp add: toLowerCase_unit_def)
qed

lemma lowered_is_letters:
  "replace_non_az (toLowerCase word) = code_units (lower_case_letters word)"
  by (induction word)
     (simp_all add: replace_non_az_def toLowerCase_def lower_case_letters_def code_units_def
        unit_is_letter)

lemma pick_examples:
  "pickExpressionFromWord enum (code_units ''oh'') = enum MemberO"
  "pickExpressionFromWord enum (code_units ''see'') = enum MemberE"
  "pickExpressionFromWord enum [] = enum MemberAa"
  "pickExpressionFromWord enum (code_units ''mmm'') = enum MemberAa"
  "pickExpressionFromWord enum (code_units ''OH!'') = enum MemberO"
  "pickExpressionFromWord enum (code_units ''S-E-E'') = enum MemberE"
  "pickExpressionFromWord enum (code_units ''Why?'') = enum MemberI"
  "pickExpressionFromWord enum (code_units ''Hmm, 42'') = enum MemberAa"
  "pickExpressionFromWord enum [304] = enum MemberI"
  "pickExpressionFromWord enum [596] = enum MemberAa"
  "replace_non_az (toLowerCase (code_units ''Hello, World!'')) = code_units ''helloworld''"
  by (simp_all add: pickExpressionFromWord_def replace_non_az_def toLowerCase_def
        toLowerCase_unit_def regex_test_def code_units_def)

text \<open>
  Claim C1.  For every word, \<open>pickExpressionFromWord\<close> lower-cases it, strips what is
  not a letter, and returns the first vowel class, in the order O, E, I, U, that has a
  letter in the result; it returns the open jaw Aa when no class matches or the word is
  empty.  The lowered and stripped word of the code is the word of lower-case letters
  of the specification, and the member returned is the one the specification's
  classifier names.  Read on the code units of the word itself: O when the word has
  \<^verbatim>\<open>o\<close> or \<^verbatim>\<open>O\<close>; else E when it has \<^verbatim>\<open>e\<close> or \<^verbatim>\<open>E\<close>; else I when it has
  \<^verbatim>\<open>i\<close>, \<^verbatim>\<open>I\<close>, \<^verbatim>\<open>y\<close>, \<^verbatim>\<open>Y\<close> or U+0130; else U when it has \<^verbatim>\<open>u\<close>,
  \<^verbatim>\<open>U\<close>, \<^verbatim>\<open>w\<close> or \<^verbatim>\<open>W\<close>; else Aa.  In particular "oh" is O, "see" is E, and
  the empty word and "mmm" are Aa; capitals and punctuation make no difference
  ("OH!", "S-E-E", "Why?"), U+0130 alone is I, and the phonetic letter U+0254 alone,
  which the replace strips, is Aa.
\<close>

theorem pickExpressionFromWord_first_vowel_class:
  "pickExpressionFromWord enum word = enum (classify word)
   \<and> replace_non_az (toLowerCase word) = code_units (lower_case_letters word)
   \<and> pickExpressionFromWord enum word =
       enum (if set word \<inter> {79, 111} \<noteq> {} then MemberO
             else if set word \<inter> {69, 101} \<noteq> {} then MemberE
             else if set word \<inter> {73, 105, 304, 89, 121} \<noteq> {} then MemberI
             else if set word \<inter> {85, 117, 87, 119} \<noteq> {} then MemberU
             else MemberAa)
   \<and> pickExpressionFromWord enum (code_units ''oh'') = enum MemberO
   \<and> pickExpressionFromWord enum (code_units ''see'') = enum MemberE
   \<and> pickExpressionFromWord enum [] = enum MemberAa
   \<and> pickExpressionFromWord enum (code_units ''mmm'') = enum MemberAa
   \<and> pickExpressionFromWord enum (code_units ''OH!'') = enum MemberO
   \<and> pickExpressionFromWord enum (code_units ''S-E-E'') = enum MemberE
   \<and> pickExpressionFromWord enum (code_units ''Why?'') = enum MemberI
   \<and> pickExpressionFromWord enum (code_units ''Hmm, 42'') = enum MemberAa
   \<and> pickExpressionFromWord enum [304] = enum MemberI
   \<and> pickExpressionFromWord enum [596] = enum MemberAa
   \<and> replace_non_az (toLowerCase (code_units ''Hello, World!'')) = code_units ''helloworld''"
proof -
  have "pickExpressionFromWord enum word = enum (classify word)"
    by (simp only: pick_raw classify_raw)
  then show ?thesis
    using lowered_is_letters [of word] pick_raw [of enum word] pick_examples
    by (intro conjI) simp_all
qed

subsection \<open>Expression drive\<close>

lemma pow82_threshold: "((0.82::real) ^ n < 0.02) = (20 \<le> n)"
proof
  assume lt: "(0.82::real) ^ n < 0.02"
  show "20 \<le> n"
  proof (rule ccontr)
    assume "\<not> 20 \<le> n"
    then have "n \<le> 19" by simp
    then have "(0.82::real) ^ 19 \<le> 0.82 ^ n"
      by (intro power_decreasing) simp_all
    moreover have "(0.02::real) \<le> 0.82 ^ 19" by (simp add: power_divide)
    ultimately show False using lt by linarith
  qed
next
  assume "20 \<le> n"
  then have "(0.82::real) ^ n \<le> 0.82 ^ 20"
    by (intro power_decreasing) simp_all
  moreover have "(0.82::real) ^ 20 < 0.02" by (simp add: power_divide)
  ultimately show "(0.82::real) ^ n < 0.02" by linarith
qed

lemma useFrame_loaded_active:
  assumes "0 < w" "n \<noteq> []"
  shows "snd (VRMModel_useFrame enum names (True, dt)
               (em, d\<lparr>drive_name := Some n, drive_weight := w\<rparr>)) =
         (if w * 0.82 < 0.02 then d\<lparr>drive_name := None, drive_weight := 0\<rparr>
          else d\<lparr>drive_name := Some n, drive_weight := w * 0.82\<rparr>)"
  using assms by (simp add: VRMModel_useFrame_def Let_def)

lemma useFrame_loaded_cleared:
  "snd (VRMModel_useFrame enum names (True, dt)
         (em, d\<lparr>drive_name := None, drive_weight := 0\<rparr>)) =
     d\<lparr>drive_name := None, drive_weight := 0\<rparr>"
  by (simp add: VRMModel_useFrame_def Let_def)

lemma useFrame_unloaded: "VRMModel_useFrame enum names (False, dt) st = st"
  by (simp add: VRMModel_useFrame_def Let_def)

lemma useFrame_falsy_name:
  assumes "\<not> truthy (drive_name d)"
  shows "snd (VRMModel_useFrame enum names fr (em, d)) = d"
  using assms
  by (cases fr) (auto simp: VRMModel_useFrame_def Let_def truthy_def split: option.splits)

lemma frames_snoc:
  "VRMModel_frames enum names (frs @ [fr]) st =
     VRMModel_useFrame enum names fr (VRMModel_frames enum names frs st)"
  by (simp add: VRMModel_frames_def)

lemma drive_after_frames:
  assumes "pickExpressionFromWord enum word = Some n" "n \<noteq> []"
  shows "snd (VRMModel_frames enum names frs (em, onWord enum word d)) =
     (if (0.82::real) ^ length (filter fst frs) < 0.02
      then d\<lparr>drive_name := None, drive_weight := 0\<rparr>
      else d\<lparr>drive_name := Some n, drive_weight := 0.82 ^ length (filter fst frs)\<rparr>)"
proof (induction frs rule: rev_induct)
  case Nil
  show ?case using assms by (simp add: VRMModel_frames_def onWord_def)
next
  case (snoc fr frs)
  let ?k = "length (filter fst frs)"
  obtain em' d' where st: "VRMModel_frames enum names frs (em, onWord enum word d) = (em', d')"
    by (cases "VRMModel_frames enum names frs (em, onWord enum word d)")
  have IH: "d' = (if (0.82::real) ^ ?k < 0.02
      then d\<lparr>drive_name := None, drive_weight := 0\<rparr>
      else d\<lparr>drive_name := Some n, drive_weight := 0.82 ^ ?k\<rparr>)"
    using snoc.IH st by simp
  obtain loaded dt where fr: "fr = (loaded, dt)" by (cases fr)
  show ?case
  proof (cases loaded)
    case False
    then show ?thesis
      using IH st fr by (simp add: frames_snoc useFrame_unloaded)
  next
    case True
    show ?thesis
    proof (cases "(0.82::real) ^ ?k < 0.02")
      case lt: True
      then have "20 \<le> ?k" using pow82_threshold [of ?k] by blast
      then have "20 \<le> Suc ?k" by simp
      then have "(0.82::real) ^ Suc ?k < 0.02"
        using pow82_threshold [of "Suc ?k"] by blast
      then show ?thesis
        using lt True IH st fr useFrame_loaded_cleared [of enum names dt em' d]
        by (simp add: frames_snoc)
    next
      case ge: False
      have pos: "(0::real) < 0.82 ^ ?k" by simp
      show ?thesis
        using ge True IH st fr
          useFrame_loaded_active [OF pos assms(2), of enum names dt em' d]
        by (simp add: frames_snoc mult.commute)
    qed
  qed
qed

text \<open>
  Claim C2.  A word-boundary event pulses the drive to weight 1 under the preset name
  of the word.  When that name is defined and not empty, then over the frames that
  follow without a further pulse the drive keeps the name and has the weight
  \<open>0.82 ^ n\<close>, \<open>n\<close> counting the frames in which the model and its expression manager
  are loaded, as long as that is at least \<open>0.02\<close>; the loaded frame that takes the
  weight below \<open>0.02\<close> clears the drive to no name and weight 0, and it stays cleared.
  That frame is the twentieth loaded one.  A frame without a loaded model leaves the
  drive as it is.
\<close>

theorem viseme_drive_geometric_decay:
  assumes "truthy (pickExpressionFromWord enum word)"
  shows "snd (VRMModel_frames enum names frs (em, onWord enum word d)) =
           (if (0.82::real) ^ length (filter fst frs) < 0.02
            then d\<lparr>drive_name := None, drive_weight := 0\<rparr>
            else d\<lparr>drive_name := pickExpressionFromWord enum word,
                   drive_weight := 0.82 ^ length (filter fst frs)\<rparr>)
         \<and> (((0.82::real) ^ length (filter fst frs) < 0.02) = (20 \<le> length (filter fst frs)))"
proof -
  obtain n where n: "pickExpressionFromWord enum word = Some n" "n \<noteq> []"
    using assms by (auto simp: truthy_def split: option.splits)
  show ?thesis
    using drive_after_frames [OF n, of names frs em d] n(1)
      pow82_threshold [of "length (filter fst frs)"]
    by simp
qed

theorem viseme_drive_geometric_decay_witness:
  "truthy (pickExpressionFromWord example_enum (code_units ''oh''))
   \<and> snd (VRMModel_frames example_enum [''aa'', ''o'']
            [(True, 0.016), (False, 0.016), (True, 0.02)]
            (Map.empty, onWord example_enum (code_units ''oh'')
                          \<lparr>drive_name = None, drive_weight = 0\<rparr>))
       = \<lparr>drive_name = Some ''o'', drive_weight = 0.6724\<rparr>
   \<and> snd (VRMModel_frames example_enum [''aa'', ''o''] (replicate 20 (True, 0.016))
            (Map.empty, onWord example_enum (code_units ''oh'')
                          \<lparr>drive_name = None, drive_weight = 0\<rparr>))
       = \<lparr>drive_name = None, drive_weight = 0\<rparr>"
proof -
  have ex: "pickExpressionFromWord example_enum (code_units ''oh'') = Some ''o''"
    by (simp add: pickExpressionFromWord_def replace_non_az_def toLowerCase_def
        toLowerCase_unit_def regex_test_def code_units_def example_enum_def)
  have t: "truthy (pickExpressionFromWord example_enum (code_units ''oh''))"
    by (simp add: ex truthy_def)
  have w2: "\<not> (0.82::real) ^ 2 < 0.02" "(0.82::real) ^ 2 = 0.6724"
    by (simp_all add: power_divide)
  have w20: "(0.82::real) ^ 20 < 0.02" by (simp add: power_divide)
  have a: "snd (VRMModel_frames example_enum [''aa'', ''o'']
            [(True, 0.016), (False, 0.016), (True, 0.02)]
            (Map.empty, onWord example_enum (code_units ''oh'')
                          \<lparr>drive_name = None, drive_weight = 0\<rparr>))
       = \<lparr>drive_name = Some ''o'', drive_weight = 0.6724\<rparr>"
    using viseme_drive_geometric_decay [OF t, of "[''aa'', ''o'']"
        "[(True, 0.016), (False, 0.016), (True, 0.02)]" Map.empty
        "\<lparr>drive_name = None, drive_weight = 0\<rparr>"] ex w2
    by simp
  have b: "snd (VRMModel_frames example_enum [''aa'', ''o''] (replicate 20 (True, 0.016))
            (Map.empty, onWord example_enum (code_units ''oh'')
                          \<lparr>drive_name = None, drive_weight = 0\<rparr>))
       = \<lparr>drive_name = None, drive_weight = 0\<rparr>"
    using viseme_drive_geometric_decay [OF t, of "[''aa'', ''o'']"
        "replicate 20 (True, 0.016)" Map.empty
        "\<lparr>drive_name = None, drive_weight = 0\<rparr>"] w20
    by simp
  show ?thesis using t a b by blast
qed

text \<open>
  The weight is not \<open>0.82 ^ n\<close> after every \<open>n\<close> frames.  A frame that finds no
  loaded model returns before the decay: one such frame after the pulse for "oh"
  leaves the weight at 1, not at 0.82.  And when \<^verbatim>\<open>VRMExpressionPresetName\<close> has no
  member \<^verbatim>\<open>O\<close>, the pulse stores the name \<^verbatim>\<open>undefined\<close>, the frame of a loaded
  model skips the driven expression together with the decay, and the weight stays 1.
\<close>

theorem viseme_drive_no_decay_counterexample:
  "snd (VRMModel_frames example_enum [''aa'', ''o''] [(False, 0.016)]
         (Map.empty, onWord example_enum (code_units ''oh'')
                       \<lparr>drive_name = None, drive_weight = 0\<rparr>))
     = \<lparr>drive_name = Some ''o'', drive_weight = 1\<rparr>
   \<and> snd (VRMModel_frames example_enum_aa [''aa''] [(True, 0.016)]
           (Map.empty, onWord example_enum_aa (code_units ''oh'')
                         \<lparr>drive_name = None, drive_weight = 0\<rparr>))
       = \<lparr>drive_name = None, drive_weight = 1\<rparr>
   \<and> (1::real) \<noteq> 0.82 ^ 1"
  by (simp add: VRMModel_frames_def VRMModel_useFrame_def onWord_def Let_def
      pickExpressionFromWord_def replace_non_az_def toLowerCase_def toLowerCase_unit_def
      regex_test_def code_units_def example_enum_def example_enum_aa_def decay_presets_def)

subsection \<open>The blocks of the frame callback\<close>

lemma write_all_Some:
  "write_all (Some n) ws p = Some (p(n := apply_writes ws (p n)))"
  by (induction ws arbitrary: p) (simp_all add: apply_writes_def write_rotation_def)

lemma if_present_written: "if_present node ws p = Some (written node ws p)"
  by (cases node) (simp_all add: if_present_def written_def write_all_Some)

lemma written_apply:
  "written node ws p n = (if node = Some n then apply_writes ws (p n) else p n)"
  by (cases node) (auto simp: written_def)

lemma measureRaiseSign_Some:
  "measureRaiseSign v (Some u) (Some h) p = Some (raise_sign v u h p, p)"
  by (simp add: measureRaiseSign_def read_rotation_z_def write_rotation_def
      world_height_def raise_sign_def set_axis_def)

lemma calibrate_due:
  assumes "calibration_due var b d"
  shows "calibrate var v b (d, p) =
     Some (d\<lparr>dir_l := raise_sign v (the (lUpperArm b)) (the (lHand b)) p,
             dir_r := raise_sign v (the (rUpperArm b)) (the (rHand b)) p,
             dir_done := True\<rparr>, p)"
proof -
  from assms obtain lu ru lh rh where
    "lUpperArm b = Some lu" "rUpperArm b = Some ru" "lHand b = Some lh" "rHand b = Some rh"
    by (auto simp: calibration_due_def)
  with assms show ?thesis
    by (simp add: calibrate_def measureRaiseSign_Some)
qed

lemma calibrate_not_due:
  "\<not> calibration_due var b d \<Longrightarrow> calibrate var v b (d, p) = Some (d, p)"
  by (simp add: calibrate_def)

lemma idle_sway_Some: "\<exists>p'. idle_sway b t p = Some p'"
  by (simp add: idle_sway_def if_present_written)

lemma arms_rest_Some: "\<exists>p'. arms_rest b t l r p = Some p'"
  by (simp add: arms_rest_def if_present_written Let_def)

lemma gesture_overlay_Some: "\<exists>p'. gesture_overlay b t l r g p = Some p'"
  by (simp add: gesture_overlay_def if_present_written Let_def)

lemma wave_gesture_Some:
  "\<exists>p'. wave_gesture var b tk t l r (g, p) = Some (gesture_step var tk g, p')"
proof -
  obtain p' where "gesture_overlay b t l r
     ((gesture_trigger var tk g)\<lparr>g_t := g_t (gesture_trigger var tk g) + delta tk\<rparr>) p = Some p'"
    using gesture_overlay_Some by blast
  then show ?thesis
    by (simp add: wave_gesture_def gesture_step_def Let_def)
qed

lemma mouth_blink_em:
  "mouth_blink True tk t (ex, B) =
     Some (ex(''ih'' := 0, ''ou'' := 0, ''ee'' := 0, ''oh'' := 0,
              ''aa'' := mouth_value t (speaking tk),
              ''blink'' := clamp01 (b_v (blink_step tk B))), blink_step tk B)"
  by (simp add: mouth_blink_def setValue_def Let_def)

lemma mouth_blink_no_em: "mouth_blink False tk t (ex, B) = Some (ex, B)"
  by (simp add: mouth_blink_def)

lemma idle_sway_other:
  assumes "idle_sway b t p = Some p'"
    and "spine b \<noteq> Some n" "chest b \<noteq> Some n" "neck b \<noteq> Some n" "head b \<noteq> Some n"
  shows "p' n = p n"
  using assms by (auto simp: idle_sway_def if_present_written written_apply)

lemma arms_rest_other:
  assumes "arms_rest b t l r p = Some p'"
    and "lUpperArm b \<noteq> Some n" "rUpperArm b \<noteq> Some n" "lLowerArm b \<noteq> Some n"
      "rLowerArm b \<noteq> Some n" "lHand b \<noteq> Some n" "rHand b \<noteq> Some n"
      "lShoulder b \<noteq> Some n" "rShoulder b \<noteq> Some n"
  shows "p' n = p n"
  using assms by (auto simp: arms_rest_def Let_def if_present_written written_apply)

lemma gesture_overlay_other:
  assumes "gesture_overlay b t l r g p = Some p'"
    and "lUpperArm b \<noteq> Some n" "rUpperArm b \<noteq> Some n" "lLowerArm b \<noteq> Some n"
      "rLowerArm b \<noteq> Some n" "lHand b \<noteq> Some n" "rHand b \<noteq> Some n"
  shows "p' n = p n"
  using assms
  by (auto simp: gesture_overlay_def Let_def if_present_written written_apply
      split: if_splits)

lemma wave_gesture_other:
  assumes "wave_gesture var b tk t l r (g, p) = Some (g', p')"
    and "lUpperArm b \<noteq> Some n" "rUpperArm b \<noteq> Some n" "lLowerArm b \<noteq> Some n"
      "rLowerArm b \<noteq> Some n" "lHand b \<noteq> Some n" "rHand b \<noteq> Some n"
  shows "p' n = p n"
proof (cases "eligible var tk \<and> g_active (gesture_trigger var tk g)")
  case True
  then obtain q where
    "gesture_overlay b t l r
       ((gesture_trigger var tk g)\<lparr>g_t := g_t (gesture_trigger var tk g) + delta tk\<rparr>) p = Some q"
    and "p' = q"
    using assms(1) by (auto simp: wave_gesture_def Let_def split: bind_splits)
  then show ?thesis
    using gesture_overlay_other assms(2-) by blast
next
  case False
  then show ?thesis
    using assms(1) by (auto simp: wave_gesture_def Let_def split: if_splits)
qed

lemma wave_gesture_idle:
  assumes "wave_gesture var b tk t l r (g, p) = Some (g', p')"
    and "\<not> (eligible var tk \<and> g_active (gesture_trigger var tk g))"
  shows "p' = p"
  using assms by (auto simp: wave_gesture_def Let_def split: if_splits)

text \<open>One frame with a model, block by block.\<close>

lemma useFrame_blocks:
  assumes "tick_vrm tk = Some v"
  obtains d p1 p2 p3 ex B where
    "calibrate var v (frame_bones v s) (dirRef s, joints s) = Some (d, joints s)"
    "idle_sway (frame_bones v s) (tRef s + delta tk) (joints s) = Some p1"
    "arms_rest (frame_bones v s) (tRef s + delta tk) (dir_l d) (dir_r d) p1 = Some p2"
    "wave_gesture var (frame_bones v s) tk (tRef s + delta tk) (dir_l d) (dir_r d)
       (gestureRef s, p2) = Some (gesture_step var tk (gestureRef s), p3)"
    "mouth_blink (expressionManager v) tk (tRef s + delta tk) (expressions s, blinkRef s)
       = Some (ex, B)"
    "useFrame var tk s =
       Some \<lparr>tRef = tRef s + delta tk,
             bonesRef = (if bonesRef s = None then getBones (Some v) else bonesRef s),
             blinkRef = B, gestureRef = gesture_step var tk (gestureRef s),
             dirRef = d, joints = p3, expressions = ex,
             groupRef = (case groupRef s of
                           None \<Rightarrow> None
                         | Some y \<Rightarrow> Some (sin ((tRef s + delta tk) * 0.2) * 0.05))\<rparr>"
proof -
  let ?b = "frame_bones v s" and ?t = "tRef s + delta tk"
  obtain d where c: "calibrate var v ?b (dirRef s, joints s) = Some (d, joints s)"
    using calibrate_due calibrate_not_due by (cases "calibration_due var ?b (dirRef s)") blast+
  obtain p1 where p1: "idle_sway ?b ?t (joints s) = Some p1"
    using idle_sway_Some by blast
  obtain p2 where p2: "arms_rest ?b ?t (dir_l d) (dir_r d) p1 = Some p2"
    using arms_rest_Some by blast
  obtain p3 where p3: "wave_gesture var ?b tk ?t (dir_l d) (dir_r d) (gestureRef s, p2)
       = Some (gesture_step var tk (gestureRef s), p3)"
    using wave_gesture_Some by blast
  obtain ex B where eb: "mouth_blink (expressionManager v) tk ?t (expressions s, blinkRef s)
       = Some (ex, B)"
    using mouth_blink_em mouth_blink_no_em by (cases "expressionManager v") auto
  have "useFrame var tk s =
       Some \<lparr>tRef = ?t,
             bonesRef = (if bonesRef s = None then getBones (Some v) else bonesRef s),
             blinkRef = B, gestureRef = gesture_step var tk (gestureRef s),
             dirRef = d, joints = p3, expressions = ex,
             groupRef = (case groupRef s of
                           None \<Rightarrow> None
                         | Some y \<Rightarrow> Some (sin (?t * 0.2) * 0.05))\<rparr>"
    using assms c p1 p2 p3 eb
    by (simp add: useFrame_def frame_bones_def Let_def)
  with c p1 p2 p3 eb show ?thesis using that by blast
qed

lemma useFrame_no_vrm: "tick_vrm tk = None \<Longrightarrow> useFrame var tk s = Some s"
  by (simp add: useFrame_def)

lemma useFrame_total: "\<exists>s'. useFrame var tk s = Some s'"
proof (cases "tick_vrm tk")
  case None
  then show ?thesis by (simp add: useFrame_no_vrm)
next
  case (Some v)
  then show ?thesis by (rule useFrame_blocks) blast
qed

lemma frames_total: "\<exists>s'. frames var tks s = Some s'"
proof (induction tks arbitrary: s)
  case Nil
  show ?case by simp
next
  case (Cons tk tks)
  obtain s1 where "useFrame var tk s = Some s1" using useFrame_total by blast
  then show ?case using Cons.IH [of s1] by simp
qed

lemma useFrame_gesture:
  assumes "tick_vrm tk = Some v" "useFrame var tk s = Some s'"
  shows "gestureRef s' = gesture_step var tk (gestureRef s)"
  by (rule useFrame_blocks [OF assms(1), of var s]) (use assms(2) in auto)

lemma useFrame_tRef:
  assumes "tick_vrm tk = Some v" "useFrame var tk s = Some s'"
  shows "tRef s' = tRef s + delta tk"
  by (rule useFrame_blocks [OF assms(1), of var s]) (use assms(2) in auto)

lemma useFrame_blink:
  assumes "tick_vrm tk = Some v" "useFrame var tk s = Some s'"
  shows "blinkRef s' = (if expressionManager v then blink_step tk (blinkRef s) else blinkRef s)"
proof (rule useFrame_blocks [OF assms(1), of var s])
  fix d p1 p2 p3 ex B
  assume "mouth_blink (expressionManager v) tk (tRef s + delta tk) (expressions s, blinkRef s)
       = Some (ex, B)"
    and "useFrame var tk s =
       Some \<lparr>tRef = tRef s + delta tk,
             bonesRef = (if bonesRef s = None then getBones (Some v) else bonesRef s),
             blinkRef = B, gestureRef = gesture_step var tk (gestureRef s),
             dirRef = d, joints = p3, expressions = ex,
             groupRef = (case groupRef s of
                           None \<Rightarrow> None
                         | Some y \<Rightarrow> Some (sin ((tRef s + delta tk) * 0.2) * 0.05))\<rparr>"
  then show ?thesis
    using assms(2) mouth_blink_em [of tk "tRef s + delta tk" "expressions s" "blinkRef s"]
      mouth_blink_no_em [of tk "tRef s + delta tk" "expressions s" "blinkRef s"]
    by (cases "expressionManager v") auto
qed

subsection \<open>Gesture scheduling\<close>

lemma gesture_step_ineligible:
  "\<not> eligible var tk \<Longrightarrow> gesture_step var tk g = g\<lparr>g_active := False, g_next := 2.5\<rparr>"
  by (simp add: gesture_step_def)

lemma useFrame_ineligible_pinned:
  assumes "\<not> eligible var tk" "useFrame var tk s = Some s'"
    and "tick_vrm tk \<noteq> None \<or> (\<not> g_active (gestureRef s) \<and> g_next (gestureRef s) = 2.5)"
  shows "\<not> g_active (gestureRef s') \<and> g_next (gestureRef s') = 2.5"
proof (cases "tick_vrm tk")
  case None
  then have "s' = s" using assms(2) by (simp add: useFrame_no_vrm)
  then show ?thesis using assms(3) None by simp
next
  case (Some v)
  then have "gestureRef s' = (gestureRef s)\<lparr>g_active := False, g_next := 2.5\<rparr>"
    using useFrame_gesture [OF Some assms(2)] gesture_step_ineligible [OF assms(1)] by simp
  then show ?thesis by simp
qed

lemma frames_ineligible_pinned:
  assumes "\<forall>tk \<in> set tks. \<not> eligible var tk" "frames var tks s = Some s'"
    and "(\<exists>tk \<in> set tks. tick_vrm tk \<noteq> None)
         \<or> (\<not> g_active (gestureRef s) \<and> g_next (gestureRef s) = 2.5)"
  shows "\<not> g_active (gestureRef s') \<and> g_next (gestureRef s') = 2.5"
  using assms
proof (induction tks arbitrary: s)
  case Nil
  then show ?case by simp
next
  case (Cons tk tks)
  obtain s1 where s1: "useFrame var tk s = Some s1" using useFrame_total by blast
  then have run: "frames var tks s1 = Some s'" using Cons.prems(2) by simp
  have inel: "\<not> eligible var tk" "\<forall>tk \<in> set tks. \<not> eligible var tk"
    using Cons.prems(1) by simp_all
  show ?case
  proof (cases "tick_vrm tk \<noteq> None \<or> (\<not> g_active (gestureRef s) \<and> g_next (gestureRef s) = 2.5)")
    case True
    then have "\<not> g_active (gestureRef s1) \<and> g_next (gestureRef s1) = 2.5"
      using useFrame_ineligible_pinned [OF inel(1) s1] by blast
    then show ?thesis using Cons.IH [OF inel(2) run] by blast
  next
    case False
    then have "\<exists>tk \<in> set tks. tick_vrm tk \<noteq> None" using Cons.prems(3) by auto
    then show ?thesis using Cons.IH [OF inel(2) run] by blast
  qed
qed

lemma eligible_part_000:
  "eligible TalkingAvatar_part_000 tk = (gestures tk \<and> speaking tk)"
  by (simp add: eligible_def TalkingAvatar_part_000_def)

text \<open>
  Claim C3.  In the variant with the gestures toggle, over every run of frames in none
  of which \<^verbatim>\<open>speaking && gestures\<close> holds, no frame throws; a frame with a model
  cancels an active gesture and sets the countdown to 2.5, so after a run with such a
  frame no gesture is active and the countdown is 2.5; and from a state where no gesture
  is active and the countdown is 2.5, as at mount, that holds after every such run.
\<close>

theorem ineligible_ticks_never_gesture:
  assumes "\<forall>tk \<in> set tks. \<not> (speaking tk \<and> gestures tk)"
  shows "\<exists>s'. frames TalkingAvatar_part_000 tks s = Some s'
           \<and> ((\<exists>tk \<in> set tks. tick_vrm tk \<noteq> None)
                \<longrightarrow> \<not> g_active (gestureRef s') \<and> g_next (gestureRef s') = 2.5)
           \<and> (\<not> g_active (gestureRef s) \<and> g_next (gestureRef s) = 2.5
                \<longrightarrow> \<not> g_active (gestureRef s') \<and> g_next (gestureRef s') = 2.5)"
proof -
  obtain s' where run: "frames TalkingAvatar_part_000 tks s = Some s'"
    using frames_total by blast
  have inel: "\<forall>tk \<in> set tks. \<not> eligible TalkingAvatar_part_000 tk"
    using assms by (auto simp: eligible_part_000)
  show ?thesis
    using run frames_ineligible_pinned [OF inel run] by blast
qed

theorem ineligible_ticks_never_gesture_witness:
  "list_all (\<lambda>tk. \<not> (speaking tk \<and> gestures tk))
      [example_tick 0.016 True False, example_tick 3 False True]
   \<and> (\<exists>tk \<in> set [example_tick 0.016 True False, example_tick 3 False True].
         tick_vrm tk \<noteq> None)
   \<and> \<not> g_active (gestureRef example_scene) \<and> g_next (gestureRef example_scene) = 2.5
   \<and> (\<exists>s'. frames TalkingAvatar_part_000
               [example_tick 0.016 True False, example_tick 3 False True] example_scene = Some s'
           \<and> \<not> g_active (gestureRef s') \<and> g_next (gestureRef s') = 2.5)"
proof -
  let ?tks = "[example_tick 0.016 True False, example_tick 3 False True]"
  have h: "\<forall>tk \<in> set ?tks. \<not> (speaking tk \<and> gestures tk)"
    by (simp add: example_tick_def)
  have l: "\<exists>tk \<in> set ?tks. tick_vrm tk \<noteq> None"
    by (simp add: example_tick_def)
  have p: "\<not> g_active (gestureRef example_scene) \<and> g_next (gestureRef example_scene) = 2.5"
    by (simp add: example_scene_def mounted_def)
  have h': "list_all (\<lambda>tk. \<not> (speaking tk \<and> gestures tk)) ?tks"
    using h by (simp add: list_all_iff)
  show ?thesis
    using ineligible_ticks_never_gesture [OF h, of example_scene] h' l p by blast
qed

lemma gesture_step_window:
  assumes "0 < delta tk"
    and "g_active g \<longrightarrow> 0 < g_t g \<and> g_t g < g_dur g"
  shows "g_active (gesture_step var tk g)
         \<longrightarrow> 0 < g_t (gesture_step var tk g)
             \<and> g_t (gesture_step var tk g) < g_dur (gesture_step var tk g)"
  using assms
  by (auto simp: gesture_step_def gesture_trigger_def Let_def split: if_splits)

lemma useFrame_window:
  assumes "0 < delta tk" "useFrame var tk s = Some s'"
    and "g_active (gestureRef s) \<longrightarrow> 0 < g_t (gestureRef s) \<and> g_t (gestureRef s) < g_dur (gestureRef s)"
  shows "g_active (gestureRef s') \<longrightarrow> 0 < g_t (gestureRef s') \<and> g_t (gestureRef s') < g_dur (gestureRef s')"
proof (cases "tick_vrm tk")
  case None
  then show ?thesis using assms by (simp add: useFrame_no_vrm)
next
  case (Some v)
  show ?thesis
    using useFrame_gesture [OF Some assms(2)] gesture_step_window [OF assms(1,3)] by simp
qed

lemma frames_window:
  assumes "\<forall>tk \<in> set tks. 0 < delta tk" "frames var tks s = Some s'"
    and "g_active (gestureRef s) \<longrightarrow> 0 < g_t (gestureRef s) \<and> g_t (gestureRef s) < g_dur (gestureRef s)"
  shows "g_active (gestureRef s') \<longrightarrow> 0 < g_t (gestureRef s') \<and> g_t (gestureRef s') < g_dur (gestureRef s')"
  using assms
proof (induction tks arbitrary: s)
  case Nil
  then show ?case by simp
next
  case (Cons tk tks)
  obtain s1 where s1: "useFrame var tk s = Some s1" using useFrame_total by blast
  then have run: "frames var tks s1 = Some s'" using Cons.prems(2) by simp
  have d: "0 < delta tk" "\<forall>tk \<in> set tks. 0 < delta tk" using Cons.prems(1) by simp_all
  show ?case
    using Cons.IH [OF d(2) run useFrame_window [OF d(1) s1 Cons.prems(3)]] .
qed

lemma gesture_step_below:
  "g_active (gesture_step var tk g)
   \<longrightarrow> g_t (gesture_step var tk g) < g_dur (gesture_step var tk g)"
  by (auto simp: gesture_step_def Let_def split: if_splits)

lemma frames_below:
  assumes "frames var tks s = Some s'"
    and "g_active (gestureRef s) \<longrightarrow> g_t (gestureRef s) < g_dur (gestureRef s)"
  shows "g_active (gestureRef s') \<longrightarrow> g_t (gestureRef s') < g_dur (gestureRef s')"
  using assms
proof (induction tks arbitrary: s)
  case Nil
  then show ?case by simp
next
  case (Cons tk tks)
  obtain s1 where s1: "useFrame var tk s = Some s1" using useFrame_total by blast
  then have run: "frames var tks s1 = Some s'" using Cons.prems(1) by simp
  have "g_active (gestureRef s1) \<longrightarrow> g_t (gestureRef s1) < g_dur (gestureRef s1)"
  proof (cases "tick_vrm tk")
    case None
    then show ?thesis using s1 Cons.prems(2) by (simp add: useFrame_no_vrm)
  next
    case (Some v)
    show ?thesis
      using useFrame_gesture [OF Some s1] gesture_step_below [of var tk "gestureRef s"] by simp
  qed
  then show ?case using Cons.IH [OF run] by blast
qed

lemma gesture_step_dur:
  assumes "0 \<le> random_dur tk" "1.1 \<le> g_dur g"
  shows "1.1 \<le> g_dur (gesture_step var tk g)"
  using assms
  by (auto simp: gesture_step_def gesture_trigger_def Let_def split: if_splits)

lemma frames_dur:
  assumes "\<forall>tk \<in> set tks. 0 \<le> random_dur tk" "frames var tks s = Some s'"
    and "1.1 \<le> g_dur (gestureRef s)"
  shows "1.1 \<le> g_dur (gestureRef s')"
  using assms
proof (induction tks arbitrary: s)
  case Nil
  then show ?case by simp
next
  case (Cons tk tks)
  obtain s1 where s1: "useFrame var tk s = Some s1" using useFrame_total by blast
  then have run: "frames var tks s1 = Some s'" using Cons.prems(2) by simp
  have r: "0 \<le> random_dur tk" "\<forall>tk \<in> set tks. 0 \<le> random_dur tk"
    using Cons.prems(1) by simp_all
  have "1.1 \<le> g_dur (gestureRef s1)"
  proof (cases "tick_vrm tk")
    case None
    then show ?thesis using s1 Cons.prems(3) by (simp add: useFrame_no_vrm)
  next
    case (Some v)
    show ?thesis
      using useFrame_gesture [OF Some s1] gesture_step_dur [OF r(1) Cons.prems(3)] by simp
  qed
  then show ?case using Cons.IH [OF r(2) run] by blast
qed

lemma frames_gesture_fold:
  assumes "\<forall>tk \<in> set tks. tick_vrm tk \<noteq> None" "frames var tks s = Some s'"
  shows "gestureRef s' = fold (gesture_step var) tks (gestureRef s)"
  using assms
proof (induction tks arbitrary: s)
  case Nil
  then show ?case by simp
next
  case (Cons tk tks)
  obtain s1 where s1: "useFrame var tk s = Some s1" using useFrame_total by blast
  then have run: "frames var tks s1 = Some s'" using Cons.prems(2) by simp
  obtain v where v: "tick_vrm tk = Some v" using Cons.prems(1) by auto
  show ?case
    using Cons.IH [OF _ run] Cons.prems(1) useFrame_gesture [OF v s1] by simp
qed

lemma frame_bones_getBones:
  assumes "bonesRef s = None \<or> bonesRef s = getBones (Some v)"
  shows "lUpperArm (frame_bones v s) = getNormalizedBoneNode v LeftUpperArm"
    "rUpperArm (frame_bones v s) = getNormalizedBoneNode v RightUpperArm"
    "lLowerArm (frame_bones v s) = getNormalizedBoneNode v LeftLowerArm"
    "rLowerArm (frame_bones v s) = getNormalizedBoneNode v RightLowerArm"
    "lHand (frame_bones v s) = getNormalizedBoneNode v LeftHand"
    "rHand (frame_bones v s) = getNormalizedBoneNode v RightHand"
    "lShoulder (frame_bones v s) = getNormalizedBoneNode v LeftShoulder"
    "rShoulder (frame_bones v s) = getNormalizedBoneNode v RightShoulder"
    "head (frame_bones v s) = getNormalizedBoneNode v Head"
    "neck (frame_bones v s) = getNormalizedBoneNode v Neck"
    "spine (frame_bones v s) = getNormalizedBoneNode v Spine"
    "chest (frame_bones v s) =
       (case getNormalizedBoneNode v Chest of
          Some c \<Rightarrow> Some c
        | None \<Rightarrow> getNormalizedBoneNode v UpperChest)"
  using assms by (auto simp: frame_bones_def getBones_def)

lemma getNormalizedBoneNode_cases:
  "getNormalizedBoneNode v n = None \<or> getNormalizedBoneNode v n = Some n"
  by (simp add: getNormalizedBoneNode_def split: option.splits)

lemma gesture_step_active:
  assumes "g_active (gesture_step var tk g)"
  shows "eligible var tk" "g_active (gesture_trigger var tk g)"
    "gesture_step var tk g
       = (gesture_trigger var tk g)\<lparr>g_t := g_t (gesture_trigger var tk g) + delta tk\<rparr>"
  using assms by (auto simp: gesture_step_def Let_def split: if_splits)

lemma wave_gesture_active:
  assumes "wave_gesture var b tk t l r (g, p) = Some (g', p')" "g_active g'"
  shows "gesture_overlay b t l r g' p = Some p'"
proof -
  have g': "g' = gesture_step var tk g"
    using assms(1) wave_gesture_Some [of var b tk t l r g p] by auto
  note a = gesture_step_active [OF assms(2) [unfolded g']]
  show ?thesis
    using assms(1) a unfolding g' by (auto simp: wave_gesture_def Let_def split: bind_splits)
qed

lemma gesture_overlay_left_upper:
  assumes "gesture_overlay b t l r g p = Some p'" "g_side g = ''left''" "lUpperArm b = Some u"
  shows "rot_z (p' u) = - l * REST + l * (0.45 * easeInOut (g_t g / g_dur g))"
  using assms
  by (auto simp: gesture_overlay_def Let_def if_present_written written_apply
      apply_writes_def set_axis_def)

lemma gesture_overlay_right_upper:
  assumes "gesture_overlay b t l r g p = Some p'" "g_side g \<noteq> ''left''" "rUpperArm b = Some u"
  shows "rot_z (p' u) = - r * REST + r * (0.45 * easeInOut (g_t g / g_dur g))"
  using assms
  by (auto simp: gesture_overlay_def Let_def if_present_written written_apply
      apply_writes_def set_axis_def)

lemma useFrame_overlay:
  assumes v: "tick_vrm tk = Some v" and fr: "useFrame var tk s = Some s'"
    and act: "g_active (gestureRef s')"
  shows "g_side (gestureRef s') = ''left'' \<and> lUpperArm (frame_bones v s) = Some u
         \<longrightarrow> rot_z (joints s' u)
             = - dir_l (dirRef s') * REST
               + dir_l (dirRef s') * (0.45 * easeInOut (g_t (gestureRef s') / g_dur (gestureRef s')))"
    and "g_side (gestureRef s') \<noteq> ''left'' \<and> rUpperArm (frame_bones v s) = Some u
         \<longrightarrow> rot_z (joints s' u)
             = - dir_r (dirRef s') * REST
               + dir_r (dirRef s') * (0.45 * easeInOut (g_t (gestureRef s') / g_dur (gestureRef s')))"
proof -
  obtain d p2 p3 where
    w: "wave_gesture var (frame_bones v s) tk (tRef s + delta tk) (dir_l d) (dir_r d)
       (gestureRef s, p2) = Some (gesture_step var tk (gestureRef s), p3)"
    and s': "gestureRef s' = gesture_step var tk (gestureRef s)" "dirRef s' = d" "joints s' = p3"
    by (rule useFrame_blocks [OF v, of var s]) (use fr in auto)
  have o: "gesture_overlay (frame_bones v s) (tRef s + delta tk) (dir_l d) (dir_r d)
             (gestureRef s') p2 = Some p3"
    using wave_gesture_active [OF w] act s'(1) by simp
  show "g_side (gestureRef s') = ''left'' \<and> lUpperArm (frame_bones v s) = Some u
         \<longrightarrow> rot_z (joints s' u)
             = - dir_l (dirRef s') * REST
               + dir_l (dirRef s') * (0.45 * easeInOut (g_t (gestureRef s') / g_dur (gestureRef s')))"
    using gesture_overlay_left_upper [OF o] s' by simp
  show "g_side (gestureRef s') \<noteq> ''left'' \<and> rUpperArm (frame_bones v s) = Some u
         \<longrightarrow> rot_z (joints s' u)
             = - dir_r (dirRef s') * REST
               + dir_r (dirRef s') * (0.45 * easeInOut (g_t (gestureRef s') / g_dur (gestureRef s')))"
    using gesture_overlay_right_upper [OF o] s' by simp
qed

lemma useFrame_bonesRef:
  assumes "tick_vrm tk = Some v" "useFrame var tk s = Some s'"
  shows "bonesRef s' = (if bonesRef s = None then getBones (Some v) else bonesRef s)"
  by (rule useFrame_blocks [OF assms(1), of var s]) (use assms(2) in auto)

lemma easeInOut_profile: "easeInOut x = 0.5 - 0.5 * cos (pi * max 0 (min 1 x))"
  by (simp add: easeInOut_def clamp01_def)

text \<open>
  Claim C4, as amended.  In every state reached from the mount state, whatever the
  frames were, a gesture whose elapsed time has reached its duration is not active.
  When the \<^verbatim>\<open>delta\<close> of every frame is positive, a gesture at elapsed time 0 is
  not active either.  When no \<^verbatim>\<open>Math.random()\<close> for the duration is negative, the
  duration is at least 1.1, so the progress never divides by zero.  After a frame that
  leaves a gesture active, the upper arm of the gesture's side, when the rig has it, is
  at its rest angle plus the raise sign times
  \<open>0.45 * (0.5 - 0.5 * cos (pi * progress))\<close>, where \<open>progress\<close> is the elapsed
  time over the duration, clamped to \<open>[0, 1]\<close>.
\<close>

theorem gesture_active_window:
  "(frames var tks (mounted r p ex grp) = Some s
      \<longrightarrow> (g_dur (gestureRef s) \<le> g_t (gestureRef s) \<longrightarrow> \<not> g_active (gestureRef s)))
   \<and> ((\<forall>tk \<in> set tks. 0 < delta tk) \<and> frames var tks (mounted r p ex grp) = Some s
      \<longrightarrow> (g_t (gestureRef s) = 0 \<longrightarrow> \<not> g_active (gestureRef s)))
   \<and> ((\<forall>tk \<in> set tks. 0 \<le> random_dur tk) \<and> frames var tks (mounted r p ex grp) = Some s
      \<longrightarrow> 1.1 \<le> g_dur (gestureRef s))
   \<and> (tick_vrm tk = Some v \<and> useFrame var tk s0 = Some s1 \<and> g_active (gestureRef s1)
       \<and> 0 < g_dur (gestureRef s1)
       \<and> (bonesRef s0 = None \<or> bonesRef s0 = getBones (Some v))
      \<longrightarrow> (g_side (gestureRef s1) = ''left'' \<and> getNormalizedBoneNode v LeftUpperArm \<noteq> None
           \<longrightarrow> rot_z (joints s1 LeftUpperArm)
               = - dir_l (dirRef s1) * 0.9
                 + dir_l (dirRef s1)
                   * (0.45 * (0.5 - 0.5 * cos (pi * max 0 (min 1
                        (g_t (gestureRef s1) / g_dur (gestureRef s1)))))))
          \<and> (g_side (gestureRef s1) \<noteq> ''left'' \<and> getNormalizedBoneNode v RightUpperArm \<noteq> None
           \<longrightarrow> rot_z (joints s1 RightUpperArm)
               = - dir_r (dirRef s1) * 0.9
                 + dir_r (dirRef s1)
                   * (0.45 * (0.5 - 0.5 * cos (pi * max 0 (min 1
                        (g_t (gestureRef s1) / g_dur (gestureRef s1))))))))
   \<and> easeInOut x = 0.5 - 0.5 * cos (pi * max 0 (min 1 x))"
proof (intro conjI impI)
  assume run: "frames var tks (mounted r p ex grp) = Some s"
    and le: "g_dur (gestureRef s) \<le> g_t (gestureRef s)"
  have init: "g_active (gestureRef (mounted r p ex grp))
      \<longrightarrow> g_t (gestureRef (mounted r p ex grp)) < g_dur (gestureRef (mounted r p ex grp))"
    by (simp add: mounted_def)
  show "\<not> g_active (gestureRef s)"
    using frames_below [OF run init] le by auto
next
  assume a: "(\<forall>tk \<in> set tks. 0 < delta tk) \<and> frames var tks (mounted r p ex grp) = Some s"
    and z: "g_t (gestureRef s) = 0"
  have init: "g_active (gestureRef (mounted r p ex grp))
      \<longrightarrow> 0 < g_t (gestureRef (mounted r p ex grp))
          \<and> g_t (gestureRef (mounted r p ex grp)) < g_dur (gestureRef (mounted r p ex grp))"
    by (simp add: mounted_def)
  have w: "g_active (gestureRef s) \<longrightarrow> 0 < g_t (gestureRef s) \<and> g_t (gestureRef s) < g_dur (gestureRef s)"
    using frames_window [OF _ _ init] a by blast
  show "\<not> g_active (gestureRef s)" using w z by auto
next
  assume a: "(\<forall>tk \<in> set tks. 0 \<le> random_dur tk) \<and> frames var tks (mounted r p ex grp) = Some s"
  have "1.1 \<le> g_dur (gestureRef (mounted r p ex grp))" by (simp add: mounted_def)
  then show "1.1 \<le> g_dur (gestureRef s)"
    using frames_dur [of tks var "mounted r p ex grp" s] a by blast
next
  assume b: "tick_vrm tk = Some v \<and> useFrame var tk s0 = Some s1 \<and> g_active (gestureRef s1)
       \<and> 0 < g_dur (gestureRef s1)
       \<and> (bonesRef s0 = None \<or> bonesRef s0 = getBones (Some v))"
    and l: "g_side (gestureRef s1) = ''left'' \<and> getNormalizedBoneNode v LeftUpperArm \<noteq> None"
  from b have v: "tick_vrm tk = Some v" and fr: "useFrame var tk s0 = Some s1"
    and act: "g_active (gestureRef s1)"
    and wf: "bonesRef s0 = None \<or> bonesRef s0 = getBones (Some v)"
    by simp_all
  note fb = frame_bones_getBones [OF wf]
  have "lUpperArm (frame_bones v s0) = Some LeftUpperArm"
    using l fb(1) getNormalizedBoneNode_cases [of v LeftUpperArm] by auto
  then show "rot_z (joints s1 LeftUpperArm)
             = - dir_l (dirRef s1) * 0.9
               + dir_l (dirRef s1)
                 * (0.45 * (0.5 - 0.5 * cos (pi * max 0 (min 1
                      (g_t (gestureRef s1) / g_dur (gestureRef s1))))))"
    using useFrame_overlay(1) [OF v fr act, of LeftUpperArm] l
    by (simp add: REST_def easeInOut_profile)
next
  assume b: "tick_vrm tk = Some v \<and> useFrame var tk s0 = Some s1 \<and> g_active (gestureRef s1)
       \<and> 0 < g_dur (gestureRef s1)
       \<and> (bonesRef s0 = None \<or> bonesRef s0 = getBones (Some v))"
    and l: "g_side (gestureRef s1) \<noteq> ''left'' \<and> getNormalizedBoneNode v RightUpperArm \<noteq> None"
  from b have v: "tick_vrm tk = Some v" and fr: "useFrame var tk s0 = Some s1"
    and act: "g_active (gestureRef s1)"
    and wf: "bonesRef s0 = None \<or> bonesRef s0 = getBones (Some v)"
    by simp_all
  note fb = frame_bones_getBones [OF wf]
  have "rUpperArm (frame_bones v s0) = Some RightUpperArm"
    using l fb(2) getNormalizedBoneNode_cases [of v RightUpperArm] by auto
  then show "rot_z (joints s1 RightUpperArm)
             = - dir_r (dirRef s1) * 0.9
               + dir_r (dirRef s1)
                 * (0.45 * (0.5 - 0.5 * cos (pi * max 0 (min 1
                      (g_t (gestureRef s1) / g_dur (gestureRef s1))))))"
    using useFrame_overlay(2) [OF v fr act, of RightUpperArm] l
    by (simp add: REST_def easeInOut_profile)
next
  show "easeInOut x = 0.5 - 0.5 * cos (pi * max 0 (min 1 x))"
    by (rule easeInOut_profile)
qed

lemma example_ticks_loaded: "tick_vrm (example_tick dt spk gst) = Some example_vrm"
  by (simp add: example_tick_def)

text \<open>
  The claim as stated fails when a frame has \<^verbatim>\<open>delta = 0\<close>: a gesture ends in a
  long frame that also runs the countdown out, and the next frame, with no time
  elapsed, starts a gesture and leaves it active at elapsed time 0.
\<close>

theorem gesture_active_at_zero_counterexample:
  "frames TalkingAvatar_part_000
     [example_tick 2 True True, example_tick 0.5 True True,
      example_tick 4 True True, example_tick 0 True True] example_scene \<noteq> None
   \<and> g_active (gestureRef (the (frames TalkingAvatar_part_000
        [example_tick 2 True True, example_tick 0.5 True True,
         example_tick 4 True True, example_tick 0 True True] example_scene)))
   \<and> g_t (gestureRef (the (frames TalkingAvatar_part_000
        [example_tick 2 True True, example_tick 0.5 True True,
         example_tick 4 True True, example_tick 0 True True] example_scene))) = 0"
proof -
  let ?tks = "[example_tick 2 True True, example_tick 0.5 True True,
      example_tick 4 True True, example_tick 0 True True]"
  obtain s' where run: "frames TalkingAvatar_part_000 ?tks example_scene = Some s'"
    using frames_total by blast
  have "\<forall>tk \<in> set ?tks. tick_vrm tk \<noteq> None"
    by (simp add: example_ticks_loaded)
  then have "gestureRef s' = fold (gesture_step TalkingAvatar_part_000) ?tks (gestureRef example_scene)"
    using frames_gesture_fold run by blast
  then have "g_active (gestureRef s') \<and> g_t (gestureRef s') = 0"
    by (simp add: gesture_step_def gesture_trigger_def eligible_def example_tick_def
        TalkingAvatar_part_000_def example_scene_def mounted_def Let_def)
  then show ?thesis using run by simp
qed

lemma example_scene_1_frame:
  "useFrame TalkingAvatar_copy_4 (example_tick 2 True True) example_scene = Some example_scene_1"
  using useFrame_total [of TalkingAvatar_copy_4 "example_tick 2 True True" example_scene]
  by (auto simp: example_scene_1_def)

lemma example_scene_2_frame:
  "useFrame TalkingAvatar_copy_4 (example_tick 0.5 True True) example_scene_1 = Some example_scene_2"
  using useFrame_total [of TalkingAvatar_copy_4 "example_tick 0.5 True True" example_scene_1]
  by (auto simp: example_scene_2_def)

lemma example_scene_2_frames:
  "frames TalkingAvatar_copy_4 [example_tick 2 True True, example_tick 0.5 True True] example_scene
     = Some example_scene_2"
  using example_scene_1_frame example_scene_2_frame by simp

lemma example_scene_1_bones: "bonesRef example_scene_1 = getBones (Some example_vrm)"
  using useFrame_bonesRef [OF example_ticks_loaded example_scene_1_frame]
  by (simp add: example_scene_def mounted_def)

lemma example_scene_2_gesture:
  "gestureRef example_scene_2 =
     \<lparr>g_active = True, g_side = ''left'', g_t = 0.5, g_dur = 1.2, g_next = 3.5\<rparr>"
proof -
  have "\<forall>tk \<in> set [example_tick 2 True True, example_tick 0.5 True True]. tick_vrm tk \<noteq> None"
    by (simp add: example_ticks_loaded)
  then have "gestureRef example_scene_2 =
      fold (gesture_step TalkingAvatar_copy_4)
        [example_tick 2 True True, example_tick 0.5 True True] (gestureRef example_scene)"
    using frames_gesture_fold example_scene_2_frames by blast
  then show ?thesis
    by (simp add: gesture_step_def gesture_trigger_def eligible_def example_tick_def
        TalkingAvatar_copy_4_def example_scene_def mounted_def Let_def)
qed

theorem gesture_active_window_witness:
  "frames TalkingAvatar_copy_4 [example_tick 2 True True, example_tick 0.5 True True]
        (mounted 0.5 example_pose (\<lambda>n. 0) (Some 0)) = Some example_scene_2
   \<and> list_all (\<lambda>tk. 0 < delta tk) [example_tick 2 True True, example_tick 0.5 True True]
   \<and> list_all (\<lambda>tk. 0 \<le> random_dur tk)
        [example_tick 2 True True, example_tick 0.5 True True]
   \<and> g_active (gestureRef example_scene_2)
   \<and> g_t (gestureRef example_scene_2) < g_dur (gestureRef example_scene_2)
   \<and> g_t (gestureRef example_scene_2) \<noteq> 0
   \<and> 1.1 \<le> g_dur (gestureRef example_scene_2)
   \<and> tick_vrm (example_tick 0.5 True True) = Some example_vrm
   \<and> useFrame TalkingAvatar_copy_4 (example_tick 0.5 True True) example_scene_1
       = Some example_scene_2
   \<and> bonesRef example_scene_1 = getBones (Some example_vrm)
   \<and> g_side (gestureRef example_scene_2) = ''left''
   \<and> getNormalizedBoneNode example_vrm LeftUpperArm \<noteq> None
   \<and> rot_z (joints example_scene_2 LeftUpperArm)
       = - dir_l (dirRef example_scene_2) * 0.9
         + dir_l (dirRef example_scene_2)
           * (0.45 * (0.5 - 0.5 * cos (pi * max 0 (min 1
                (g_t (gestureRef example_scene_2) / g_dur (gestureRef example_scene_2))))))"
proof -
  let ?tks = "[example_tick 2 True True, example_tick 0.5 True True]"
  have pos: "\<forall>tk \<in> set ?tks. 0 < delta tk"
    and rnd: "\<forall>tk \<in> set ?tks. 0 \<le> random_dur tk"
    by (simp_all add: example_tick_def)
  have run: "frames TalkingAvatar_copy_4 ?tks (mounted 0.5 example_pose (\<lambda>n. 0) (Some 0))
      = Some example_scene_2"
    using example_scene_2_frames by (simp add: example_scene_def)
  have g: "g_active (gestureRef example_scene_2)" "g_side (gestureRef example_scene_2) = ''left''"
    by (simp_all add: example_scene_2_gesture)
  have arm: "getNormalizedBoneNode example_vrm LeftUpperArm \<noteq> None"
    by (simp add: getNormalizedBoneNode_def example_vrm_def)
  note inst = gesture_active_window [where tks = ?tks and var = TalkingAvatar_copy_4
      and r = "0.5" and p = example_pose and ex = "\<lambda>n. 0" and grp = "Some 0"
      and s = example_scene_2 and tk = "example_tick 0.5 True True" and v = example_vrm
      and ?s0.0 = example_scene_1 and ?s1.0 = example_scene_2 and x = 0]
  have w1: "g_t (gestureRef example_scene_2) < g_dur (gestureRef example_scene_2)"
    using inst run g(1) by (auto simp: not_le)
  have w2: "g_t (gestureRef example_scene_2) \<noteq> 0"
    using inst pos run g(1) by blast
  have w3: "1.1 \<le> g_dur (gestureRef example_scene_2)"
    using inst rnd run by blast
  have dp: "0 < g_dur (gestureRef example_scene_2)" using w3 by simp
  have o: "rot_z (joints example_scene_2 LeftUpperArm)
       = - dir_l (dirRef example_scene_2) * 0.9
         + dir_l (dirRef example_scene_2)
           * (0.45 * (0.5 - 0.5 * cos (pi * max 0 (min 1
                (g_t (gestureRef example_scene_2) / g_dur (gestureRef example_scene_2))))))"
    using inst example_ticks_loaded example_scene_2_frame example_scene_1_bones g arm dp
    by blast
  have p: "list_all (\<lambda>tk. 0 < delta tk) ?tks" "list_all (\<lambda>tk. 0 \<le> random_dur tk) ?tks"
    using pos rnd by (simp_all add: list_all_iff)
  show ?thesis
    using p run g w1 w2 w3 example_ticks_loaded example_scene_2_frame example_scene_1_bones arm o
    by blast
qed

subsection \<open>Blink\<close>

lemma blink_step_in_range:
  assumes "0 \<le> delta tk" "0 \<le> random_blink tk" "random_blink tk < 1" "blink_in_range B"
  shows "blink_in_range (blink_step tk B)"
  using assms
  by (auto simp: blink_in_range_def blink_step_def Let_def split: if_splits)

lemma useFrame_blink_in_range:
  assumes "0 \<le> delta tk" "0 \<le> random_blink tk" "random_blink tk < 1"
    "blink_in_range (blinkRef s)" "useFrame var tk s = Some s'"
  shows "blink_in_range (blinkRef s')"
proof (cases "tick_vrm tk")
  case None
  then show ?thesis using assms by (simp add: useFrame_no_vrm)
next
  case (Some v)
  show ?thesis
    using useFrame_blink [OF Some assms(5)] blink_step_in_range [OF assms(1-4)] assms(4)
    by simp
qed

lemma frames_blink_in_range:
  assumes "\<forall>tk \<in> set tks. 0 \<le> delta tk \<and> 0 \<le> random_blink tk \<and> random_blink tk < 1"
    "blink_in_range (blinkRef s)" "frames var tks s = Some s'"
  shows "blink_in_range (blinkRef s')"
  using assms
proof (induction tks arbitrary: s)
  case Nil
  then show ?case by simp
next
  case (Cons tk tks)
  obtain s1 where s1: "useFrame var tk s = Some s1" using useFrame_total by blast
  then have run: "frames var tks s1 = Some s'" using Cons.prems(3) by simp
  have "blink_in_range (blinkRef s1)"
    using useFrame_blink_in_range [OF _ _ _ Cons.prems(2) s1] Cons.prems(1) by simp
  then show ?case using Cons.IH [OF _ _ run] Cons.prems(1) by simp
qed

lemma mounted_blink_in_range:
  "0 \<le> r \<Longrightarrow> r < 1 \<Longrightarrow> blink_in_range (blinkRef (mounted r p ex grp))"
  by (simp add: blink_in_range_def mounted_def)

lemma useFrame_blink_weight:
  assumes "tick_vrm tk = Some v" "expressionManager v" "useFrame var tk s = Some s'"
  shows "expressions s' ''blink'' = clamp01 (b_v (blinkRef s'))"
proof (rule useFrame_blocks [OF assms(1), of var s])
  fix d p1 p2 p3 ex B
  assume "mouth_blink (expressionManager v) tk (tRef s + delta tk) (expressions s, blinkRef s)
       = Some (ex, B)"
    and "useFrame var tk s =
       Some \<lparr>tRef = tRef s + delta tk,
             bonesRef = (if bonesRef s = None then getBones (Some v) else bonesRef s),
             blinkRef = B, gestureRef = gesture_step var tk (gestureRef s),
             dirRef = d, joints = p3, expressions = ex,
             groupRef = (case groupRef s of
                           None \<Rightarrow> None
                         | Some y \<Rightarrow> Some (sin ((tRef s + delta tk) * 0.2) * 0.05))\<rparr>"
  then show ?thesis
    using assms(2,3) mouth_blink_em [of tk "tRef s + delta tk" "expressions s" "blinkRef s"]
    by auto
qed

lemma blink_closing:
  assumes "b_phase B = 1"
  shows "b_v (blink_step tk B) = min 1 (b_v B + delta tk * 12)"
    "b_phase (blink_step tk B) = (if 1 \<le> b_v B + delta tk * 12 then 2 else 1)"
  using assms by (auto simp: blink_step_def Let_def)

lemma blink_opening:
  assumes "b_phase B = 2"
  shows "b_v (blink_step tk B) = max 0 (b_v B - delta tk * 10)"
    "blink_step tk B =
      (if b_v B - delta tk * 10 \<le> 0
       then B\<lparr>b_v := 0, b_phase := 0, b_t := 0, b_nextBlink := 1.5 + random_blink tk * 2.0\<rparr>
       else B\<lparr>b_t := b_t B + delta tk, b_v := b_v B - delta tk * 10\<rparr>)"
  using assms by (auto simp: blink_step_def Let_def)

lemma blink_idle:
  assumes "b_phase B = 0"
  shows "blink_step tk B =
      (if b_nextBlink B < b_t B + delta tk
       then blink_step tk (B\<lparr>b_phase := 1\<rparr>)
       else B\<lparr>b_t := b_t B + delta tk\<rparr>)"
  using assms by (auto simp: blink_step_def Let_def)

text \<open>
  Claim C5.  In every state reached from the mount state by frames whose \<^verbatim>\<open>delta\<close>
  is not negative, with every \<^verbatim>\<open>Math.random()\<close> in \<open>[0, 1)\<close>, the eyelid weight
  \<^verbatim>\<open>B.v\<close> is in \<open>[0, 1]\<close>, the wait \<^verbatim>\<open>nextBlink\<close> is in \<open>[1.5, 3.5]\<close>, and the
  weight is 0 in the idle phase.  A frame of a model with an expression manager steps
  the blink and sets the expression \<^verbatim>\<open>blink\<close> to the weight clamped to \<open>[0, 1]\<close>.
  The idle phase lasts until the time since the cycle began exceeds the wait; closing
  adds \<open>12 * delta\<close> and caps the weight at exactly 1, where opening begins; opening
  subtracts \<open>10 * delta\<close>, and when that reaches 0 or less the weight is set to
  exactly 0, the time to 0 and the wait to \<open>1.5 + 2 * random\<close>, in the idle phase.
\<close>

theorem blink_weight_cycle:
  "(0 \<le> r \<and> r < 1
    \<and> (\<forall>tk \<in> set tks. 0 \<le> delta tk \<and> 0 \<le> random_blink tk \<and> random_blink tk < 1)
    \<and> frames var tks (mounted r p ex grp) = Some s
    \<longrightarrow> 0 \<le> b_v (blinkRef s) \<and> b_v (blinkRef s) \<le> 1
        \<and> 1.5 \<le> b_nextBlink (blinkRef s) \<and> b_nextBlink (blinkRef s) \<le> 3.5
        \<and> (b_phase (blinkRef s) = 0 \<longrightarrow> b_v (blinkRef s) = 0))
   \<and> (tick_vrm tk = Some v \<and> expressionManager v \<and> useFrame var tk s0 = Some s1
      \<longrightarrow> blinkRef s1 = blink_step tk (blinkRef s0)
          \<and> expressions s1 ''blink'' = max 0 (min 1 (b_v (blinkRef s1)))
          \<and> 0 \<le> expressions s1 ''blink'' \<and> expressions s1 ''blink'' \<le> 1)
   \<and> (b_phase B = 0
      \<longrightarrow> blink_step tk B =
            (if b_nextBlink B < b_t B + delta tk
             then blink_step tk (B\<lparr>b_phase := 1\<rparr>)
             else B\<lparr>b_t := b_t B + delta tk\<rparr>))
   \<and> (b_phase B = 1
      \<longrightarrow> b_v (blink_step tk B) = min 1 (b_v B + delta tk * 12)
          \<and> b_phase (blink_step tk B) = (if 1 \<le> b_v B + delta tk * 12 then 2 else 1))
   \<and> (b_phase B = 2
      \<longrightarrow> blink_step tk B =
            (if b_v B - delta tk * 10 \<le> 0
             then B\<lparr>b_v := 0, b_phase := 0, b_t := 0,
                    b_nextBlink := 1.5 + random_blink tk * 2.0\<rparr>
             else B\<lparr>b_t := b_t B + delta tk, b_v := b_v B - delta tk * 10\<rparr>))"
proof (intro conjI impI)
  assume a: "0 \<le> r \<and> r < 1
    \<and> (\<forall>tk \<in> set tks. 0 \<le> delta tk \<and> 0 \<le> random_blink tk \<and> random_blink tk < 1)
    \<and> frames var tks (mounted r p ex grp) = Some s"
  then have "blink_in_range (blinkRef s)"
    using frames_blink_in_range [of tks "mounted r p ex grp" var s]
      mounted_blink_in_range [of r p ex grp] by blast
  then have rg: "0 \<le> b_v (blinkRef s)" "b_v (blinkRef s) \<le> 1"
    "1.5 \<le> b_nextBlink (blinkRef s)" "b_nextBlink (blinkRef s) \<le> 3.5"
    "b_phase (blinkRef s) = 0 \<Longrightarrow> b_v (blinkRef s) = 0"
    by (auto simp: blink_in_range_def split: if_splits)
  show "0 \<le> b_v (blinkRef s)" "b_v (blinkRef s) \<le> 1"
    "1.5 \<le> b_nextBlink (blinkRef s)" "b_nextBlink (blinkRef s) \<le> 3.5"
    using rg by blast+
  { assume "b_phase (blinkRef s) = 0" then show "b_v (blinkRef s) = 0" using rg(5) by blast }
next
  assume b: "tick_vrm tk = Some v \<and> expressionManager v \<and> useFrame var tk s0 = Some s1"
  then have v: "tick_vrm tk = Some v" and em: "expressionManager v"
    and fr: "useFrame var tk s0 = Some s1" by simp_all
  show "blinkRef s1 = blink_step tk (blinkRef s0)"
    using useFrame_blink [OF v fr] em by simp
  show w: "expressions s1 ''blink'' = max 0 (min 1 (b_v (blinkRef s1)))"
    using useFrame_blink_weight [OF v em fr] by (simp add: clamp01_def)
  show "0 \<le> expressions s1 ''blink''" "expressions s1 ''blink'' \<le> 1"
    unfolding w by simp_all
next
  assume "b_phase B = 0"
  then show "blink_step tk B =
            (if b_nextBlink B < b_t B + delta tk
             then blink_step tk (B\<lparr>b_phase := 1\<rparr>)
             else B\<lparr>b_t := b_t B + delta tk\<rparr>)"
    by (rule blink_idle)
next
  assume p: "b_phase B = 1"
  show "b_v (blink_step tk B) = min 1 (b_v B + delta tk * 12)"
    "b_phase (blink_step tk B) = (if 1 \<le> b_v B + delta tk * 12 then 2 else 1)"
    using blink_closing [OF p] by blast+
next
  assume p: "b_phase B = 2"
  show "blink_step tk B =
            (if b_v B - delta tk * 10 \<le> 0
             then B\<lparr>b_v := 0, b_phase := 0, b_t := 0,
                    b_nextBlink := 1.5 + random_blink tk * 2.0\<rparr>
             else B\<lparr>b_t := b_t B + delta tk, b_v := b_v B - delta tk * 10\<rparr>)"
    using blink_opening(2) [OF p] .
qed

lemma example_vrm_em: "expressionManager example_vrm"
  by (simp add: example_vrm_def)

lemma example_scene_2_blink:
  "blinkRef example_scene_2 = \<lparr>b_t = 2.5, b_nextBlink = 2.5, b_phase = 0, b_v = 0\<rparr>"
proof -
  have "blinkRef example_scene_1 = blink_step (example_tick 2 True True) (blinkRef example_scene)"
    using useFrame_blink [OF example_ticks_loaded example_scene_1_frame] example_vrm_em by simp
  moreover have "blinkRef example_scene_2
      = blink_step (example_tick 0.5 True True) (blinkRef example_scene_1)"
    using useFrame_blink [OF example_ticks_loaded example_scene_2_frame] example_vrm_em by simp
  ultimately show ?thesis
    by (simp add: blink_step_def example_tick_def example_scene_def mounted_def Let_def)
qed

theorem blink_weight_cycle_witness:
  "(0::real) \<le> 0.5 \<and> (0.5::real) < 1
   \<and> list_all (\<lambda>tk. 0 \<le> delta tk \<and> 0 \<le> random_blink tk \<and> random_blink tk < 1)
        [example_tick 2 True True, example_tick 0.5 True True]
   \<and> frames TalkingAvatar_copy_4 [example_tick 2 True True, example_tick 0.5 True True]
        (mounted 0.5 example_pose (\<lambda>n. 0) (Some 0)) = Some example_scene_2
   \<and> 0 \<le> b_v (blinkRef example_scene_2) \<and> b_v (blinkRef example_scene_2) \<le> 1
   \<and> 1.5 \<le> b_nextBlink (blinkRef example_scene_2)
   \<and> b_nextBlink (blinkRef example_scene_2) \<le> 3.5
   \<and> b_phase (blinkRef example_scene_2) = 0 \<and> b_v (blinkRef example_scene_2) = 0
   \<and> tick_vrm (example_tick 0.5 True True) = Some example_vrm
   \<and> expressionManager example_vrm
   \<and> useFrame TalkingAvatar_copy_4 (example_tick 0.5 True True) example_scene_1
       = Some example_scene_2
   \<and> blinkRef example_scene_2 = blink_step (example_tick 0.5 True True) (blinkRef example_scene_1)
   \<and> expressions example_scene_2 ''blink'' = 0
   \<and> blink_step (example_tick 0.05 True True)
        \<lparr>b_t = 2.4, b_nextBlink = 2.5, b_phase = 0, b_v = 0\<rparr>
       = \<lparr>b_t = 2.45, b_nextBlink = 2.5, b_phase = 0, b_v = 0\<rparr>
   \<and> b_v (blink_step (example_tick 0.016 True True)
             \<lparr>b_t = 2.6, b_nextBlink = 2.5, b_phase = 1, b_v = 0.9\<rparr>) = 1
   \<and> b_phase (blink_step (example_tick 0.016 True True)
             \<lparr>b_t = 2.6, b_nextBlink = 2.5, b_phase = 1, b_v = 0.9\<rparr>) = 2
   \<and> blink_step (example_tick 0.016 True True)
        \<lparr>b_t = 2.7, b_nextBlink = 3, b_phase = 2, b_v = 0.1\<rparr>
       = \<lparr>b_t = 0, b_nextBlink = 2.5, b_phase = 0, b_v = 0\<rparr>"
proof -
  let ?tks = "[example_tick 2 True True, example_tick 0.5 True True]"
  have rng: "\<forall>tk \<in> set ?tks. 0 \<le> delta tk \<and> 0 \<le> random_blink tk \<and> random_blink tk < 1"
    by (simp add: example_tick_def)
  have rng': "list_all (\<lambda>tk. 0 \<le> delta tk \<and> 0 \<le> random_blink tk \<and> random_blink tk < 1) ?tks"
    using rng by (simp add: list_all_iff)
  have run: "frames TalkingAvatar_copy_4 ?tks (mounted 0.5 example_pose (\<lambda>n. 0) (Some 0))
      = Some example_scene_2"
    using example_scene_2_frames by (simp add: example_scene_def)
  have ph: "b_phase (blinkRef example_scene_2) = 0"
    by (simp add: example_scene_2_blink)
  note run_inst = blink_weight_cycle [where r = "0.5" and tks = ?tks
      and var = TalkingAvatar_copy_4 and p = example_pose and ex = "\<lambda>n. 0" and grp = "Some 0"
      and s = example_scene_2 and tk = "example_tick 0.5 True True" and v = example_vrm
      and ?s0.0 = example_scene_1 and ?s1.0 = example_scene_2
      and B = "\<lparr>b_t = 2.4, b_nextBlink = 2.5, b_phase = 0, b_v = 0\<rparr>"]
  have a: "0 \<le> b_v (blinkRef example_scene_2)" "b_v (blinkRef example_scene_2) \<le> 1"
    "1.5 \<le> b_nextBlink (blinkRef example_scene_2)"
    "b_nextBlink (blinkRef example_scene_2) \<le> 3.5"
    "b_v (blinkRef example_scene_2) = 0"
    using run_inst rng run ph by simp_all
  have b: "blinkRef example_scene_2
      = blink_step (example_tick 0.5 True True) (blinkRef example_scene_1)"
    "expressions example_scene_2 ''blink'' = 0"
    using run_inst example_ticks_loaded example_vrm_em example_scene_2_frame a(5) by simp_all
  have c: "blink_step (example_tick 0.05 True True)
        \<lparr>b_t = 2.4, b_nextBlink = 2.5, b_phase = 0, b_v = 0\<rparr>
       = \<lparr>b_t = 2.45, b_nextBlink = 2.5, b_phase = 0, b_v = 0\<rparr>"
    using blink_weight_cycle [where tk = "example_tick 0.05 True True"
        and B = "\<lparr>b_t = 2.4, b_nextBlink = 2.5, b_phase = 0, b_v = 0\<rparr>"]
    by (simp add: example_tick_def)
  have d: "b_v (blink_step (example_tick 0.016 True True)
             \<lparr>b_t = 2.6, b_nextBlink = 2.5, b_phase = 1, b_v = 0.9\<rparr>) = 1"
    "b_phase (blink_step (example_tick 0.016 True True)
             \<lparr>b_t = 2.6, b_nextBlink = 2.5, b_phase = 1, b_v = 0.9\<rparr>) = 2"
    using blink_weight_cycle [where tk = "example_tick 0.016 True True"
        and B = "\<lparr>b_t = 2.6, b_nextBlink = 2.5, b_phase = 1, b_v = 0.9\<rparr>"]
    by (simp_all add: example_tick_def)
  have e: "blink_step (example_tick 0.016 True True)
        \<lparr>b_t = 2.7, b_nextBlink = 3, b_phase = 2, b_v = 0.1\<rparr>
       = \<lparr>b_t = 0, b_nextBlink = 2.5, b_phase = 0, b_v = 0\<rparr>"
    using blink_weight_cycle [where tk = "example_tick 0.016 True True"
        and B = "\<lparr>b_t = 2.7, b_nextBlink = 3, b_phase = 2, b_v = 0.1\<rparr>"]
    by (simp add: example_tick_def)
  have z: "(0::real) \<le> 0.5" "(0.5::real) < 1" by simp_all
  show ?thesis
    using z rng' run a ph example_ticks_loaded example_vrm_em example_scene_2_frame b c d e
    by blast
qed

subsection \<open>The pose after a frame\<close>

lemma frame_bones_refs:
  assumes "bonesRef s = None \<or> bonesRef s = getBones (Some v)"
  shows "lUpperArm (frame_bones v s) = Some n \<Longrightarrow> n = LeftUpperArm \<and> getNormalizedBoneNode v n \<noteq> None"
    "rUpperArm (frame_bones v s) = Some n \<Longrightarrow> n = RightUpperArm \<and> getNormalizedBoneNode v n \<noteq> None"
    "lLowerArm (frame_bones v s) = Some n \<Longrightarrow> n = LeftLowerArm \<and> getNormalizedBoneNode v n \<noteq> None"
    "rLowerArm (frame_bones v s) = Some n \<Longrightarrow> n = RightLowerArm \<and> getNormalizedBoneNode v n \<noteq> None"
    "lHand (frame_bones v s) = Some n \<Longrightarrow> n = LeftHand \<and> getNormalizedBoneNode v n \<noteq> None"
    "rHand (frame_bones v s) = Some n \<Longrightarrow> n = RightHand \<and> getNormalizedBoneNode v n \<noteq> None"
    "lShoulder (frame_bones v s) = Some n \<Longrightarrow> n = LeftShoulder \<and> getNormalizedBoneNode v n \<noteq> None"
    "rShoulder (frame_bones v s) = Some n \<Longrightarrow> n = RightShoulder \<and> getNormalizedBoneNode v n \<noteq> None"
    "head (frame_bones v s) = Some n \<Longrightarrow> n = Head \<and> getNormalizedBoneNode v n \<noteq> None"
    "neck (frame_bones v s) = Some n \<Longrightarrow> n = Neck \<and> getNormalizedBoneNode v n \<noteq> None"
    "spine (frame_bones v s) = Some n \<Longrightarrow> n = Spine \<and> getNormalizedBoneNode v n \<noteq> None"
    "chest (frame_bones v s) = Some n
       \<Longrightarrow> (n = Chest \<or> n = UpperChest) \<and> getNormalizedBoneNode v n \<noteq> None"
  unfolding frame_bones_getBones [OF assms]
  by (auto simp: getNormalizedBoneNode_def split: option.splits if_splits)

lemma useFrame_joints:
  assumes v: "tick_vrm tk = Some v" and fr: "useFrame var tk s = Some s'"
  obtains p1 p2 where
    "idle_sway (frame_bones v s) (tRef s') (joints s) = Some p1"
    "arms_rest (frame_bones v s) (tRef s') (dir_l (dirRef s')) (dir_r (dirRef s')) p1 = Some p2"
    "wave_gesture var (frame_bones v s) tk (tRef s') (dir_l (dirRef s')) (dir_r (dirRef s'))
       (gestureRef s, p2) = Some (gestureRef s', joints s')"
  by (rule useFrame_blocks [OF v, of var s]) (use fr in auto)

lemma useFrame_absent_joint:
  assumes v: "tick_vrm tk = Some v" and fr: "useFrame var tk s = Some s'"
    and wf: "bonesRef s = None \<or> bonesRef s = getBones (Some v)"
    and n: "getNormalizedBoneNode v n = None"
  shows "joints s' n = joints s n"
proof -
  obtain p1 p2 where
    i: "idle_sway (frame_bones v s) (tRef s') (joints s) = Some p1"
    and a: "arms_rest (frame_bones v s) (tRef s') (dir_l (dirRef s')) (dir_r (dirRef s')) p1 = Some p2"
    and w: "wave_gesture var (frame_bones v s) tk (tRef s') (dir_l (dirRef s')) (dir_r (dirRef s'))
       (gestureRef s, p2) = Some (gestureRef s', joints s')"
    using useFrame_joints [OF v fr] by blast
  note r = frame_bones_refs [OF wf, of n]
  have "p1 n = joints s n"
    using idle_sway_other [OF i, of n] r(9-12) n by blast
  moreover have "p2 n = p1 n"
    using arms_rest_other [OF a, of n] r(1-8) n by blast
  moreover have "joints s' n = p2 n"
    using wave_gesture_other [OF w, of n] r(1-6) n by blast
  ultimately show ?thesis by simp
qed

lemma idle_sway_values:
  assumes "idle_sway b t p = Some p'"
    and "spine b = None \<or> spine b = Some Spine"
    and "chest b = None \<or> chest b = Some Chest \<or> chest b = Some UpperChest"
    and "neck b = None \<or> neck b = Some Neck"
    and "head b = None \<or> head b = Some Head"
  shows "spine b = Some n \<Longrightarrow>
           rot_x (p' n) = sin (t * 1.2) * 0.01 \<and> rot_y (p' n) = sin (t * 0.7) * 0.01"
    "chest b = Some n \<Longrightarrow>
           rot_x (p' n) = sin (t * 1.0) * 0.015 \<and> rot_y (p' n) = sin (t * 0.5) * 0.012"
    "neck b = Some n \<Longrightarrow>
           rot_x (p' n) = sin (t * 0.9) * 0.02 \<and> rot_y (p' n) = sin (t * 0.6 + 0.5) * 0.02"
    "head b = Some n \<Longrightarrow>
           rot_x (p' n) = sin (t * 1.1 + 0.3) * 0.018 \<and> rot_y (p' n) = sin (t * 0.8) * 0.018"
  using assms
  by (auto simp: idle_sway_def if_present_written written_apply apply_writes_def set_axis_def)

lemma useFrame_sway:
  assumes v: "tick_vrm tk = Some v" and fr: "useFrame var tk s = Some s'"
    and wf: "bonesRef s = None \<or> bonesRef s = getBones (Some v)"
  shows "spine (frame_bones v s) = Some n \<Longrightarrow>
           rot_x (joints s' n) = sin (tRef s' * 1.2) * 0.01
           \<and> rot_y (joints s' n) = sin (tRef s' * 0.7) * 0.01"
    "chest (frame_bones v s) = Some n \<Longrightarrow>
           rot_x (joints s' n) = sin (tRef s' * 1.0) * 0.015
           \<and> rot_y (joints s' n) = sin (tRef s' * 0.5) * 0.012"
    "neck (frame_bones v s) = Some n \<Longrightarrow>
           rot_x (joints s' n) = sin (tRef s' * 0.9) * 0.02
           \<and> rot_y (joints s' n) = sin (tRef s' * 0.6 + 0.5) * 0.02"
    "head (frame_bones v s) = Some n \<Longrightarrow>
           rot_x (joints s' n) = sin (tRef s' * 1.1 + 0.3) * 0.018
           \<and> rot_y (joints s' n) = sin (tRef s' * 0.8) * 0.018"
proof -
  obtain p1 p2 where
    i: "idle_sway (frame_bones v s) (tRef s') (joints s) = Some p1"
    and a: "arms_rest (frame_bones v s) (tRef s') (dir_l (dirRef s')) (dir_r (dirRef s')) p1 = Some p2"
    and w: "wave_gesture var (frame_bones v s) tk (tRef s') (dir_l (dirRef s')) (dir_r (dirRef s'))
       (gestureRef s, p2) = Some (gestureRef s', joints s')"
    using useFrame_joints [OF v fr] by blast
  note r = frame_bones_refs [OF wf]
  have core: "joints s' m = p1 m" if "m = Spine \<or> m = Chest \<or> m = UpperChest \<or> m = Neck \<or> m = Head" for m
  proof -
    have "p2 m = p1 m"
      using arms_rest_other [OF a, of m] r(1-8) [of m] that by auto
    moreover have "joints s' m = p2 m"
      using wave_gesture_other [OF w, of m] r(1-6) [of m] that by auto
    ultimately show ?thesis by simp
  qed
  have wfb: "spine (frame_bones v s) = None \<or> spine (frame_bones v s) = Some Spine"
    "chest (frame_bones v s) = None \<or> chest (frame_bones v s) = Some Chest
       \<or> chest (frame_bones v s) = Some UpperChest"
    "neck (frame_bones v s) = None \<or> neck (frame_bones v s) = Some Neck"
    "head (frame_bones v s) = None \<or> head (frame_bones v s) = Some Head"
    using r(9-12) by (metis option.exhaust)+
  note iv = idle_sway_values [OF i wfb]
  show "spine (frame_bones v s) = Some n \<Longrightarrow>
           rot_x (joints s' n) = sin (tRef s' * 1.2) * 0.01
           \<and> rot_y (joints s' n) = sin (tRef s' * 0.7) * 0.01"
    using iv(1) [of n] core [of n] r(11) [of n] by auto
  show "chest (frame_bones v s) = Some n \<Longrightarrow>
           rot_x (joints s' n) = sin (tRef s' * 1.0) * 0.015
           \<and> rot_y (joints s' n) = sin (tRef s' * 0.5) * 0.012"
    using iv(2) [of n] core [of n] r(12) [of n] by auto
  show "neck (frame_bones v s) = Some n \<Longrightarrow>
           rot_x (joints s' n) = sin (tRef s' * 0.9) * 0.02
           \<and> rot_y (joints s' n) = sin (tRef s' * 0.6 + 0.5) * 0.02"
    using iv(3) [of n] core [of n] r(10) [of n] by auto
  show "head (frame_bones v s) = Some n \<Longrightarrow>
           rot_x (joints s' n) = sin (tRef s' * 1.1 + 0.3) * 0.018
           \<and> rot_y (joints s' n) = sin (tRef s' * 0.8) * 0.018"
    using iv(4) [of n] core [of n] r(9) [of n] by auto
qed

lemma sin_amplitude: "0 \<le> a \<Longrightarrow> \<bar>sin (x::real) * a\<bar> \<le> a"
proof -
  assume a: "0 \<le> a"
  have "\<bar>sin x * a\<bar> = \<bar>sin x\<bar> * a" using a by (simp add: abs_mult)
  also have "\<dots> \<le> 1 * a" using a by (intro mult_right_mono) simp_all
  finally show ?thesis by simp
qed

lemma present_ref:
  "(getNormalizedBoneNode v m = Some n) = (m = n \<and> (\<exists>h. humanoid v = Some h \<and> m \<in> h))"
  by (auto simp: getNormalizedBoneNode_def split: option.splits)

lemma arms_rest_values:
  assumes "arms_rest b t l r p = Some p'"
    and "lUpperArm b = getNormalizedBoneNode v LeftUpperArm"
    "rUpperArm b = getNormalizedBoneNode v RightUpperArm"
    "lLowerArm b = getNormalizedBoneNode v LeftLowerArm"
    "rLowerArm b = getNormalizedBoneNode v RightLowerArm"
    "lHand b = getNormalizedBoneNode v LeftHand"
    "rHand b = getNormalizedBoneNode v RightHand"
    "lShoulder b = getNormalizedBoneNode v LeftShoulder"
    "rShoulder b = getNormalizedBoneNode v RightShoulder"
  shows "getNormalizedBoneNode v LeftUpperArm \<noteq> None \<Longrightarrow>
           rot_z (p' LeftUpperArm) = - l * REST + sin (t * 0.7) * 0.025
           \<and> rot_x (p' LeftUpperArm) = sin (t * 0.55) * 0.02
           \<and> rot_y (p' LeftUpperArm) = 0"
    "getNormalizedBoneNode v RightUpperArm \<noteq> None \<Longrightarrow>
           rot_z (p' RightUpperArm) = - r * REST + sin (t * 0.75 + 0.4) * 0.025
           \<and> rot_x (p' RightUpperArm) = sin (t * 0.6) * 0.02
           \<and> rot_y (p' RightUpperArm) = 0"
    "getNormalizedBoneNode v LeftLowerArm \<noteq> None \<Longrightarrow>
           rot_x (p' LeftLowerArm) = ELBOW + sin (t * 0.85) * 0.03"
    "getNormalizedBoneNode v RightLowerArm \<noteq> None \<Longrightarrow>
           rot_x (p' RightLowerArm) = ELBOW + sin (t * 0.9 + 0.25) * 0.03"
    "getNormalizedBoneNode v LeftHand \<noteq> None \<Longrightarrow>
           rot_y (p' LeftHand) = sin (t * 1.0) * 0.08
           \<and> rot_x (p' LeftHand) = sin (t * 0.5) * 0.04"
    "getNormalizedBoneNode v RightHand \<noteq> None \<Longrightarrow>
           rot_y (p' RightHand) = sin (t * 1.05 + 0.35) * 0.08
           \<and> rot_x (p' RightHand) = sin (t * 0.55 + 0.2) * 0.04"
    "getNormalizedBoneNode v LeftShoulder \<noteq> None \<Longrightarrow>
           rot_z (p' LeftShoulder)
             = 0.035 * (if l = 1 then 1 else - 1) + sin (t * 0.7) * 0.015"
    "getNormalizedBoneNode v RightShoulder \<noteq> None \<Longrightarrow>
           rot_z (p' RightShoulder)
             = 0.035 * (if r = - 1 then 1 else - 1) + sin (t * 0.75 + 0.45) * 0.015"
proof -
  have p': "p' = written (rShoulder b)
          [(AxisZ, 0.035 * (if r = - 1 then 1 else - 1) + sin (t * 0.75 + 0.45) * 0.015)]
       (written (lShoulder b)
          [(AxisZ, 0.035 * (if l = 1 then 1 else - 1) + sin (t * 0.7) * 0.015)]
       (written (rHand b)
          [(AxisY, sin (t * 1.05 + 0.35) * 0.08), (AxisX, sin (t * 0.55 + 0.2) * 0.04)]
       (written (lHand b) [(AxisY, sin (t * 1.0) * 0.08), (AxisX, sin (t * 0.5) * 0.04)]
       (written (rLowerArm b) [(AxisX, ELBOW + sin (t * 0.9 + 0.25) * 0.03)]
       (written (lLowerArm b) [(AxisX, ELBOW + sin (t * 0.85) * 0.03)]
       (written (rUpperArm b)
          [(AxisZ, - r * REST + sin (t * 0.75 + 0.4) * 0.025),
           (AxisX, sin (t * 0.6) * 0.02), (AxisY, 0)]
       (written (lUpperArm b)
          [(AxisZ, - l * REST + sin (t * 0.7) * 0.025),
           (AxisX, sin (t * 0.55) * 0.02), (AxisY, 0)] p)))))))"
    using assms(1) by (simp add: arms_rest_def Let_def if_present_written)
  note defs = written_apply apply_writes_def set_axis_def present_ref assms(2-)
  show "getNormalizedBoneNode v LeftUpperArm \<noteq> None \<Longrightarrow>
           rot_z (p' LeftUpperArm) = - l * REST + sin (t * 0.7) * 0.025
           \<and> rot_x (p' LeftUpperArm) = sin (t * 0.55) * 0.02
           \<and> rot_y (p' LeftUpperArm) = 0"
    unfolding p' by (simp add: defs)
  show "getNormalizedBoneNode v RightUpperArm \<noteq> None \<Longrightarrow>
           rot_z (p' RightUpperArm) = - r * REST + sin (t * 0.75 + 0.4) * 0.025
           \<and> rot_x (p' RightUpperArm) = sin (t * 0.6) * 0.02
           \<and> rot_y (p' RightUpperArm) = 0"
    unfolding p' by (simp add: defs)
  show "getNormalizedBoneNode v LeftLowerArm \<noteq> None \<Longrightarrow>
           rot_x (p' LeftLowerArm) = ELBOW + sin (t * 0.85) * 0.03"
    unfolding p' by (simp add: defs)
  show "getNormalizedBoneNode v RightLowerArm \<noteq> None \<Longrightarrow>
           rot_x (p' RightLowerArm) = ELBOW + sin (t * 0.9 + 0.25) * 0.03"
    unfolding p' by (simp add: defs)
  show "getNormalizedBoneNode v LeftHand \<noteq> None \<Longrightarrow>
           rot_y (p' LeftHand) = sin (t * 1.0) * 0.08
           \<and> rot_x (p' LeftHand) = sin (t * 0.5) * 0.04"
    unfolding p' by (simp add: defs)
  show "getNormalizedBoneNode v RightHand \<noteq> None \<Longrightarrow>
           rot_y (p' RightHand) = sin (t * 1.05 + 0.35) * 0.08
           \<and> rot_x (p' RightHand) = sin (t * 0.55 + 0.2) * 0.04"
    unfolding p' by (simp add: defs)
  show "getNormalizedBoneNode v LeftShoulder \<noteq> None \<Longrightarrow>
           rot_z (p' LeftShoulder)
             = 0.035 * (if l = 1 then 1 else - 1) + sin (t * 0.7) * 0.015"
    unfolding p' by (simp add: defs)
  show "getNormalizedBoneNode v RightShoulder \<noteq> None \<Longrightarrow>
           rot_z (p' RightShoulder)
             = 0.035 * (if r = - 1 then 1 else - 1) + sin (t * 0.75 + 0.45) * 0.015"
    unfolding p' by (simp add: defs)
qed

lemma useFrame_rest:
  assumes v: "tick_vrm tk = Some v" and fr: "useFrame var tk s = Some s'"
    and wf: "bonesRef s = None \<or> bonesRef s = getBones (Some v)"
    and inel: "\<not> eligible var tk"
  shows "getNormalizedBoneNode v LeftUpperArm \<noteq> None \<Longrightarrow>
           rot_z (joints s' LeftUpperArm) = - dir_l (dirRef s') * REST + sin (tRef s' * 0.7) * 0.025
           \<and> rot_x (joints s' LeftUpperArm) = sin (tRef s' * 0.55) * 0.02
           \<and> rot_y (joints s' LeftUpperArm) = 0"
    "getNormalizedBoneNode v RightUpperArm \<noteq> None \<Longrightarrow>
           rot_z (joints s' RightUpperArm)
             = - dir_r (dirRef s') * REST + sin (tRef s' * 0.75 + 0.4) * 0.025
           \<and> rot_x (joints s' RightUpperArm) = sin (tRef s' * 0.6) * 0.02
           \<and> rot_y (joints s' RightUpperArm) = 0"
    "getNormalizedBoneNode v LeftLowerArm \<noteq> None \<Longrightarrow>
           rot_x (joints s' LeftLowerArm) = ELBOW + sin (tRef s' * 0.85) * 0.03"
    "getNormalizedBoneNode v RightLowerArm \<noteq> None \<Longrightarrow>
           rot_x (joints s' RightLowerArm) = ELBOW + sin (tRef s' * 0.9 + 0.25) * 0.03"
    "getNormalizedBoneNode v LeftHand \<noteq> None \<Longrightarrow>
           rot_y (joints s' LeftHand) = sin (tRef s' * 1.0) * 0.08
           \<and> rot_x (joints s' LeftHand) = sin (tRef s' * 0.5) * 0.04"
    "getNormalizedBoneNode v RightHand \<noteq> None \<Longrightarrow>
           rot_y (joints s' RightHand) = sin (tRef s' * 1.05 + 0.35) * 0.08
           \<and> rot_x (joints s' RightHand) = sin (tRef s' * 0.55 + 0.2) * 0.04"
    "getNormalizedBoneNode v LeftShoulder \<noteq> None \<Longrightarrow>
           rot_z (joints s' LeftShoulder)
             = 0.035 * (if dir_l (dirRef s') = 1 then 1 else - 1) + sin (tRef s' * 0.7) * 0.015"
    "getNormalizedBoneNode v RightShoulder \<noteq> None \<Longrightarrow>
           rot_z (joints s' RightShoulder)
             = 0.035 * (if dir_r (dirRef s') = - 1 then 1 else - 1)
               + sin (tRef s' * 0.75 + 0.45) * 0.015"
proof -
  obtain p1 p2 where
    a: "arms_rest (frame_bones v s) (tRef s') (dir_l (dirRef s')) (dir_r (dirRef s')) p1 = Some p2"
    and w: "wave_gesture var (frame_bones v s) tk (tRef s') (dir_l (dirRef s')) (dir_r (dirRef s'))
       (gestureRef s, p2) = Some (gestureRef s', joints s')"
    using useFrame_joints [OF v fr] by blast
  have j: "joints s' = p2"
    using wave_gesture_idle [OF w] inel by simp
  note fb = frame_bones_getBones [OF wf]
  note av = arms_rest_values [OF a fb(1-8), folded j]
  show "getNormalizedBoneNode v LeftUpperArm \<noteq> None \<Longrightarrow>
           rot_z (joints s' LeftUpperArm) = - dir_l (dirRef s') * REST + sin (tRef s' * 0.7) * 0.025
           \<and> rot_x (joints s' LeftUpperArm) = sin (tRef s' * 0.55) * 0.02
           \<and> rot_y (joints s' LeftUpperArm) = 0"
    by (rule av(1))
  show "getNormalizedBoneNode v RightUpperArm \<noteq> None \<Longrightarrow>
           rot_z (joints s' RightUpperArm)
             = - dir_r (dirRef s') * REST + sin (tRef s' * 0.75 + 0.4) * 0.025
           \<and> rot_x (joints s' RightUpperArm) = sin (tRef s' * 0.6) * 0.02
           \<and> rot_y (joints s' RightUpperArm) = 0"
    by (rule av(2))
  show "getNormalizedBoneNode v LeftLowerArm \<noteq> None \<Longrightarrow>
           rot_x (joints s' LeftLowerArm) = ELBOW + sin (tRef s' * 0.85) * 0.03"
    by (rule av(3))
  show "getNormalizedBoneNode v RightLowerArm \<noteq> None \<Longrightarrow>
           rot_x (joints s' RightLowerArm) = ELBOW + sin (tRef s' * 0.9 + 0.25) * 0.03"
    by (rule av(4))
  show "getNormalizedBoneNode v LeftHand \<noteq> None \<Longrightarrow>
           rot_y (joints s' LeftHand) = sin (tRef s' * 1.0) * 0.08
           \<and> rot_x (joints s' LeftHand) = sin (tRef s' * 0.5) * 0.04"
    by (rule av(5))
  show "getNormalizedBoneNode v RightHand \<noteq> None \<Longrightarrow>
           rot_y (joints s' RightHand) = sin (tRef s' * 1.05 + 0.35) * 0.08
           \<and> rot_x (joints s' RightHand) = sin (tRef s' * 0.55 + 0.2) * 0.04"
    by (rule av(6))
  show "getNormalizedBoneNode v LeftShoulder \<noteq> None \<Longrightarrow>
           rot_z (joints s' LeftShoulder)
             = 0.035 * (if dir_l (dirRef s') = 1 then 1 else - 1) + sin (tRef s' * 0.7) * 0.015"
    by (rule av(7))
  show "getNormalizedBoneNode v RightShoulder \<noteq> None \<Longrightarrow>
           rot_z (joints s' RightShoulder)
             = 0.035 * (if dir_r (dirRef s') = - 1 then 1 else - 1)
               + sin (tRef s' * 0.75 + 0.45) * 0.015"
    by (rule av(8))
qed

lemma useFrame_core_values:
  assumes v: "tick_vrm tk = Some v" and fr: "useFrame var tk s = Some s'"
    and wf: "bonesRef s = None \<or> bonesRef s = getBones (Some v)"
  shows "getNormalizedBoneNode v Spine \<noteq> None \<Longrightarrow>
           rot_x (joints s' Spine) = sin (tRef s' * 1.2) * 0.01
           \<and> rot_y (joints s' Spine) = sin (tRef s' * 0.7) * 0.01"
    "getNormalizedBoneNode v Chest \<noteq> None \<Longrightarrow>
           rot_x (joints s' Chest) = sin (tRef s' * 1.0) * 0.015
           \<and> rot_y (joints s' Chest) = sin (tRef s' * 0.5) * 0.012"
    "getNormalizedBoneNode v Chest = None \<and> getNormalizedBoneNode v UpperChest \<noteq> None \<Longrightarrow>
           rot_x (joints s' UpperChest) = sin (tRef s' * 1.0) * 0.015
           \<and> rot_y (joints s' UpperChest) = sin (tRef s' * 0.5) * 0.012"
    "getNormalizedBoneNode v Neck \<noteq> None \<Longrightarrow>
           rot_x (joints s' Neck) = sin (tRef s' * 0.9) * 0.02
           \<and> rot_y (joints s' Neck) = sin (tRef s' * 0.6 + 0.5) * 0.02"
    "getNormalizedBoneNode v Head \<noteq> None \<Longrightarrow>
           rot_x (joints s' Head) = sin (tRef s' * 1.1 + 0.3) * 0.018
           \<and> rot_y (joints s' Head) = sin (tRef s' * 0.8) * 0.018"
proof -
  note fb = frame_bones_getBones [OF wf]
  note sw = useFrame_sway [OF v fr wf]
  show "getNormalizedBoneNode v Spine \<noteq> None \<Longrightarrow>
           rot_x (joints s' Spine) = sin (tRef s' * 1.2) * 0.01
           \<and> rot_y (joints s' Spine) = sin (tRef s' * 0.7) * 0.01"
    using sw(1) [of Spine] fb(11) getNormalizedBoneNode_cases [of v Spine] by auto
  show "getNormalizedBoneNode v Chest \<noteq> None \<Longrightarrow>
           rot_x (joints s' Chest) = sin (tRef s' * 1.0) * 0.015
           \<and> rot_y (joints s' Chest) = sin (tRef s' * 0.5) * 0.012"
    using sw(2) [of Chest] fb(12) getNormalizedBoneNode_cases [of v Chest] by auto
  show "getNormalizedBoneNode v Chest = None \<and> getNormalizedBoneNode v UpperChest \<noteq> None \<Longrightarrow>
           rot_x (joints s' UpperChest) = sin (tRef s' * 1.0) * 0.015
           \<and> rot_y (joints s' UpperChest) = sin (tRef s' * 0.5) * 0.012"
    using sw(2) [of UpperChest] fb(12) getNormalizedBoneNode_cases [of v UpperChest] by auto
  show "getNormalizedBoneNode v Neck \<noteq> None \<Longrightarrow>
           rot_x (joints s' Neck) = sin (tRef s' * 0.9) * 0.02
           \<and> rot_y (joints s' Neck) = sin (tRef s' * 0.6 + 0.5) * 0.02"
    using sw(3) [of Neck] fb(10) getNormalizedBoneNode_cases [of v Neck] by auto
  show "getNormalizedBoneNode v Head \<noteq> None \<Longrightarrow>
           rot_x (joints s' Head) = sin (tRef s' * 1.1 + 0.3) * 0.018
           \<and> rot_y (joints s' Head) = sin (tRef s' * 0.8) * 0.018"
    using sw(4) [of Head] fb(9) getNormalizedBoneNode_cases [of v Head] by auto
qed

lemma useFrame_no_em:
  assumes "tick_vrm tk = Some v" "\<not> expressionManager v" "useFrame var tk s = Some s'"
  shows "expressions s' = expressions s \<and> blinkRef s' = blinkRef s"
proof (rule useFrame_blocks [OF assms(1), of var s])
  fix d p1 p2 p3 ex B
  assume "mouth_blink (expressionManager v) tk (tRef s + delta tk) (expressions s, blinkRef s)
       = Some (ex, B)"
    and "useFrame var tk s =
       Some \<lparr>tRef = tRef s + delta tk,
             bonesRef = (if bonesRef s = None then getBones (Some v) else bonesRef s),
             blinkRef = B, gestureRef = gesture_step var tk (gestureRef s),
             dirRef = d, joints = p3, expressions = ex,
             groupRef = (case groupRef s of
                           None \<Rightarrow> None
                         | Some y \<Rightarrow> Some (sin ((tRef s + delta tk) * 0.2) * 0.05))\<rparr>"
  then show ?thesis
    using assms(2,3) mouth_blink_no_em [of tk "tRef s + delta tk" "expressions s" "blinkRef s"]
    by auto
qed

lemma useFrame_mouth:
  assumes "tick_vrm tk = Some v" "expressionManager v" "useFrame var tk s = Some s'"
  shows "expressions s' ''aa'' = mouth_value (tRef s') (speaking tk)"
    "expressions s' ''ih'' = 0" "expressions s' ''ou'' = 0"
    "expressions s' ''ee'' = 0" "expressions s' ''oh'' = 0"
    "tRef s' = tRef s + delta tk"
proof -
  have "expressions s' ''aa'' = mouth_value (tRef s') (speaking tk)
    \<and> expressions s' ''ih'' = 0 \<and> expressions s' ''ou'' = 0
    \<and> expressions s' ''ee'' = 0 \<and> expressions s' ''oh'' = 0
    \<and> tRef s' = tRef s + delta tk"
  proof (rule useFrame_blocks [OF assms(1), of var s])
    fix d p1 p2 p3 ex B
    assume "mouth_blink (expressionManager v) tk (tRef s + delta tk) (expressions s, blinkRef s)
         = Some (ex, B)"
      and "useFrame var tk s =
         Some \<lparr>tRef = tRef s + delta tk,
               bonesRef = (if bonesRef s = None then getBones (Some v) else bonesRef s),
               blinkRef = B, gestureRef = gesture_step var tk (gestureRef s),
               dirRef = d, joints = p3, expressions = ex,
               groupRef = (case groupRef s of
                             None \<Rightarrow> None
                           | Some y \<Rightarrow> Some (sin ((tRef s + delta tk) * 0.2) * 0.05))\<rparr>"
    then show ?thesis
      using assms(2,3) mouth_blink_em [of tk "tRef s + delta tk" "expressions s" "blinkRef s"]
      by auto
  qed
  then show "expressions s' ''aa'' = mouth_value (tRef s') (speaking tk)"
    "expressions s' ''ih'' = 0" "expressions s' ''ou'' = 0"
    "expressions s' ''ee'' = 0" "expressions s' ''oh'' = 0"
    "tRef s' = tRef s + delta tk"
    by blast+
qed

lemma gesture_overlay_flag:
  "gesture_overlay b t l r (g\<lparr>g_active := a\<rparr>) p = gesture_overlay b t l r g p"
  by (simp add: gesture_overlay_def)

lemma wave_gesture_waving:
  assumes "wave_gesture var b tk t l r (g, p) = Some (g', p')" and "waving var tk g"
  shows "gesture_overlay b t l r g' p = Some p'"
  using assms
  by (auto simp: wave_gesture_def waving_def Let_def gesture_overlay_flag
      split: if_splits bind_splits)

lemma gesture_overlay_values:
  assumes "gesture_overlay b t l r g p = Some p'"
    and "lUpperArm b = getNormalizedBoneNode v LeftUpperArm"
    "rUpperArm b = getNormalizedBoneNode v RightUpperArm"
    "lLowerArm b = getNormalizedBoneNode v LeftLowerArm"
    "rLowerArm b = getNormalizedBoneNode v RightLowerArm"
    "lHand b = getNormalizedBoneNode v LeftHand"
    "rHand b = getNormalizedBoneNode v RightHand"
  shows "g_side g = ''left'' \<Longrightarrow> getNormalizedBoneNode v LeftUpperArm \<noteq> None \<Longrightarrow>
           rot_z (p' LeftUpperArm) = - l * REST + l * (0.45 * easeInOut (g_t g / g_dur g))
           \<and> rot_y (p' LeftUpperArm) = - 0.18 * easeInOut (g_t g / g_dur g)
           \<and> rot_x (p' LeftUpperArm) = rot_x (p LeftUpperArm)"
    "g_side g = ''left'' \<Longrightarrow> getNormalizedBoneNode v LeftLowerArm \<noteq> None \<Longrightarrow>
           rot_x (p' LeftLowerArm) = ELBOW + 0.45 * easeInOut (g_t g / g_dur g)"
    "g_side g = ''left'' \<Longrightarrow> getNormalizedBoneNode v LeftHand \<noteq> None \<Longrightarrow>
           rot_y (p' LeftHand) = 0.55 * sin (t * 10) * easeInOut (g_t g / g_dur g)
           \<and> rot_x (p' LeftHand) = 0.25 * easeInOut (g_t g / g_dur g)"
    "g_side g = ''left'' \<Longrightarrow>
           p' RightUpperArm = p RightUpperArm \<and> p' RightLowerArm = p RightLowerArm
           \<and> p' RightHand = p RightHand"
    "g_side g \<noteq> ''left'' \<Longrightarrow> getNormalizedBoneNode v RightUpperArm \<noteq> None \<Longrightarrow>
           rot_z (p' RightUpperArm) = - r * REST + r * (0.45 * easeInOut (g_t g / g_dur g))
           \<and> rot_y (p' RightUpperArm) = 0.18 * easeInOut (g_t g / g_dur g)
           \<and> rot_x (p' RightUpperArm) = rot_x (p RightUpperArm)"
    "g_side g \<noteq> ''left'' \<Longrightarrow> getNormalizedBoneNode v RightLowerArm \<noteq> None \<Longrightarrow>
           rot_x (p' RightLowerArm) = ELBOW + 0.45 * easeInOut (g_t g / g_dur g)"
    "g_side g \<noteq> ''left'' \<Longrightarrow> getNormalizedBoneNode v RightHand \<noteq> None \<Longrightarrow>
           rot_y (p' RightHand) = - (0.55 * sin (t * 10) * easeInOut (g_t g / g_dur g))
           \<and> rot_x (p' RightHand) = 0.25 * easeInOut (g_t g / g_dur g)"
    "g_side g \<noteq> ''left'' \<Longrightarrow>
           p' LeftUpperArm = p LeftUpperArm \<and> p' LeftLowerArm = p LeftLowerArm
           \<and> p' LeftHand = p LeftHand"
    "p' LeftShoulder = p LeftShoulder \<and> p' RightShoulder = p RightShoulder"
proof -
  let ?k = "easeInOut (g_t g / g_dur g)"
  have p': "p' =
     (if g_side g = ''left''
      then written (lHand b) [(AxisY, 0.55 * sin (t * 10) * ?k), (AxisX, 0.25 * ?k)]
          (written (lLowerArm b) [(AxisX, ELBOW + 0.45 * ?k)]
          (written (lUpperArm b)
             [(AxisZ, - l * REST + l * (0.45 * ?k)), (AxisY, - 0.18 * ?k)] p))
      else written (rHand b) [(AxisY, - (0.55 * sin (t * 10) * ?k)), (AxisX, 0.25 * ?k)]
          (written (rLowerArm b) [(AxisX, ELBOW + 0.45 * ?k)]
          (written (rUpperArm b)
             [(AxisZ, - r * REST + r * (0.45 * ?k)), (AxisY, 0.18 * ?k)] p)))"
  proof (cases "g_side g = ''left''")
    case True
    then show ?thesis
      using assms(1)
      by (simp only: gesture_overlay_def Let_def if_present_written Option.bind.simps
          if_True simp_thms option.inject)
  next
    case False
    then show ?thesis
      using assms(1)
      by (simp only: gesture_overlay_def Let_def if_present_written Option.bind.simps
          if_False simp_thms option.inject)
  qed
  note defs = written_apply apply_writes_def set_axis_def present_ref assms(2-)
  show "g_side g = ''left'' \<Longrightarrow> getNormalizedBoneNode v LeftUpperArm \<noteq> None \<Longrightarrow>
           rot_z (p' LeftUpperArm) = - l * REST + l * (0.45 * easeInOut (g_t g / g_dur g))
           \<and> rot_y (p' LeftUpperArm) = - 0.18 * easeInOut (g_t g / g_dur g)
           \<and> rot_x (p' LeftUpperArm) = rot_x (p LeftUpperArm)"
    unfolding p' by (simp add: defs)
  show "g_side g = ''left'' \<Longrightarrow> getNormalizedBoneNode v LeftLowerArm \<noteq> None \<Longrightarrow>
           rot_x (p' LeftLowerArm) = ELBOW + 0.45 * easeInOut (g_t g / g_dur g)"
    unfolding p' by (simp add: defs)
  show "g_side g = ''left'' \<Longrightarrow> getNormalizedBoneNode v LeftHand \<noteq> None \<Longrightarrow>
           rot_y (p' LeftHand) = 0.55 * sin (t * 10) * easeInOut (g_t g / g_dur g)
           \<and> rot_x (p' LeftHand) = 0.25 * easeInOut (g_t g / g_dur g)"
    unfolding p' by (simp add: defs)
  show "g_side g = ''left'' \<Longrightarrow>
           p' RightUpperArm = p RightUpperArm \<and> p' RightLowerArm = p RightLowerArm
           \<and> p' RightHand = p RightHand"
    unfolding p' by (simp add: defs)
  show "g_side g \<noteq> ''left'' \<Longrightarrow> getNormalizedBoneNode v RightUpperArm \<noteq> None \<Longrightarrow>
           rot_z (p' RightUpperArm) = - r * REST + r * (0.45 * easeInOut (g_t g / g_dur g))
           \<and> rot_y (p' RightUpperArm) = 0.18 * easeInOut (g_t g / g_dur g)
           \<and> rot_x (p' RightUpperArm) = rot_x (p RightUpperArm)"
    unfolding p' by (simp add: defs)
  show "g_side g \<noteq> ''left'' \<Longrightarrow> getNormalizedBoneNode v RightLowerArm \<noteq> None \<Longrightarrow>
           rot_x (p' RightLowerArm) = ELBOW + 0.45 * easeInOut (g_t g / g_dur g)"
    unfolding p' by (simp add: defs)
  show "g_side g \<noteq> ''left'' \<Longrightarrow> getNormalizedBoneNode v RightHand \<noteq> None \<Longrightarrow>
           rot_y (p' RightHand) = - (0.55 * sin (t * 10) * easeInOut (g_t g / g_dur g))
           \<and> rot_x (p' RightHand) = 0.25 * easeInOut (g_t g / g_dur g)"
    unfolding p' by (simp add: defs)
  show "g_side g \<noteq> ''left'' \<Longrightarrow>
           p' LeftUpperArm = p LeftUpperArm \<and> p' LeftLowerArm = p LeftLowerArm
           \<and> p' LeftHand = p LeftHand"
    unfolding p' by (simp add: defs)
  show "p' LeftShoulder = p LeftShoulder \<and> p' RightShoulder = p RightShoulder"
    unfolding p' by (simp add: defs)
qed

lemma useFrame_idle_arms:
  assumes v: "tick_vrm tk = Some v" and fr: "useFrame var tk s = Some s'"
    and wf: "bonesRef s = None \<or> bonesRef s = getBones (Some v)"
    and idle: "\<not> waving var tk (gestureRef s)"
  shows "getNormalizedBoneNode v LeftUpperArm \<noteq> None \<Longrightarrow>
           rot_z (joints s' LeftUpperArm) = - dir_l (dirRef s') * REST + sin (tRef s' * 0.7) * 0.025
           \<and> rot_x (joints s' LeftUpperArm) = sin (tRef s' * 0.55) * 0.02
           \<and> rot_y (joints s' LeftUpperArm) = 0"
    "getNormalizedBoneNode v RightUpperArm \<noteq> None \<Longrightarrow>
           rot_z (joints s' RightUpperArm)
             = - dir_r (dirRef s') * REST + sin (tRef s' * 0.75 + 0.4) * 0.025
           \<and> rot_x (joints s' RightUpperArm) = sin (tRef s' * 0.6) * 0.02
           \<and> rot_y (joints s' RightUpperArm) = 0"
    "getNormalizedBoneNode v LeftLowerArm \<noteq> None \<Longrightarrow>
           rot_x (joints s' LeftLowerArm) = ELBOW + sin (tRef s' * 0.85) * 0.03"
    "getNormalizedBoneNode v RightLowerArm \<noteq> None \<Longrightarrow>
           rot_x (joints s' RightLowerArm) = ELBOW + sin (tRef s' * 0.9 + 0.25) * 0.03"
    "getNormalizedBoneNode v LeftHand \<noteq> None \<Longrightarrow>
           rot_y (joints s' LeftHand) = sin (tRef s' * 1.0) * 0.08
           \<and> rot_x (joints s' LeftHand) = sin (tRef s' * 0.5) * 0.04"
    "getNormalizedBoneNode v RightHand \<noteq> None \<Longrightarrow>
           rot_y (joints s' RightHand) = sin (tRef s' * 1.05 + 0.35) * 0.08
           \<and> rot_x (joints s' RightHand) = sin (tRef s' * 0.55 + 0.2) * 0.04"
proof -
  obtain p1 p2 where
    a: "arms_rest (frame_bones v s) (tRef s') (dir_l (dirRef s')) (dir_r (dirRef s')) p1 = Some p2"
    and w: "wave_gesture var (frame_bones v s) tk (tRef s') (dir_l (dirRef s')) (dir_r (dirRef s'))
       (gestureRef s, p2) = Some (gestureRef s', joints s')"
    using useFrame_joints [OF v fr] by blast
  have j: "joints s' = p2"
    using wave_gesture_idle [OF w] idle by (simp add: waving_def)
  note fb = frame_bones_getBones [OF wf]
  note av = arms_rest_values [OF a fb(1-8), folded j]
  show "getNormalizedBoneNode v LeftUpperArm \<noteq> None \<Longrightarrow>
           rot_z (joints s' LeftUpperArm) = - dir_l (dirRef s') * REST + sin (tRef s' * 0.7) * 0.025
           \<and> rot_x (joints s' LeftUpperArm) = sin (tRef s' * 0.55) * 0.02
           \<and> rot_y (joints s' LeftUpperArm) = 0"
    by (rule av(1))
  show "getNormalizedBoneNode v RightUpperArm \<noteq> None \<Longrightarrow>
           rot_z (joints s' RightUpperArm)
             = - dir_r (dirRef s') * REST + sin (tRef s' * 0.75 + 0.4) * 0.025
           \<and> rot_x (joints s' RightUpperArm) = sin (tRef s' * 0.6) * 0.02
           \<and> rot_y (joints s' RightUpperArm) = 0"
    by (rule av(2))
  show "getNormalizedBoneNode v LeftLowerArm \<noteq> None \<Longrightarrow>
           rot_x (joints s' LeftLowerArm) = ELBOW + sin (tRef s' * 0.85) * 0.03"
    by (rule av(3))
  show "getNormalizedBoneNode v RightLowerArm \<noteq> None \<Longrightarrow>
           rot_x (joints s' RightLowerArm) = ELBOW + sin (tRef s' * 0.9 + 0.25) * 0.03"
    by (rule av(4))
  show "getNormalizedBoneNode v LeftHand \<noteq> None \<Longrightarrow>
           rot_y (joints s' LeftHand) = sin (tRef s' * 1.0) * 0.08
           \<and> rot_x (joints s' LeftHand) = sin (tRef s' * 0.5) * 0.04"
    by (rule av(5))
  show "getNormalizedBoneNode v RightHand \<noteq> None \<Longrightarrow>
           rot_y (joints s' RightHand) = sin (tRef s' * 1.05 + 0.35) * 0.08
           \<and> rot_x (joints s' RightHand) = sin (tRef s' * 0.55 + 0.2) * 0.04"
    by (rule av(6))
qed

lemma useFrame_shoulders:
  assumes v: "tick_vrm tk = Some v" and fr: "useFrame var tk s = Some s'"
    and wf: "bonesRef s = None \<or> bonesRef s = getBones (Some v)"
  shows "getNormalizedBoneNode v LeftShoulder \<noteq> None \<Longrightarrow>
           rot_z (joints s' LeftShoulder)
             = 0.035 * (if dir_l (dirRef s') = 1 then 1 else - 1) + sin (tRef s' * 0.7) * 0.015"
    "getNormalizedBoneNode v RightShoulder \<noteq> None \<Longrightarrow>
           rot_z (joints s' RightShoulder)
             = 0.035 * (if dir_r (dirRef s') = - 1 then 1 else - 1)
               + sin (tRef s' * 0.75 + 0.45) * 0.015"
proof -
  obtain p1 p2 where
    a: "arms_rest (frame_bones v s) (tRef s') (dir_l (dirRef s')) (dir_r (dirRef s')) p1 = Some p2"
    and w: "wave_gesture var (frame_bones v s) tk (tRef s') (dir_l (dirRef s')) (dir_r (dirRef s'))
       (gestureRef s, p2) = Some (gestureRef s', joints s')"
    using useFrame_joints [OF v fr] by blast
  note fb = frame_bones_getBones [OF wf]
  note av = arms_rest_values [OF a fb(1-8)]
  have sh: "joints s' LeftShoulder = p2 LeftShoulder \<and> joints s' RightShoulder = p2 RightShoulder"
  proof (cases "waving var tk (gestureRef s)")
    case True
    show ?thesis
      using gesture_overlay_values(9) [OF wave_gesture_waving [OF w True] fb(1-6)] .
  next
    case False
    then show ?thesis using wave_gesture_idle [OF w] by (simp add: waving_def)
  qed
  show "getNormalizedBoneNode v LeftShoulder \<noteq> None \<Longrightarrow>
           rot_z (joints s' LeftShoulder)
             = 0.035 * (if dir_l (dirRef s') = 1 then 1 else - 1) + sin (tRef s' * 0.7) * 0.015"
    using av(7) sh by simp
  show "getNormalizedBoneNode v RightShoulder \<noteq> None \<Longrightarrow>
           rot_z (joints s' RightShoulder)
             = 0.035 * (if dir_r (dirRef s') = - 1 then 1 else - 1)
               + sin (tRef s' * 0.75 + 0.45) * 0.015"
    using av(8) sh by simp
qed

lemma useFrame_wave_left:
  assumes v: "tick_vrm tk = Some v" and fr: "useFrame var tk s = Some s'"
    and wf: "bonesRef s = None \<or> bonesRef s = getBones (Some v)"
    and wv: "waving var tk (gestureRef s)"
    and side: "g_side (gestureRef s') = ''left''"
  shows "getNormalizedBoneNode v LeftUpperArm \<noteq> None \<Longrightarrow>
           rot_z (joints s' LeftUpperArm)
             = - dir_l (dirRef s') * REST
               + dir_l (dirRef s') * (0.45 * easeInOut (g_t (gestureRef s') / g_dur (gestureRef s')))
           \<and> rot_y (joints s' LeftUpperArm)
             = - 0.18 * easeInOut (g_t (gestureRef s') / g_dur (gestureRef s'))
           \<and> rot_x (joints s' LeftUpperArm) = sin (tRef s' * 0.55) * 0.02"
    "getNormalizedBoneNode v LeftLowerArm \<noteq> None \<Longrightarrow>
           rot_x (joints s' LeftLowerArm)
             = ELBOW + 0.45 * easeInOut (g_t (gestureRef s') / g_dur (gestureRef s'))"
    "getNormalizedBoneNode v LeftHand \<noteq> None \<Longrightarrow>
           rot_y (joints s' LeftHand)
             = 0.55 * sin (tRef s' * 10) * easeInOut (g_t (gestureRef s') / g_dur (gestureRef s'))
           \<and> rot_x (joints s' LeftHand)
             = 0.25 * easeInOut (g_t (gestureRef s') / g_dur (gestureRef s'))"
    "getNormalizedBoneNode v RightUpperArm \<noteq> None \<Longrightarrow>
           rot_z (joints s' RightUpperArm)
             = - dir_r (dirRef s') * REST + sin (tRef s' * 0.75 + 0.4) * 0.025
           \<and> rot_x (joints s' RightUpperArm) = sin (tRef s' * 0.6) * 0.02
           \<and> rot_y (joints s' RightUpperArm) = 0"
    "getNormalizedBoneNode v RightLowerArm \<noteq> None \<Longrightarrow>
           rot_x (joints s' RightLowerArm) = ELBOW + sin (tRef s' * 0.9 + 0.25) * 0.03"
    "getNormalizedBoneNode v RightHand \<noteq> None \<Longrightarrow>
           rot_y (joints s' RightHand) = sin (tRef s' * 1.05 + 0.35) * 0.08
           \<and> rot_x (joints s' RightHand) = sin (tRef s' * 0.55 + 0.2) * 0.04"
proof -
  obtain p1 p2 where
    a: "arms_rest (frame_bones v s) (tRef s') (dir_l (dirRef s')) (dir_r (dirRef s')) p1 = Some p2"
    and w: "wave_gesture var (frame_bones v s) tk (tRef s') (dir_l (dirRef s')) (dir_r (dirRef s'))
       (gestureRef s, p2) = Some (gestureRef s', joints s')"
    using useFrame_joints [OF v fr] by blast
  note fb = frame_bones_getBones [OF wf]
  note av = arms_rest_values [OF a fb(1-8)]
  note ov = gesture_overlay_values [OF wave_gesture_waving [OF w wv] fb(1-6)]
  show "getNormalizedBoneNode v LeftUpperArm \<noteq> None \<Longrightarrow>
           rot_z (joints s' LeftUpperArm)
             = - dir_l (dirRef s') * REST
               + dir_l (dirRef s') * (0.45 * easeInOut (g_t (gestureRef s') / g_dur (gestureRef s')))
           \<and> rot_y (joints s' LeftUpperArm)
             = - 0.18 * easeInOut (g_t (gestureRef s') / g_dur (gestureRef s'))
           \<and> rot_x (joints s' LeftUpperArm) = sin (tRef s' * 0.55) * 0.02"
    using ov(1) [OF side] av(1) by simp
  show "getNormalizedBoneNode v LeftLowerArm \<noteq> None \<Longrightarrow>
           rot_x (joints s' LeftLowerArm)
             = ELBOW + 0.45 * easeInOut (g_t (gestureRef s') / g_dur (gestureRef s'))"
    using ov(2) [OF side] by simp
  show "getNormalizedBoneNode v LeftHand \<noteq> None \<Longrightarrow>
           rot_y (joints s' LeftHand)
             = 0.55 * sin (tRef s' * 10) * easeInOut (g_t (gestureRef s') / g_dur (gestureRef s'))
           \<and> rot_x (joints s' LeftHand)
             = 0.25 * easeInOut (g_t (gestureRef s') / g_dur (gestureRef s'))"
    using ov(3) [OF side] by simp
  show "getNormalizedBoneNode v RightUpperArm \<noteq> None \<Longrightarrow>
           rot_z (joints s' RightUpperArm)
             = - dir_r (dirRef s') * REST + sin (tRef s' * 0.75 + 0.4) * 0.025
           \<and> rot_x (joints s' RightUpperArm) = sin (tRef s' * 0.6) * 0.02
           \<and> rot_y (joints s' RightUpperArm) = 0"
    using ov(4) [OF side] av(2) by simp
  show "getNormalizedBoneNode v RightLowerArm \<noteq> None \<Longrightarrow>
           rot_x (joints s' RightLowerArm) = ELBOW + sin (tRef s' * 0.9 + 0.25) * 0.03"
    using ov(4) [OF side] av(4) by simp
  show "getNormalizedBoneNode v RightHand \<noteq> None \<Longrightarrow>
           rot_y (joints s' RightHand) = sin (tRef s' * 1.05 + 0.35) * 0.08
           \<and> rot_x (joints s' RightHand) = sin (tRef s' * 0.55 + 0.2) * 0.04"
    using ov(4) [OF side] av(6) by simp
qed

lemma useFrame_wave_right:
  assumes v: "tick_vrm tk = Some v" and fr: "useFrame var tk s = Some s'"
    and wf: "bonesRef s = None \<or> bonesRef s = getBones (Some v)"
    and wv: "waving var tk (gestureRef s)"
    and side: "g_side (gestureRef s') \<noteq> ''left''"
  shows "getNormalizedBoneNode v RightUpperArm \<noteq> None \<Longrightarrow>
           rot_z (joints s' RightUpperArm)
             = - dir_r (dirRef s') * REST
               + dir_r (dirRef s') * (0.45 * easeInOut (g_t (gestureRef s') / g_dur (gestureRef s')))
           \<and> rot_y (joints s' RightUpperArm)
             = 0.18 * easeInOut (g_t (gestureRef s') / g_dur (gestureRef s'))
           \<and> rot_x (joints s' RightUpperArm) = sin (tRef s' * 0.6) * 0.02"
    "getNormalizedBoneNode v RightLowerArm \<noteq> None \<Longrightarrow>
           rot_x (joints s' RightLowerArm)
             = ELBOW + 0.45 * easeInOut (g_t (gestureRef s') / g_dur (gestureRef s'))"
    "getNormalizedBoneNode v RightHand \<noteq> None \<Longrightarrow>
           rot_y (joints s' RightHand)
             = - (0.55 * sin (tRef s' * 10)
                  * easeInOut (g_t (gestureRef s') / g_dur (gestureRef s')))
           \<and> rot_x (joints s' RightHand)
             = 0.25 * easeInOut (g_t (gestureRef s') / g_dur (gestureRef s'))"
    "getNormalizedBoneNode v LeftUpperArm \<noteq> None \<Longrightarrow>
           rot_z (joints s' LeftUpperArm) = - dir_l (dirRef s') * REST + sin (tRef s' * 0.7) * 0.025
           \<and> rot_x (joints s' LeftUpperArm) = sin (tRef s' * 0.55) * 0.02
           \<and> rot_y (joints s' LeftUpperArm) = 0"
    "getNormalizedBoneNode v LeftLowerArm \<noteq> None \<Longrightarrow>
           rot_x (joints s' LeftLowerArm) = ELBOW + sin (tRef s' * 0.85) * 0.03"
    "getNormalizedBoneNode v LeftHand \<noteq> None \<Longrightarrow>
           rot_y (joints s' LeftHand) = sin (tRef s' * 1.0) * 0.08
           \<and> rot_x (joints s' LeftHand) = sin (tRef s' * 0.5) * 0.04"
proof -
  obtain p1 p2 where
    a: "arms_rest (frame_bones v s) (tRef s') (dir_l (dirRef s')) (dir_r (dirRef s')) p1 = Some p2"
    and w: "wave_gesture var (frame_bones v s) tk (tRef s') (dir_l (dirRef s')) (dir_r (dirRef s'))
       (gestureRef s, p2) = Some (gestureRef s', joints s')"
    using useFrame_joints [OF v fr] by blast
  note fb = frame_bones_getBones [OF wf]
  note av = arms_rest_values [OF a fb(1-8)]
  note ov = gesture_overlay_values [OF wave_gesture_waving [OF w wv] fb(1-6)]
  show "getNormalizedBoneNode v RightUpperArm \<noteq> None \<Longrightarrow>
           rot_z (joints s' RightUpperArm)
             = - dir_r (dirRef s') * REST
               + dir_r (dirRef s') * (0.45 * easeInOut (g_t (gestureRef s') / g_dur (gestureRef s')))
           \<and> rot_y (joints s' RightUpperArm)
             = 0.18 * easeInOut (g_t (gestureRef s') / g_dur (gestureRef s'))
           \<and> rot_x (joints s' RightUpperArm) = sin (tRef s' * 0.6) * 0.02"
    using ov(5) [OF side] av(2) by simp
  show "getNormalizedBoneNode v RightLowerArm \<noteq> None \<Longrightarrow>
           rot_x (joints s' RightLowerArm)
             = ELBOW + 0.45 * easeInOut (g_t (gestureRef s') / g_dur (gestureRef s'))"
    using ov(6) [OF side] by simp
  show "getNormalizedBoneNode v RightHand \<noteq> None \<Longrightarrow>
           rot_y (joints s' RightHand)
             = - (0.55 * sin (tRef s' * 10)
                  * easeInOut (g_t (gestureRef s') / g_dur (gestureRef s')))
           \<and> rot_x (joints s' RightHand)
             = 0.25 * easeInOut (g_t (gestureRef s') / g_dur (gestureRef s'))"
    using ov(7) [OF side] by simp
  show "getNormalizedBoneNode v LeftUpperArm \<noteq> None \<Longrightarrow>
           rot_z (joints s' LeftUpperArm) = - dir_l (dirRef s') * REST + sin (tRef s' * 0.7) * 0.025
           \<and> rot_x (joints s' LeftUpperArm) = sin (tRef s' * 0.55) * 0.02
           \<and> rot_y (joints s' LeftUpperArm) = 0"
    using ov(8) [OF side] av(1) by simp
  show "getNormalizedBoneNode v LeftLowerArm \<noteq> None \<Longrightarrow>
           rot_x (joints s' LeftLowerArm) = ELBOW + sin (tRef s' * 0.85) * 0.03"
    using ov(8) [OF side] av(3) by simp
  show "getNormalizedBoneNode v LeftHand \<noteq> None \<Longrightarrow>
           rot_y (joints s' LeftHand) = sin (tRef s' * 1.0) * 0.08
           \<and> rot_x (joints s' LeftHand) = sin (tRef s' * 0.5) * 0.04"
    using ov(8) [OF side] av(5) by simp
qed

subsection \<open>Idle sway\<close>

lemma sway_bound: "0 \<le> a \<Longrightarrow> y = sin (x::real) * a \<Longrightarrow> \<bar>y\<bar> \<le> a"
  using sin_amplitude [of a x] by simp

lemma sway_bound_about: "0 \<le> a \<Longrightarrow> y = c + sin (x::real) * a \<Longrightarrow> \<bar>y - c\<bar> \<le> a"
  using sin_amplitude [of a x] by simp

lemma sway_pair:
  assumes "P \<Longrightarrow> y1 = sin (x1::real) * a1 \<and> y2 = sin (x2::real) * a2" "0 \<le> a1" "0 \<le> a2"
  shows "P \<longrightarrow> \<bar>y1\<bar> \<le> a1 \<and> \<bar>y2\<bar> \<le> a2"
  using assms sway_bound by blast

lemma sway_pair_when:
  assumes "Q \<Longrightarrow> P \<Longrightarrow> y1 = sin (x1::real) * a1 \<and> y2 = sin (x2::real) * a2" "0 \<le> a1" "0 \<le> a2"
  shows "Q \<and> P \<longrightarrow> \<bar>y1\<bar> \<le> a1 \<and> \<bar>y2\<bar> \<le> a2"
  using assms sway_bound by blast

lemma sway_upper_arm:
  assumes "Q \<Longrightarrow> P \<Longrightarrow> z = c + sin (x1::real) * a1 \<and> y1 = sin (x2::real) * a2 \<and> y2 = (0::real)"
    "0 \<le> a1" "0 \<le> a2"
  shows "Q \<and> P \<longrightarrow> \<bar>z - c\<bar> \<le> a1 \<and> \<bar>y1\<bar> \<le> a2"
  using assms sway_bound sway_bound_about by blast

lemma sway_lower_arm:
  assumes "Q \<Longrightarrow> P \<Longrightarrow> y = c + sin (x::real) * a" "0 \<le> a"
  shows "Q \<and> P \<longrightarrow> \<bar>y - c\<bar> \<le> a"
  using assms sway_bound_about by blast

text \<open>
  Claim C6.  After a frame with a model, whatever the elapsed time, the rotations the
  idle sway writes are within their amplitudes: spine 0.01 and 0.01, chest 0.015 and
  0.012, neck 0.02 and 0.02, and head 0.018 and 0.018 about x and y, so the head's x
  and y rotations are in \<open>[-0.018, 0.018]\<close>; and in a frame without gesture the upper
  arms are within 0.025 of their rest angle about z and within 0.02 about x, the elbows
  within 0.03 of their bend, and the hands within 0.08 about y and 0.04 about x.
\<close>

theorem idle_sway_bounded:
  "tick_vrm tk = Some v \<and> (bonesRef s = None \<or> bonesRef s = getBones (Some v))
   \<and> useFrame var tk s = Some s1
   \<longrightarrow> (getNormalizedBoneNode v Spine \<noteq> None
        \<longrightarrow> \<bar>rot_x (joints s1 Spine)\<bar> \<le> 0.01 \<and> \<bar>rot_y (joints s1 Spine)\<bar> \<le> 0.01)
     \<and> (chest (frame_bones v s) = Some c
        \<longrightarrow> \<bar>rot_x (joints s1 c)\<bar> \<le> 0.015 \<and> \<bar>rot_y (joints s1 c)\<bar> \<le> 0.012)
     \<and> (getNormalizedBoneNode v Neck \<noteq> None
        \<longrightarrow> \<bar>rot_x (joints s1 Neck)\<bar> \<le> 0.02 \<and> \<bar>rot_y (joints s1 Neck)\<bar> \<le> 0.02)
     \<and> (getNormalizedBoneNode v Head \<noteq> None
        \<longrightarrow> - 0.018 \<le> rot_x (joints s1 Head) \<and> rot_x (joints s1 Head) \<le> 0.018
          \<and> - 0.018 \<le> rot_y (joints s1 Head) \<and> rot_y (joints s1 Head) \<le> 0.018)
     \<and> (\<not> eligible var tk \<and> getNormalizedBoneNode v LeftUpperArm \<noteq> None
        \<longrightarrow> \<bar>rot_z (joints s1 LeftUpperArm) - (- dir_l (dirRef s1) * 0.9)\<bar> \<le> 0.025
          \<and> \<bar>rot_x (joints s1 LeftUpperArm)\<bar> \<le> 0.02)
     \<and> (\<not> eligible var tk \<and> getNormalizedBoneNode v RightUpperArm \<noteq> None
        \<longrightarrow> \<bar>rot_z (joints s1 RightUpperArm) - (- dir_r (dirRef s1) * 0.9)\<bar> \<le> 0.025
          \<and> \<bar>rot_x (joints s1 RightUpperArm)\<bar> \<le> 0.02)
     \<and> (\<not> eligible var tk \<and> getNormalizedBoneNode v LeftLowerArm \<noteq> None
        \<longrightarrow> \<bar>rot_x (joints s1 LeftLowerArm) - 0.35\<bar> \<le> 0.03)
     \<and> (\<not> eligible var tk \<and> getNormalizedBoneNode v RightLowerArm \<noteq> None
        \<longrightarrow> \<bar>rot_x (joints s1 RightLowerArm) - 0.35\<bar> \<le> 0.03)
     \<and> (\<not> eligible var tk \<and> getNormalizedBoneNode v LeftHand \<noteq> None
        \<longrightarrow> \<bar>rot_y (joints s1 LeftHand)\<bar> \<le> 0.08 \<and> \<bar>rot_x (joints s1 LeftHand)\<bar> \<le> 0.04)
     \<and> (\<not> eligible var tk \<and> getNormalizedBoneNode v RightHand \<noteq> None
        \<longrightarrow> \<bar>rot_y (joints s1 RightHand)\<bar> \<le> 0.08 \<and> \<bar>rot_x (joints s1 RightHand)\<bar> \<le> 0.04)"
proof (intro impI)
  assume a: "tick_vrm tk = Some v \<and> (bonesRef s = None \<or> bonesRef s = getBones (Some v))
   \<and> useFrame var tk s = Some s1"
  then have v: "tick_vrm tk = Some v" and wf: "bonesRef s = None \<or> bonesRef s = getBones (Some v)"
    and fr: "useFrame var tk s = Some s1" by simp_all
  note cv = useFrame_core_values [OF v fr wf]
  note rest = useFrame_rest [OF v fr wf, unfolded REST_def ELBOW_def]
  have spine: "getNormalizedBoneNode v Spine \<noteq> None
        \<longrightarrow> \<bar>rot_x (joints s1 Spine)\<bar> \<le> 0.01 \<and> \<bar>rot_y (joints s1 Spine)\<bar> \<le> 0.01"
    by (rule sway_pair [OF cv(1)]) simp_all
  have chest: "chest (frame_bones v s) = Some c
        \<longrightarrow> \<bar>rot_x (joints s1 c)\<bar> \<le> 0.015 \<and> \<bar>rot_y (joints s1 c)\<bar> \<le> 0.012"
    by (rule sway_pair [OF useFrame_sway(2) [OF v fr wf]]) simp_all
  have neck: "getNormalizedBoneNode v Neck \<noteq> None
        \<longrightarrow> \<bar>rot_x (joints s1 Neck)\<bar> \<le> 0.02 \<and> \<bar>rot_y (joints s1 Neck)\<bar> \<le> 0.02"
    by (rule sway_pair [OF cv(4)]) simp_all
  have interval: "\<bar>y\<bar> \<le> a \<Longrightarrow> - a \<le> y \<and> y \<le> a" for y a :: real
    by linarith
  have "getNormalizedBoneNode v Head \<noteq> None
        \<longrightarrow> \<bar>rot_x (joints s1 Head)\<bar> \<le> 0.018 \<and> \<bar>rot_y (joints s1 Head)\<bar> \<le> 0.018"
    by (rule sway_pair [OF cv(5)]) simp_all
  then have head: "getNormalizedBoneNode v Head \<noteq> None
        \<longrightarrow> - 0.018 \<le> rot_x (joints s1 Head) \<and> rot_x (joints s1 Head) \<le> 0.018
          \<and> - 0.018 \<le> rot_y (joints s1 Head) \<and> rot_y (joints s1 Head) \<le> 0.018"
    using interval [of "rot_x (joints s1 Head)" "0.018"]
      interval [of "rot_y (joints s1 Head)" "0.018"] by blast
  have lu: "\<not> eligible var tk \<and> getNormalizedBoneNode v LeftUpperArm \<noteq> None
        \<longrightarrow> \<bar>rot_z (joints s1 LeftUpperArm) - (- dir_l (dirRef s1) * 0.9)\<bar> \<le> 0.025
          \<and> \<bar>rot_x (joints s1 LeftUpperArm)\<bar> \<le> 0.02"
    by (rule sway_upper_arm [OF rest(1)]) simp_all
  have ru: "\<not> eligible var tk \<and> getNormalizedBoneNode v RightUpperArm \<noteq> None
        \<longrightarrow> \<bar>rot_z (joints s1 RightUpperArm) - (- dir_r (dirRef s1) * 0.9)\<bar> \<le> 0.025
          \<and> \<bar>rot_x (joints s1 RightUpperArm)\<bar> \<le> 0.02"
    by (rule sway_upper_arm [OF rest(2)]) simp_all
  have ll: "\<not> eligible var tk \<and> getNormalizedBoneNode v LeftLowerArm \<noteq> None
        \<longrightarrow> \<bar>rot_x (joints s1 LeftLowerArm) - 0.35\<bar> \<le> 0.03"
    by (rule sway_lower_arm [OF rest(3)]) simp_all
  have rl: "\<not> eligible var tk \<and> getNormalizedBoneNode v RightLowerArm \<noteq> None
        \<longrightarrow> \<bar>rot_x (joints s1 RightLowerArm) - 0.35\<bar> \<le> 0.03"
    by (rule sway_lower_arm [OF rest(4)]) simp_all
  have lh: "\<not> eligible var tk \<and> getNormalizedBoneNode v LeftHand \<noteq> None
        \<longrightarrow> \<bar>rot_y (joints s1 LeftHand)\<bar> \<le> 0.08 \<and> \<bar>rot_x (joints s1 LeftHand)\<bar> \<le> 0.04"
    by (rule sway_pair_when [OF rest(5)]) simp_all
  have rh: "\<not> eligible var tk \<and> getNormalizedBoneNode v RightHand \<noteq> None
        \<longrightarrow> \<bar>rot_y (joints s1 RightHand)\<bar> \<le> 0.08 \<and> \<bar>rot_x (joints s1 RightHand)\<bar> \<le> 0.04"
    by (rule sway_pair_when [OF rest(6)]) simp_all
  show "(getNormalizedBoneNode v Spine \<noteq> None
        \<longrightarrow> \<bar>rot_x (joints s1 Spine)\<bar> \<le> 0.01 \<and> \<bar>rot_y (joints s1 Spine)\<bar> \<le> 0.01)
     \<and> (chest (frame_bones v s) = Some c
        \<longrightarrow> \<bar>rot_x (joints s1 c)\<bar> \<le> 0.015 \<and> \<bar>rot_y (joints s1 c)\<bar> \<le> 0.012)
     \<and> (getNormalizedBoneNode v Neck \<noteq> None
        \<longrightarrow> \<bar>rot_x (joints s1 Neck)\<bar> \<le> 0.02 \<and> \<bar>rot_y (joints s1 Neck)\<bar> \<le> 0.02)
     \<and> (getNormalizedBoneNode v Head \<noteq> None
        \<longrightarrow> - 0.018 \<le> rot_x (joints s1 Head) \<and> rot_x (joints s1 Head) \<le> 0.018
          \<and> - 0.018 \<le> rot_y (joints s1 Head) \<and> rot_y (joints s1 Head) \<le> 0.018)
     \<and> (\<not> eligible var tk \<and> getNormalizedBoneNode v LeftUpperArm \<noteq> None
        \<longrightarrow> \<bar>rot_z (joints s1 LeftUpperArm) - (- dir_l (dirRef s1) * 0.9)\<bar> \<le> 0.025
          \<and> \<bar>rot_x (joints s1 LeftUpperArm)\<bar> \<le> 0.02)
     \<and> (\<not> eligible var tk \<and> getNormalizedBoneNode v RightUpperArm \<noteq> None
        \<longrightarrow> \<bar>rot_z (joints s1 RightUpperArm) - (- dir_r (dirRef s1) * 0.9)\<bar> \<le> 0.025
          \<and> \<bar>rot_x (joints s1 RightUpperArm)\<bar> \<le> 0.02)
     \<and> (\<not> eligible var tk \<and> getNormalizedBoneNode v LeftLowerArm \<noteq> None
        \<longrightarrow> \<bar>rot_x (joints s1 LeftLowerArm) - 0.35\<bar> \<le> 0.03)
     \<and> (\<not> eligible var tk \<and> getNormalizedBoneNode v RightLowerArm \<noteq> None
        \<longrightarrow> \<bar>rot_x (joints s1 RightLowerArm) - 0.35\<bar> \<le> 0.03)
     \<and> (\<not> eligible var tk \<and> getNormalizedBoneNode v LeftHand \<noteq> None
        \<longrightarrow> \<bar>rot_y (joints s1 LeftHand)\<bar> \<le> 0.08 \<and> \<bar>rot_x (joints s1 LeftHand)\<bar> \<le> 0.04)
     \<and> (\<not> eligible var tk \<and> getNormalizedBoneNode v RightHand \<noteq> None
        \<longrightarrow> \<bar>rot_y (joints s1 RightHand)\<bar> \<le> 0.08 \<and> \<bar>rot_x (joints s1 RightHand)\<bar> \<le> 0.04)"
    using spine chest neck head lu ru ll rl lh rh by blast
qed

lemma example_full_present: "getNormalizedBoneNode example_full_vrm n \<noteq> None"
  by (simp add: getNormalizedBoneNode_def example_full_vrm_def example_vrm_def)

lemma example_full_tick_loaded: "tick_vrm (example_full_tick dt spk gst) = Some example_full_vrm"
  by (simp add: example_full_tick_def)

lemma example_scene_bones: "bonesRef example_scene = None"
  by (simp add: example_scene_def mounted_def)

lemma example_full_chest: "chest (frame_bones example_full_vrm example_scene) = Some Chest"
  by (simp add: frame_bones_def getBones_def getNormalizedBoneNode_def example_full_vrm_def
      example_vrm_def example_scene_bones)

lemma example_full_ineligible:
  "\<not> eligible var (example_full_tick dt False gst)"
  by (simp add: eligible_def example_full_tick_def example_tick_def)

theorem idle_sway_bounded_witness:
  "tick_vrm (example_full_tick 2 False False) = Some example_full_vrm
   \<and> bonesRef example_scene = None
   \<and> getNormalizedBoneNode example_full_vrm Spine \<noteq> None
   \<and> chest (frame_bones example_full_vrm example_scene) = Some Chest
   \<and> getNormalizedBoneNode example_full_vrm Neck \<noteq> None
   \<and> getNormalizedBoneNode example_full_vrm Head \<noteq> None
   \<and> \<not> eligible TalkingAvatar_part_000 (example_full_tick 2 False False)
   \<and> getNormalizedBoneNode example_full_vrm LeftUpperArm \<noteq> None
   \<and> getNormalizedBoneNode example_full_vrm RightUpperArm \<noteq> None
   \<and> getNormalizedBoneNode example_full_vrm LeftLowerArm \<noteq> None
   \<and> getNormalizedBoneNode example_full_vrm RightLowerArm \<noteq> None
   \<and> getNormalizedBoneNode example_full_vrm LeftHand \<noteq> None
   \<and> getNormalizedBoneNode example_full_vrm RightHand \<noteq> None
   \<and> (\<exists>s1. useFrame TalkingAvatar_part_000 (example_full_tick 2 False False) example_scene
              = Some s1
        \<and> \<bar>rot_x (joints s1 Spine)\<bar> \<le> 0.01 \<and> \<bar>rot_y (joints s1 Spine)\<bar> \<le> 0.01
        \<and> \<bar>rot_x (joints s1 Chest)\<bar> \<le> 0.015 \<and> \<bar>rot_y (joints s1 Chest)\<bar> \<le> 0.012
        \<and> \<bar>rot_x (joints s1 Neck)\<bar> \<le> 0.02 \<and> \<bar>rot_y (joints s1 Neck)\<bar> \<le> 0.02
        \<and> - 0.018 \<le> rot_x (joints s1 Head) \<and> rot_x (joints s1 Head) \<le> 0.018
        \<and> - 0.018 \<le> rot_y (joints s1 Head) \<and> rot_y (joints s1 Head) \<le> 0.018
        \<and> \<bar>rot_z (joints s1 LeftUpperArm) - (- dir_l (dirRef s1) * 0.9)\<bar> \<le> 0.025
        \<and> \<bar>rot_x (joints s1 LeftUpperArm)\<bar> \<le> 0.02
        \<and> \<bar>rot_z (joints s1 RightUpperArm) - (- dir_r (dirRef s1) * 0.9)\<bar> \<le> 0.025
        \<and> \<bar>rot_x (joints s1 RightUpperArm)\<bar> \<le> 0.02
        \<and> \<bar>rot_x (joints s1 LeftLowerArm) - 0.35\<bar> \<le> 0.03
        \<and> \<bar>rot_x (joints s1 RightLowerArm) - 0.35\<bar> \<le> 0.03
        \<and> \<bar>rot_y (joints s1 LeftHand)\<bar> \<le> 0.08 \<and> \<bar>rot_x (joints s1 LeftHand)\<bar> \<le> 0.04
        \<and> \<bar>rot_y (joints s1 RightHand)\<bar> \<le> 0.08 \<and> \<bar>rot_x (joints s1 RightHand)\<bar> \<le> 0.04)"
proof -
  obtain s1 where
    fr: "useFrame TalkingAvatar_part_000 (example_full_tick 2 False False) example_scene = Some s1"
    using useFrame_total by blast
  note inst = idle_sway_bounded [where tk = "example_full_tick 2 False False"
      and v = example_full_vrm and s = example_scene and var = TalkingAvatar_part_000
      and ?s1.0 = s1 and c = Chest]
  show ?thesis
    using inst fr example_full_tick_loaded [of 2 False False] example_scene_bones
      example_full_chest example_full_ineligible [of TalkingAvatar_part_000 2 False]
      example_full_present
    by blast
qed

subsection \<open>Absent joints and expression manager\<close>

text \<open>
  Claim C8.  Whatever bones the rig exposes and whether or not it has an expression
  manager, a frame throws no error, and neither does a run of frames.  Without a model
  the frame changes nothing.  With a model, the rotation of a bone the rig does not
  expose is left as it was; without an expression manager the expression values and the
  blink state are left as they were; and what is present gets its values, in every
  frame: the open mouth; the sway of spine, chest, neck and head; the rest pose of the
  shoulders; the rest pose of the arms, elbows and hands in a frame that overlays no
  gesture; and, in a frame that overlays a gesture, the lift of the upper arm, the bend
  of the elbow and the wave of the hand on the side of the gesture, eased by
  \<open>easeInOut\<close> of the elapsed time over the duration, with the rest pose on the other
  side.  (The duration of a gesture is positive in every state that the scene reaches.)
\<close>

theorem useFrame_skips_absent_joints:
  "(\<exists>s'. useFrame var tk s = Some s')
   \<and> (\<exists>s'. frames var tks s = Some s')
   \<and> (tick_vrm tk = None \<longrightarrow> useFrame var tk s = Some s)
   \<and> (tick_vrm tk = Some v \<and> (bonesRef s = None \<or> bonesRef s = getBones (Some v))
       \<and> useFrame var tk s = Some s1
      \<longrightarrow> (getNormalizedBoneNode v n = None \<longrightarrow> joints s1 n = joints s n)
        \<and> (\<not> expressionManager v
           \<longrightarrow> expressions s1 = expressions s \<and> blinkRef s1 = blinkRef s)
        \<and> (expressionManager v
           \<longrightarrow> expressions s1 ''aa'' = mouth_value (tRef s1) (speaking tk))
        \<and> (getNormalizedBoneNode v Spine \<noteq> None
           \<longrightarrow> rot_x (joints s1 Spine) = sin (tRef s1 * 1.2) * 0.01
             \<and> rot_y (joints s1 Spine) = sin (tRef s1 * 0.7) * 0.01)
        \<and> (getNormalizedBoneNode v Chest \<noteq> None
           \<longrightarrow> rot_x (joints s1 Chest) = sin (tRef s1 * 1.0) * 0.015
             \<and> rot_y (joints s1 Chest) = sin (tRef s1 * 0.5) * 0.012)
        \<and> (getNormalizedBoneNode v Chest = None \<and> getNormalizedBoneNode v UpperChest \<noteq> None
           \<longrightarrow> rot_x (joints s1 UpperChest) = sin (tRef s1 * 1.0) * 0.015
             \<and> rot_y (joints s1 UpperChest) = sin (tRef s1 * 0.5) * 0.012)
        \<and> (getNormalizedBoneNode v Neck \<noteq> None
           \<longrightarrow> rot_x (joints s1 Neck) = sin (tRef s1 * 0.9) * 0.02
             \<and> rot_y (joints s1 Neck) = sin (tRef s1 * 0.6 + 0.5) * 0.02)
        \<and> (getNormalizedBoneNode v Head \<noteq> None
           \<longrightarrow> rot_x (joints s1 Head) = sin (tRef s1 * 1.1 + 0.3) * 0.018
             \<and> rot_y (joints s1 Head) = sin (tRef s1 * 0.8) * 0.018)
        \<and> (getNormalizedBoneNode v LeftShoulder \<noteq> None
           \<longrightarrow> rot_z (joints s1 LeftShoulder)
                 = 0.035 * (if dir_l (dirRef s1) = 1 then 1 else - 1)
                   + sin (tRef s1 * 0.7) * 0.015)
        \<and> (getNormalizedBoneNode v RightShoulder \<noteq> None
           \<longrightarrow> rot_z (joints s1 RightShoulder)
                 = 0.035 * (if dir_r (dirRef s1) = - 1 then 1 else - 1)
                   + sin (tRef s1 * 0.75 + 0.45) * 0.015)
        \<and> (\<not> waving var tk (gestureRef s) \<and> getNormalizedBoneNode v LeftUpperArm \<noteq> None
           \<longrightarrow> rot_z (joints s1 LeftUpperArm)
                 = - dir_l (dirRef s1) * 0.9 + sin (tRef s1 * 0.7) * 0.025
             \<and> rot_x (joints s1 LeftUpperArm) = sin (tRef s1 * 0.55) * 0.02
             \<and> rot_y (joints s1 LeftUpperArm) = 0)
        \<and> (\<not> waving var tk (gestureRef s) \<and> getNormalizedBoneNode v RightUpperArm \<noteq> None
           \<longrightarrow> rot_z (joints s1 RightUpperArm)
                 = - dir_r (dirRef s1) * 0.9 + sin (tRef s1 * 0.75 + 0.4) * 0.025
             \<and> rot_x (joints s1 RightUpperArm) = sin (tRef s1 * 0.6) * 0.02
             \<and> rot_y (joints s1 RightUpperArm) = 0)
        \<and> (\<not> waving var tk (gestureRef s) \<and> getNormalizedBoneNode v LeftLowerArm \<noteq> None
           \<longrightarrow> rot_x (joints s1 LeftLowerArm) = 0.35 + sin (tRef s1 * 0.85) * 0.03)
        \<and> (\<not> waving var tk (gestureRef s) \<and> getNormalizedBoneNode v RightLowerArm \<noteq> None
           \<longrightarrow> rot_x (joints s1 RightLowerArm) = 0.35 + sin (tRef s1 * 0.9 + 0.25) * 0.03)
        \<and> (\<not> waving var tk (gestureRef s) \<and> getNormalizedBoneNode v LeftHand \<noteq> None
           \<longrightarrow> rot_y (joints s1 LeftHand) = sin (tRef s1 * 1.0) * 0.08
             \<and> rot_x (joints s1 LeftHand) = sin (tRef s1 * 0.5) * 0.04)
        \<and> (\<not> waving var tk (gestureRef s) \<and> getNormalizedBoneNode v RightHand \<noteq> None
           \<longrightarrow> rot_y (joints s1 RightHand) = sin (tRef s1 * 1.05 + 0.35) * 0.08
             \<and> rot_x (joints s1 RightHand) = sin (tRef s1 * 0.55 + 0.2) * 0.04)
        \<and> (waving var tk (gestureRef s) \<and> g_side (gestureRef s1) = ''left''
           \<and> 0 < g_dur (gestureRef s1)
           \<longrightarrow> (getNormalizedBoneNode v LeftUpperArm \<noteq> None
               \<longrightarrow> rot_z (joints s1 LeftUpperArm)
                     = - dir_l (dirRef s1) * 0.9
                       + dir_l (dirRef s1)
                         * (0.45 * easeInOut (g_t (gestureRef s1) / g_dur (gestureRef s1)))
                 \<and> rot_y (joints s1 LeftUpperArm)
                     = - 0.18 * easeInOut (g_t (gestureRef s1) / g_dur (gestureRef s1))
                 \<and> rot_x (joints s1 LeftUpperArm) = sin (tRef s1 * 0.55) * 0.02)
             \<and> (getNormalizedBoneNode v LeftLowerArm \<noteq> None
               \<longrightarrow> rot_x (joints s1 LeftLowerArm)
                     = 0.35 + 0.45 * easeInOut (g_t (gestureRef s1) / g_dur (gestureRef s1)))
             \<and> (getNormalizedBoneNode v LeftHand \<noteq> None
               \<longrightarrow> rot_y (joints s1 LeftHand)
                     = 0.55 * sin (tRef s1 * 10)
                       * easeInOut (g_t (gestureRef s1) / g_dur (gestureRef s1))
                 \<and> rot_x (joints s1 LeftHand)
                     = 0.25 * easeInOut (g_t (gestureRef s1) / g_dur (gestureRef s1)))
             \<and> (getNormalizedBoneNode v RightUpperArm \<noteq> None
               \<longrightarrow> rot_z (joints s1 RightUpperArm)
                     = - dir_r (dirRef s1) * 0.9 + sin (tRef s1 * 0.75 + 0.4) * 0.025
                 \<and> rot_x (joints s1 RightUpperArm) = sin (tRef s1 * 0.6) * 0.02
                 \<and> rot_y (joints s1 RightUpperArm) = 0)
             \<and> (getNormalizedBoneNode v RightLowerArm \<noteq> None
               \<longrightarrow> rot_x (joints s1 RightLowerArm) = 0.35 + sin (tRef s1 * 0.9 + 0.25) * 0.03)
             \<and> (getNormalizedBoneNode v RightHand \<noteq> None
               \<longrightarrow> rot_y (joints s1 RightHand) = sin (tRef s1 * 1.05 + 0.35) * 0.08
                 \<and> rot_x (joints s1 RightHand) = sin (tRef s1 * 0.55 + 0.2) * 0.04))
        \<and> (waving var tk (gestureRef s) \<and> g_side (gestureRef s1) \<noteq> ''left''
           \<and> 0 < g_dur (gestureRef s1)
           \<longrightarrow> (getNormalizedBoneNode v RightUpperArm \<noteq> None
               \<longrightarrow> rot_z (joints s1 RightUpperArm)
                     = - dir_r (dirRef s1) * 0.9
                       + dir_r (dirRef s1)
                         * (0.45 * easeInOut (g_t (gestureRef s1) / g_dur (gestureRef s1)))
                 \<and> rot_y (joints s1 RightUpperArm)
                     = 0.18 * easeInOut (g_t (gestureRef s1) / g_dur (gestureRef s1))
                 \<and> rot_x (joints s1 RightUpperArm) = sin (tRef s1 * 0.6) * 0.02)
             \<and> (getNormalizedBoneNode v RightLowerArm \<noteq> None
               \<longrightarrow> rot_x (joints s1 RightLowerArm)
                     = 0.35 + 0.45 * easeInOut (g_t (gestureRef s1) / g_dur (gestureRef s1)))
             \<and> (getNormalizedBoneNode v RightHand \<noteq> None
               \<longrightarrow> rot_y (joints s1 RightHand)
                     = - (0.55 * sin (tRef s1 * 10)
                          * easeInOut (g_t (gestureRef s1) / g_dur (gestureRef s1)))
                 \<and> rot_x (joints s1 RightHand)
                     = 0.25 * easeInOut (g_t (gestureRef s1) / g_dur (gestureRef s1)))
             \<and> (getNormalizedBoneNode v LeftUpperArm \<noteq> None
               \<longrightarrow> rot_z (joints s1 LeftUpperArm)
                     = - dir_l (dirRef s1) * 0.9 + sin (tRef s1 * 0.7) * 0.025
                 \<and> rot_x (joints s1 LeftUpperArm) = sin (tRef s1 * 0.55) * 0.02
                 \<and> rot_y (joints s1 LeftUpperArm) = 0)
             \<and> (getNormalizedBoneNode v LeftLowerArm \<noteq> None
               \<longrightarrow> rot_x (joints s1 LeftLowerArm) = 0.35 + sin (tRef s1 * 0.85) * 0.03)
             \<and> (getNormalizedBoneNode v LeftHand \<noteq> None
               \<longrightarrow> rot_y (joints s1 LeftHand) = sin (tRef s1 * 1.0) * 0.08
                 \<and> rot_x (joints s1 LeftHand) = sin (tRef s1 * 0.5) * 0.04)))
   \<and> waving var tk (gestureRef s)
       = (eligible var tk \<and> g_active (gesture_trigger var tk (gestureRef s)))"
  (is "_ \<and> _ \<and> _ \<and> (?frame \<longrightarrow> ?values) \<and> _")
proof (intro conjI)
  show "\<exists>s'. useFrame var tk s = Some s'" by (rule useFrame_total)
  show "\<exists>s'. frames var tks s = Some s'" by (rule frames_total)
  show "tick_vrm tk = None \<longrightarrow> useFrame var tk s = Some s"
    by (simp add: useFrame_no_vrm)
  show "waving var tk (gestureRef s)
       = (eligible var tk \<and> g_active (gesture_trigger var tk (gestureRef s)))"
    by (simp only: waving_def)
  show "?frame \<longrightarrow> ?values"
  proof (intro impI)
    assume a: "?frame"
    then have v: "tick_vrm tk = Some v"
      and wf: "bonesRef s = None \<or> bonesRef s = getBones (Some v)"
      and fr: "useFrame var tk s = Some s1" by simp_all
    note cv = useFrame_core_values [OF v fr wf]
    note sh = useFrame_shoulders [OF v fr wf]
    note idle = useFrame_idle_arms [OF v fr wf, unfolded REST_def ELBOW_def]
    note wl = useFrame_wave_left [OF v fr wf, unfolded REST_def ELBOW_def]
    note wr = useFrame_wave_right [OF v fr wf, unfolded REST_def ELBOW_def]
    note ab = useFrame_absent_joint [OF v fr wf, of n]
    note ne = useFrame_no_em [OF v _ fr]
    note mo = useFrame_mouth(1) [OF v _ fr]
    show "?values"
      by (intro conjI impI; (elim conjE)?) (simp_all add: cv sh idle wl wr ab ne mo)
  qed
qed

lemma example_tick_of_fields:
  "tick_vrm (example_tick_of vo dt spk gst) = vo"
  "speaking (example_tick_of vo dt spk gst) = spk"
  "gestures (example_tick_of vo dt spk gst) = gst"
  "delta (example_tick_of vo dt spk gst) = dt"
  by (simp_all add: example_tick_of_def example_tick_def)

lemma example_tick_of_ineligible: "\<not> eligible var (example_tick_of vo dt False gst)"
  by (simp add: eligible_def example_tick_of_fields)

lemma example_vrm_bones:
  "getNormalizedBoneNode example_vrm Neck = None"
  "getNormalizedBoneNode example_vrm Head \<noteq> None"
  "getNormalizedBoneNode example_vrm LeftUpperArm \<noteq> None"
  "getNormalizedBoneNode example_vrm RightUpperArm \<noteq> None"
  "getNormalizedBoneNode example_vrm LeftHand \<noteq> None"
  "getNormalizedBoneNode example_vrm RightHand \<noteq> None"
  by (simp_all add: getNormalizedBoneNode_def example_vrm_def)

lemma example_upper_chest_bones:
  "getNormalizedBoneNode example_upper_chest_vrm Chest = None"
  "getNormalizedBoneNode example_upper_chest_vrm UpperChest \<noteq> None"
  by (simp_all add: getNormalizedBoneNode_def example_upper_chest_vrm_def example_vrm_def)

lemma example_no_em: "\<not> expressionManager example_no_em_vrm"
  by (simp add: example_no_em_vrm_def example_vrm_def)

lemma example_tick_of_idle: "\<not> waving var (example_tick_of vo dt False gst) g"
  by (simp add: waving_def example_tick_of_ineligible)

text \<open>
  A first frame of 3 s runs the countdown out, starts a gesture and ends it: on the left
  when \<^verbatim>\<open>Math.random()\<close> gives 0.25 for the side, on the right when it gives 0.75.
\<close>

lemma example_wave:
  "waving TalkingAvatar_copy_4 (example_tick_of (Some example_full_vrm) 3 True True)
     (gestureRef example_scene)"
  "waving TalkingAvatar_copy_4
     ((example_tick_of (Some example_full_vrm) 3 True True)\<lparr>random_side := 0.75\<rparr>)
     (gestureRef example_scene)"
  by (simp_all add: waving_def eligible_def gesture_trigger_def Let_def example_tick_of_def
      example_tick_def example_scene_def mounted_def TalkingAvatar_copy_4_def)

lemma example_wave_step:
  "gesture_step TalkingAvatar_copy_4 (example_tick_of (Some example_full_vrm) 3 True True)
     (gestureRef example_scene)
   = \<lparr>g_active = False, g_side = ''left'', g_t = 3, g_dur = 1.2, g_next = 3.5\<rparr>"
  "gesture_step TalkingAvatar_copy_4
     ((example_tick_of (Some example_full_vrm) 3 True True)\<lparr>random_side := 0.75\<rparr>)
     (gestureRef example_scene)
   = \<lparr>g_active = False, g_side = ''right'', g_t = 3, g_dur = 1.2, g_next = 3.5\<rparr>"
  by (simp_all add: gesture_step_def eligible_def gesture_trigger_def Let_def
      example_tick_of_def example_tick_def example_scene_def mounted_def
      TalkingAvatar_copy_4_def)

theorem useFrame_skips_absent_joints_witness:
  "(\<exists>s'. useFrame TalkingAvatar_copy_4 (example_tick 2 True True) example_scene = Some s')
   \<and> (\<exists>s'. frames TalkingAvatar_copy_4
              [example_tick_of None 1 True True, example_tick 2 True True,
               example_tick_of (Some example_no_em_vrm) 3 True False] example_scene = Some s')
   \<and> tick_vrm (example_tick_of None 1 True True) = None
   \<and> useFrame TalkingAvatar_copy_4 (example_tick_of None 1 True True) example_scene
       = Some example_scene
   \<and> tick_vrm (example_tick_of (Some example_vrm) 2 False False) = Some example_vrm
   \<and> bonesRef example_scene = None
   \<and> getNormalizedBoneNode example_vrm Neck = None
   \<and> expressionManager example_vrm
   \<and> getNormalizedBoneNode example_vrm Head \<noteq> None
   \<and> \<not> waving TalkingAvatar_copy_4 (example_tick_of (Some example_vrm) 2 False False)
         (gestureRef example_scene)
   \<and> getNormalizedBoneNode example_vrm LeftUpperArm \<noteq> None
   \<and> getNormalizedBoneNode example_vrm RightUpperArm \<noteq> None
   \<and> getNormalizedBoneNode example_vrm LeftHand \<noteq> None
   \<and> getNormalizedBoneNode example_vrm RightHand \<noteq> None
   \<and> (\<exists>s1. useFrame TalkingAvatar_copy_4 (example_tick_of (Some example_vrm) 2 False False)
              example_scene = Some s1
        \<and> joints s1 Neck = joints example_scene Neck
        \<and> expressions s1 ''aa'' = mouth_value (tRef s1) False
        \<and> rot_x (joints s1 Head) = sin (tRef s1 * 1.1 + 0.3) * 0.018
        \<and> rot_y (joints s1 Head) = sin (tRef s1 * 0.8) * 0.018
        \<and> rot_z (joints s1 LeftUpperArm)
            = - dir_l (dirRef s1) * 0.9 + sin (tRef s1 * 0.7) * 0.025
        \<and> rot_x (joints s1 LeftUpperArm) = sin (tRef s1 * 0.55) * 0.02
        \<and> rot_y (joints s1 LeftUpperArm) = 0
        \<and> rot_z (joints s1 RightUpperArm)
            = - dir_r (dirRef s1) * 0.9 + sin (tRef s1 * 0.75 + 0.4) * 0.025
        \<and> rot_x (joints s1 RightUpperArm) = sin (tRef s1 * 0.6) * 0.02
        \<and> rot_y (joints s1 RightUpperArm) = 0
        \<and> rot_y (joints s1 LeftHand) = sin (tRef s1 * 1.0) * 0.08
        \<and> rot_x (joints s1 LeftHand) = sin (tRef s1 * 0.5) * 0.04
        \<and> rot_y (joints s1 RightHand) = sin (tRef s1 * 1.05 + 0.35) * 0.08
        \<and> rot_x (joints s1 RightHand) = sin (tRef s1 * 0.55 + 0.2) * 0.04)
   \<and> tick_vrm (example_tick_of (Some example_no_em_vrm) 3 True False) = Some example_no_em_vrm
   \<and> \<not> expressionManager example_no_em_vrm
   \<and> (\<exists>s1. useFrame TalkingAvatar_copy_4 (example_tick_of (Some example_no_em_vrm) 3 True False)
              example_scene = Some s1
        \<and> expressions s1 = expressions example_scene \<and> blinkRef s1 = blinkRef example_scene)
   \<and> tick_vrm (example_tick_of (Some example_full_vrm) 2 False False) = Some example_full_vrm
   \<and> getNormalizedBoneNode example_full_vrm Spine \<noteq> None
   \<and> getNormalizedBoneNode example_full_vrm Chest \<noteq> None
   \<and> getNormalizedBoneNode example_full_vrm Neck \<noteq> None
   \<and> getNormalizedBoneNode example_full_vrm LeftLowerArm \<noteq> None
   \<and> getNormalizedBoneNode example_full_vrm RightLowerArm \<noteq> None
   \<and> getNormalizedBoneNode example_full_vrm LeftShoulder \<noteq> None
   \<and> getNormalizedBoneNode example_full_vrm RightShoulder \<noteq> None
   \<and> \<not> waving TalkingAvatar_copy_4 (example_tick_of (Some example_full_vrm) 2 False False)
         (gestureRef example_scene)
   \<and> (\<exists>s1. useFrame TalkingAvatar_copy_4 (example_tick_of (Some example_full_vrm) 2 False False)
              example_scene = Some s1
        \<and> rot_x (joints s1 Spine) = sin (tRef s1 * 1.2) * 0.01
        \<and> rot_y (joints s1 Spine) = sin (tRef s1 * 0.7) * 0.01
        \<and> rot_x (joints s1 Chest) = sin (tRef s1 * 1.0) * 0.015
        \<and> rot_y (joints s1 Chest) = sin (tRef s1 * 0.5) * 0.012
        \<and> rot_x (joints s1 Neck) = sin (tRef s1 * 0.9) * 0.02
        \<and> rot_y (joints s1 Neck) = sin (tRef s1 * 0.6 + 0.5) * 0.02
        \<and> rot_x (joints s1 LeftLowerArm) = 0.35 + sin (tRef s1 * 0.85) * 0.03
        \<and> rot_x (joints s1 RightLowerArm) = 0.35 + sin (tRef s1 * 0.9 + 0.25) * 0.03
        \<and> rot_z (joints s1 LeftShoulder)
            = 0.035 * (if dir_l (dirRef s1) = 1 then 1 else - 1) + sin (tRef s1 * 0.7) * 0.015
        \<and> rot_z (joints s1 RightShoulder)
            = 0.035 * (if dir_r (dirRef s1) = - 1 then 1 else - 1)
              + sin (tRef s1 * 0.75 + 0.45) * 0.015)
   \<and> tick_vrm (example_tick_of (Some example_upper_chest_vrm) 2 False False)
       = Some example_upper_chest_vrm
   \<and> getNormalizedBoneNode example_upper_chest_vrm Chest = None
   \<and> getNormalizedBoneNode example_upper_chest_vrm UpperChest \<noteq> None
   \<and> (\<exists>s1. useFrame TalkingAvatar_copy_4
              (example_tick_of (Some example_upper_chest_vrm) 2 False False) example_scene
              = Some s1
        \<and> rot_x (joints s1 UpperChest) = sin (tRef s1 * 1.0) * 0.015
        \<and> rot_y (joints s1 UpperChest) = sin (tRef s1 * 0.5) * 0.012)
   \<and> tick_vrm (example_tick_of (Some example_full_vrm) 3 True True) = Some example_full_vrm
   \<and> waving TalkingAvatar_copy_4 (example_tick_of (Some example_full_vrm) 3 True True)
        (gestureRef example_scene)
   \<and> getNormalizedBoneNode example_full_vrm LeftUpperArm \<noteq> None
   \<and> getNormalizedBoneNode example_full_vrm LeftHand \<noteq> None
   \<and> getNormalizedBoneNode example_full_vrm RightUpperArm \<noteq> None
   \<and> getNormalizedBoneNode example_full_vrm RightHand \<noteq> None
   \<and> (\<exists>s1. useFrame TalkingAvatar_copy_4 (example_tick_of (Some example_full_vrm) 3 True True)
              example_scene = Some s1
        \<and> g_side (gestureRef s1) = ''left'' \<and> g_t (gestureRef s1) = 3
        \<and> g_dur (gestureRef s1) = 1.2 \<and> 0 < g_dur (gestureRef s1)
        \<and> rot_z (joints s1 LeftUpperArm)
            = - dir_l (dirRef s1) * 0.9 + dir_l (dirRef s1) * (0.45 * easeInOut (3 / 1.2))
        \<and> rot_y (joints s1 LeftUpperArm) = - 0.18 * easeInOut (3 / 1.2)
        \<and> rot_x (joints s1 LeftUpperArm) = sin (tRef s1 * 0.55) * 0.02
        \<and> rot_x (joints s1 LeftLowerArm) = 0.35 + 0.45 * easeInOut (3 / 1.2)
        \<and> rot_y (joints s1 LeftHand) = 0.55 * sin (tRef s1 * 10) * easeInOut (3 / 1.2)
        \<and> rot_x (joints s1 LeftHand) = 0.25 * easeInOut (3 / 1.2)
        \<and> rot_z (joints s1 RightUpperArm)
            = - dir_r (dirRef s1) * 0.9 + sin (tRef s1 * 0.75 + 0.4) * 0.025
        \<and> rot_x (joints s1 RightLowerArm) = 0.35 + sin (tRef s1 * 0.9 + 0.25) * 0.03
        \<and> rot_y (joints s1 RightHand) = sin (tRef s1 * 1.05 + 0.35) * 0.08
        \<and> rot_z (joints s1 LeftShoulder)
            = 0.035 * (if dir_l (dirRef s1) = 1 then 1 else - 1) + sin (tRef s1 * 0.7) * 0.015)
   \<and> tick_vrm ((example_tick_of (Some example_full_vrm) 3 True True)\<lparr>random_side := 0.75\<rparr>)
       = Some example_full_vrm
   \<and> waving TalkingAvatar_copy_4
        ((example_tick_of (Some example_full_vrm) 3 True True)\<lparr>random_side := 0.75\<rparr>)
        (gestureRef example_scene)
   \<and> (\<exists>s1. useFrame TalkingAvatar_copy_4
              ((example_tick_of (Some example_full_vrm) 3 True True)\<lparr>random_side := 0.75\<rparr>)
              example_scene = Some s1
        \<and> g_side (gestureRef s1) \<noteq> ''left'' \<and> g_t (gestureRef s1) = 3
        \<and> g_dur (gestureRef s1) = 1.2 \<and> 0 < g_dur (gestureRef s1)
        \<and> rot_z (joints s1 RightUpperArm)
            = - dir_r (dirRef s1) * 0.9 + dir_r (dirRef s1) * (0.45 * easeInOut (3 / 1.2))
        \<and> rot_y (joints s1 RightUpperArm) = 0.18 * easeInOut (3 / 1.2)
        \<and> rot_x (joints s1 RightUpperArm) = sin (tRef s1 * 0.6) * 0.02
        \<and> rot_x (joints s1 RightLowerArm) = 0.35 + 0.45 * easeInOut (3 / 1.2)
        \<and> rot_y (joints s1 RightHand) = - (0.55 * sin (tRef s1 * 10) * easeInOut (3 / 1.2))
        \<and> rot_x (joints s1 RightHand) = 0.25 * easeInOut (3 / 1.2)
        \<and> rot_z (joints s1 LeftUpperArm)
            = - dir_l (dirRef s1) * 0.9 + sin (tRef s1 * 0.7) * 0.025
        \<and> rot_x (joints s1 LeftLowerArm) = 0.35 + sin (tRef s1 * 0.85) * 0.03
        \<and> rot_y (joints s1 LeftHand) = sin (tRef s1 * 1.0) * 0.08)
   \<and> easeInOut (3 / 1.2) = 1"
proof -
  let ?var = TalkingAvatar_copy_4
  let ?tkN = "example_tick_of None 1 True True"
  let ?tkA = "example_tick_of (Some example_vrm) 2 False False"
  let ?tkE = "example_tick_of (Some example_no_em_vrm) 3 True False"
  let ?tkF = "example_tick_of (Some example_full_vrm) 2 False False"
  let ?tkU = "example_tick_of (Some example_upper_chest_vrm) 2 False False"
  note tot = useFrame_skips_absent_joints [where var = ?var and tk = "example_tick 2 True True"
      and s = example_scene
      and tks = "[?tkN, example_tick 2 True True, ?tkE]", THEN conjunct1]
  note run = useFrame_skips_absent_joints [where var = ?var and tk = "example_tick 2 True True"
      and s = example_scene
      and tks = "[?tkN, example_tick 2 True True, ?tkE]", THEN conjunct2, THEN conjunct1]
  have nov: "useFrame ?var ?tkN example_scene = Some example_scene"
    using useFrame_skips_absent_joints [where var = ?var and tk = ?tkN and s = example_scene]
    by (simp add: example_tick_of_fields)
  obtain sA where frA: "useFrame ?var ?tkA example_scene = Some sA"
    using useFrame_total by blast
  note instA = useFrame_skips_absent_joints [where var = ?var and tk = ?tkA and s = example_scene
      and v = example_vrm and ?s1.0 = sA and n = Neck,
      THEN conjunct2, THEN conjunct2, THEN conjunct2, THEN conjunct1, rule_format]
  have A: "joints sA Neck = joints example_scene Neck
        \<and> expressions sA ''aa'' = mouth_value (tRef sA) False
        \<and> rot_x (joints sA Head) = sin (tRef sA * 1.1 + 0.3) * 0.018
        \<and> rot_y (joints sA Head) = sin (tRef sA * 0.8) * 0.018
        \<and> rot_z (joints sA LeftUpperArm)
            = - dir_l (dirRef sA) * 0.9 + sin (tRef sA * 0.7) * 0.025
        \<and> rot_x (joints sA LeftUpperArm) = sin (tRef sA * 0.55) * 0.02
        \<and> rot_y (joints sA LeftUpperArm) = 0
        \<and> rot_z (joints sA RightUpperArm)
            = - dir_r (dirRef sA) * 0.9 + sin (tRef sA * 0.75 + 0.4) * 0.025
        \<and> rot_x (joints sA RightUpperArm) = sin (tRef sA * 0.6) * 0.02
        \<and> rot_y (joints sA RightUpperArm) = 0
        \<and> rot_y (joints sA LeftHand) = sin (tRef sA * 1.0) * 0.08
        \<and> rot_x (joints sA LeftHand) = sin (tRef sA * 0.5) * 0.04
        \<and> rot_y (joints sA RightHand) = sin (tRef sA * 1.05 + 0.35) * 0.08
        \<and> rot_x (joints sA RightHand) = sin (tRef sA * 0.55 + 0.2) * 0.04"
    using instA frA example_vrm_bones example_vrm_em example_scene_bones
      example_tick_of_idle [of ?var "Some example_vrm" 2 False]
    by (simp add: example_tick_of_fields)
  obtain sE where frE: "useFrame ?var ?tkE example_scene = Some sE"
    using useFrame_total by blast
  note instE = useFrame_skips_absent_joints [where var = ?var and tk = ?tkE and s = example_scene
      and v = example_no_em_vrm and ?s1.0 = sE,
      THEN conjunct2, THEN conjunct2, THEN conjunct2, THEN conjunct1, rule_format]
  have E: "expressions sE = expressions example_scene \<and> blinkRef sE = blinkRef example_scene"
    using instE frE example_no_em example_scene_bones
    by (simp add: example_tick_of_fields)
  obtain sF where frF: "useFrame ?var ?tkF example_scene = Some sF"
    using useFrame_total by blast
  note instF = useFrame_skips_absent_joints [where var = ?var and tk = ?tkF and s = example_scene
      and v = example_full_vrm and ?s1.0 = sF,
      THEN conjunct2, THEN conjunct2, THEN conjunct2, THEN conjunct1, rule_format]
  have F: "rot_x (joints sF Spine) = sin (tRef sF * 1.2) * 0.01
        \<and> rot_y (joints sF Spine) = sin (tRef sF * 0.7) * 0.01
        \<and> rot_x (joints sF Chest) = sin (tRef sF * 1.0) * 0.015
        \<and> rot_y (joints sF Chest) = sin (tRef sF * 0.5) * 0.012
        \<and> rot_x (joints sF Neck) = sin (tRef sF * 0.9) * 0.02
        \<and> rot_y (joints sF Neck) = sin (tRef sF * 0.6 + 0.5) * 0.02
        \<and> rot_x (joints sF LeftLowerArm) = 0.35 + sin (tRef sF * 0.85) * 0.03
        \<and> rot_x (joints sF RightLowerArm) = 0.35 + sin (tRef sF * 0.9 + 0.25) * 0.03
        \<and> rot_z (joints sF LeftShoulder)
            = 0.035 * (if dir_l (dirRef sF) = 1 then 1 else - 1) + sin (tRef sF * 0.7) * 0.015
        \<and> rot_z (joints sF RightShoulder)
            = 0.035 * (if dir_r (dirRef sF) = - 1 then 1 else - 1)
              + sin (tRef sF * 0.75 + 0.45) * 0.015"
    using instF frF example_full_present example_scene_bones
      example_tick_of_idle [of ?var "Some example_full_vrm" 2 False]
    by (simp add: example_tick_of_fields)
  obtain sU where frU: "useFrame ?var ?tkU example_scene = Some sU"
    using useFrame_total by blast
  note instU = useFrame_skips_absent_joints [where var = ?var and tk = ?tkU and s = example_scene
      and v = example_upper_chest_vrm and ?s1.0 = sU,
      THEN conjunct2, THEN conjunct2, THEN conjunct2, THEN conjunct1, rule_format]
  have U: "rot_x (joints sU UpperChest) = sin (tRef sU * 1.0) * 0.015
        \<and> rot_y (joints sU UpperChest) = sin (tRef sU * 0.5) * 0.012"
    using instU frU example_upper_chest_bones example_scene_bones
    by (simp add: example_tick_of_fields)
  let ?tkL = "example_tick_of (Some example_full_vrm) 3 True True"
  let ?tkR = "(example_tick_of (Some example_full_vrm) 3 True True)\<lparr>random_side := 0.75\<rparr>"
  have vL: "tick_vrm ?tkL = Some example_full_vrm" and vR: "tick_vrm ?tkR = Some example_full_vrm"
    by (simp_all add: example_tick_of_fields)
  obtain sL where frL: "useFrame ?var ?tkL example_scene = Some sL"
    using useFrame_total by blast
  have gL: "gestureRef sL
      = \<lparr>g_active = False, g_side = ''left'', g_t = 3, g_dur = 1.2, g_next = 3.5\<rparr>"
    using useFrame_gesture [OF vL frL] example_wave_step(1) by simp
  note instL = useFrame_skips_absent_joints [where var = ?var and tk = ?tkL and s = example_scene
      and v = example_full_vrm and ?s1.0 = sL,
      THEN conjunct2, THEN conjunct2, THEN conjunct2, THEN conjunct1, rule_format]
  have L: "g_side (gestureRef sL) = ''left'' \<and> g_t (gestureRef sL) = 3
        \<and> g_dur (gestureRef sL) = 1.2 \<and> 0 < g_dur (gestureRef sL)
        \<and> rot_z (joints sL LeftUpperArm)
            = - dir_l (dirRef sL) * 0.9 + dir_l (dirRef sL) * (0.45 * easeInOut (3 / 1.2))
        \<and> rot_y (joints sL LeftUpperArm) = - 0.18 * easeInOut (3 / 1.2)
        \<and> rot_x (joints sL LeftUpperArm) = sin (tRef sL * 0.55) * 0.02
        \<and> rot_x (joints sL LeftLowerArm) = 0.35 + 0.45 * easeInOut (3 / 1.2)
        \<and> rot_y (joints sL LeftHand) = 0.55 * sin (tRef sL * 10) * easeInOut (3 / 1.2)
        \<and> rot_x (joints sL LeftHand) = 0.25 * easeInOut (3 / 1.2)
        \<and> rot_z (joints sL RightUpperArm)
            = - dir_r (dirRef sL) * 0.9 + sin (tRef sL * 0.75 + 0.4) * 0.025
        \<and> rot_x (joints sL RightLowerArm) = 0.35 + sin (tRef sL * 0.9 + 0.25) * 0.03
        \<and> rot_y (joints sL RightHand) = sin (tRef sL * 1.05 + 0.35) * 0.08
        \<and> rot_z (joints sL LeftShoulder)
            = 0.035 * (if dir_l (dirRef sL) = 1 then 1 else - 1) + sin (tRef sL * 0.7) * 0.015"
    using instL vL frL example_full_present example_scene_bones example_wave(1) gL
    by simp
  obtain sR where frR: "useFrame ?var ?tkR example_scene = Some sR"
    using useFrame_total by blast
  have gR: "gestureRef sR
      = \<lparr>g_active = False, g_side = ''right'', g_t = 3, g_dur = 1.2, g_next = 3.5\<rparr>"
    using useFrame_gesture [OF vR frR] example_wave_step(2) by simp
  note instR = useFrame_skips_absent_joints [where var = ?var and tk = ?tkR and s = example_scene
      and v = example_full_vrm and ?s1.0 = sR,
      THEN conjunct2, THEN conjunct2, THEN conjunct2, THEN conjunct1, rule_format]
  have R: "g_side (gestureRef sR) \<noteq> ''left'' \<and> g_t (gestureRef sR) = 3
        \<and> g_dur (gestureRef sR) = 1.2 \<and> 0 < g_dur (gestureRef sR)
        \<and> rot_z (joints sR RightUpperArm)
            = - dir_r (dirRef sR) * 0.9 + dir_r (dirRef sR) * (0.45 * easeInOut (3 / 1.2))
        \<and> rot_y (joints sR RightUpperArm) = 0.18 * easeInOut (3 / 1.2)
        \<and> rot_x (joints sR RightUpperArm) = sin (tRef sR * 0.6) * 0.02
        \<and> rot_x (joints sR RightLowerArm) = 0.35 + 0.45 * easeInOut (3 / 1.2)
        \<and> rot_y (joints sR RightHand) = - (0.55 * sin (tRef sR * 10) * easeInOut (3 / 1.2))
        \<and> rot_x (joints sR RightHand) = 0.25 * easeInOut (3 / 1.2)
        \<and> rot_z (joints sR LeftUpperArm)
            = - dir_l (dirRef sR) * 0.9 + sin (tRef sR * 0.7) * 0.025
        \<and> rot_x (joints sR LeftLowerArm) = 0.35 + sin (tRef sR * 0.85) * 0.03
        \<and> rot_y (joints sR LeftHand) = sin (tRef sR * 1.0) * 0.08"
    using instR vR frR example_full_present example_scene_bones example_wave(2) gR
    by simp
  have ease: "easeInOut (3 / 1.2) = 1"
    by (simp add: easeInOut_def clamp01_def)
  show ?thesis
    using tot run nov frA A frE E frF F frU U frL L frR R vL vR ease example_wave
    by (simp add: example_tick_of_fields example_scene_bones example_vrm_bones
        example_vrm_em example_no_em example_full_present example_upper_chest_bones
        example_tick_of_idle)
qed

subsection \<open>Mouth\<close>

lemma mouth_value_speaking:
  "mouth_value t True =
     min 1 (max 0 (0.05 + (0.65 * normalized_sinusoid 8.0 0 t
                          + 0.25 * normalized_sinusoid 3.7 1.3 t
                          + 0.10 * normalized_sinusoid 1.9 0.7 t) * 0.8))"
proof -
  have "0.05 + (0.65 * ((sin (t * 8.0) + 1) * 0.5) + 0.25 * ((sin (t * 3.7 + 1.3) + 1) * 0.5)
                + 0.10 * ((sin (t * 1.9 + 0.7) + 1) * 0.5)) * 0.8
        = 0.05 + (0.65 * normalized_sinusoid 8.0 0 t
                          + 0.25 * normalized_sinusoid 3.7 1.3 t
                          + 0.10 * normalized_sinusoid 1.9 0.7 t) * 0.8"
    by (simp add: normalized_sinusoid_def mult.commute)
  then show ?thesis
    by (simp only: mouth_value_def Let_def if_True)
qed

lemma mouth_value_idle: "mouth_value t False = 0.02 + max 0 (sin (1.2 * t)) * 0.01"
  by (simp add: mouth_value_def Let_def mult.commute)

lemma normalized_sinusoid_range:
  "0 \<le> normalized_sinusoid w ph t \<and> normalized_sinusoid w ph t \<le> 1"
proof -
  have half: "0 \<le> (y + 1) / 2 \<and> (y + 1) / 2 \<le> 1" if "- 1 \<le> y" "y \<le> 1" for y :: real
    using that by simp
  show ?thesis
    unfolding normalized_sinusoid_def by (rule half) simp_all
qed

lemma useFrame_copy_mouth:
  assumes "tick_vrm tk = Some v" "expressionManager v"
    "useFrame_copy tk (t0, ex, grp) = Some (t1, ex1, grp1)"
  shows "t1 = t0 + delta tk" "ex1 ''aa'' = mouth_value t1 (speaking tk)"
  using assms by (auto simp: useFrame_copy_def setValue_def Let_def)

text \<open>
  Claim C9.  After a frame of a model with an expression manager, at the elapsed time
  \<open>t\<close> the frame has advanced to, the expression \<^verbatim>\<open>aa\<close> is, while speaking,
  \<open>0.05 + (0.65 * s1 + 0.25 * s2 + 0.10 * s3) * 0.8\<close> clamped to \<open>[0, 1]\<close>, with
  \<open>s1\<close>, \<open>s2\<close>, \<open>s3\<close> the normalised sinusoids at 8.0, 3.7 and 1.9 rad/s with
  phases 0, 1.3 and 0.7, and otherwise \<open>0.02 + max 0 (sin (1.2 * t)) * 0.01\<close>; in
  the mouth-only copy of the callback as well.  The speaking value lies in
  \<open>[0.05, 0.85]\<close> and the idle one in \<open>[0.02, 0.03]\<close>.
\<close>

theorem mouth_openness_formula:
  "(tick_vrm tk = Some v \<and> expressionManager v \<and> useFrame var tk s = Some s1
      \<longrightarrow> tRef s1 = tRef s + delta tk
        \<and> expressions s1 ''aa'' =
            (if speaking tk
             then min 1 (max 0 (0.05 + (0.65 * normalized_sinusoid 8.0 0 (tRef s1)
                                      + 0.25 * normalized_sinusoid 3.7 1.3 (tRef s1)
                                      + 0.10 * normalized_sinusoid 1.9 0.7 (tRef s1)) * 0.8))
             else 0.02 + max 0 (sin (1.2 * tRef s1)) * 0.01))
   \<and> (tick_vrm tk = Some v \<and> expressionManager v
       \<and> useFrame_copy tk (t0, ex, grp) = Some (t1, ex1, grp1)
      \<longrightarrow> t1 = t0 + delta tk
        \<and> ex1 ''aa'' =
            (if speaking tk
             then min 1 (max 0 (0.05 + (0.65 * normalized_sinusoid 8.0 0 t1
                                      + 0.25 * normalized_sinusoid 3.7 1.3 t1
                                      + 0.10 * normalized_sinusoid 1.9 0.7 t1) * 0.8))
             else 0.02 + max 0 (sin (1.2 * t1)) * 0.01))
   \<and> 0.05 \<le> mouth_value t True \<and> mouth_value t True \<le> 0.85
   \<and> 0.02 \<le> mouth_value t False \<and> mouth_value t False \<le> 0.03"
proof (intro conjI impI)
  assume a: "tick_vrm tk = Some v \<and> expressionManager v \<and> useFrame var tk s = Some s1"
  show "tRef s1 = tRef s + delta tk"
    using useFrame_mouth(6) a by blast
  have "expressions s1 ''aa'' = mouth_value (tRef s1) (speaking tk)"
    using useFrame_mouth(1) a by blast
  then show "expressions s1 ''aa'' =
            (if speaking tk
             then min 1 (max 0 (0.05 + (0.65 * normalized_sinusoid 8.0 0 (tRef s1)
                                      + 0.25 * normalized_sinusoid 3.7 1.3 (tRef s1)
                                      + 0.10 * normalized_sinusoid 1.9 0.7 (tRef s1)) * 0.8))
             else 0.02 + max 0 (sin (1.2 * tRef s1)) * 0.01)"
    using mouth_value_speaking [of "tRef s1"] mouth_value_idle [of "tRef s1"]
    by (cases "speaking tk") simp_all
next
  assume b: "tick_vrm tk = Some v \<and> expressionManager v
       \<and> useFrame_copy tk (t0, ex, grp) = Some (t1, ex1, grp1)"
  show "t1 = t0 + delta tk"
    using useFrame_copy_mouth(1) b by blast
  have "ex1 ''aa'' = mouth_value t1 (speaking tk)"
    using useFrame_copy_mouth(2) b by blast
  then show "ex1 ''aa'' =
            (if speaking tk
             then min 1 (max 0 (0.05 + (0.65 * normalized_sinusoid 8.0 0 t1
                                      + 0.25 * normalized_sinusoid 3.7 1.3 t1
                                      + 0.10 * normalized_sinusoid 1.9 0.7 t1) * 0.8))
             else 0.02 + max 0 (sin (1.2 * t1)) * 0.01)"
    using mouth_value_speaking [of t1] mouth_value_idle [of t1]
    by (cases "speaking tk") simp_all
next
  define X where "X = 0.05 + (0.65 * normalized_sinusoid 8.0 0 t
                          + 0.25 * normalized_sinusoid 3.7 1.3 t
                          + 0.10 * normalized_sinusoid 1.9 0.7 t) * 0.8"
  note r1 = normalized_sinusoid_range [of "8.0" 0 t]
  note r2 = normalized_sinusoid_range [of "3.7" "1.3" t]
  note r3 = normalized_sinusoid_range [of "1.9" "0.7" t]
  have lo: "0.05 \<le> X"
    unfolding X_def using r1 r2 r3 by simp
  have hi: "X \<le> 0.85"
    unfolding X_def using r1 r2 r3 by simp
  have "0 \<le> X" "X \<le> 1" using lo hi by simp_all
  then have "min 1 (max 0 X) = X" by (simp add: min_def max_def)
  moreover have "mouth_value t True = min 1 (max 0 X)"
    unfolding X_def by (rule mouth_value_speaking)
  ultimately have "mouth_value t True = X" by simp
  then show "0.05 \<le> mouth_value t True" "mouth_value t True \<le> 0.85"
    using lo hi by simp_all
next
  have idle: "0.02 \<le> 0.02 + max 0 y * 0.01 \<and> 0.02 + max 0 y * 0.01 \<le> 0.03"
    if "y \<le> 1" for y :: real
    using that by (simp add: max_def)
  have "0.02 \<le> 0.02 + max 0 (sin (1.2 * t)) * 0.01"
    "0.02 + max 0 (sin (1.2 * t)) * 0.01 \<le> 0.03"
    using idle [of "sin (1.2 * t)"] by simp_all
  then show "0.02 \<le> mouth_value t False" "mouth_value t False \<le> 0.03"
    by (simp_all only: mouth_value_idle)
qed

lemma useFrame_copy_total: "\<exists>r. useFrame_copy tk st = Some r"
  by (cases "tick_vrm tk"; cases st) (auto simp: useFrame_copy_def setValue_def Let_def)

theorem mouth_openness_formula_witness:
  "tick_vrm (example_tick 2 True True) = Some example_vrm
   \<and> expressionManager example_vrm
   \<and> useFrame TalkingAvatar_copy_4 (example_tick 2 True True) example_scene
       = Some example_scene_1
   \<and> speaking (example_tick 2 True True)
   \<and> tRef example_scene_1 = tRef example_scene + delta (example_tick 2 True True)
   \<and> expressions example_scene_1 ''aa'' =
        min 1 (max 0 (0.05 + (0.65 * normalized_sinusoid 8.0 0 (tRef example_scene_1)
                             + 0.25 * normalized_sinusoid 3.7 1.3 (tRef example_scene_1)
                             + 0.10 * normalized_sinusoid 1.9 0.7 (tRef example_scene_1)) * 0.8))
   \<and> tick_vrm (example_tick_of (Some example_vrm) 2 False False) = Some example_vrm
   \<and> \<not> speaking (example_tick_of (Some example_vrm) 2 False False)
   \<and> (\<exists>s1. useFrame TalkingAvatar_copy_4 (example_tick_of (Some example_vrm) 2 False False)
              example_scene = Some s1
        \<and> expressions s1 ''aa'' = 0.02 + max 0 (sin (1.2 * tRef s1)) * 0.01)
   \<and> (\<exists>t1 ex1 grp1.
        useFrame_copy (example_tick 2 True True) (0, (\<lambda>n. 0), Some 0) = Some (t1, ex1, grp1)
        \<and> t1 = 0 + delta (example_tick 2 True True)
        \<and> ex1 ''aa'' =
            min 1 (max 0 (0.05 + (0.65 * normalized_sinusoid 8.0 0 t1
                                 + 0.25 * normalized_sinusoid 3.7 1.3 t1
                                 + 0.10 * normalized_sinusoid 1.9 0.7 t1) * 0.8)))"
proof -
  let ?tk = "example_tick 2 True True"
  let ?tkI = "example_tick_of (Some example_vrm) 2 False False"
  have spk: "speaking ?tk" by (simp add: example_tick_def)
  note inst1 = mouth_openness_formula [where tk = ?tk and v = example_vrm
      and var = TalkingAvatar_copy_4 and s = example_scene and ?s1.0 = example_scene_1,
      THEN conjunct1, rule_format]
  have a: "tRef example_scene_1 = tRef example_scene + delta ?tk
   \<and> expressions example_scene_1 ''aa'' =
        min 1 (max 0 (0.05 + (0.65 * normalized_sinusoid 8.0 0 (tRef example_scene_1)
                             + 0.25 * normalized_sinusoid 3.7 1.3 (tRef example_scene_1)
                             + 0.10 * normalized_sinusoid 1.9 0.7 (tRef example_scene_1)) * 0.8))"
    using inst1 example_ticks_loaded [of 2 True True] example_vrm_em example_scene_1_frame spk
    by simp
  obtain sI where frI: "useFrame TalkingAvatar_copy_4 ?tkI example_scene = Some sI"
    using useFrame_total by blast
  note inst2 = mouth_openness_formula [where tk = ?tkI and v = example_vrm
      and var = TalkingAvatar_copy_4 and s = example_scene and ?s1.0 = sI,
      THEN conjunct1, rule_format]
  have b: "expressions sI ''aa'' = 0.02 + max 0 (sin (1.2 * tRef sI)) * 0.01"
    using inst2 frI example_vrm_em by (simp add: example_tick_of_fields)
  obtain t1 ex1 grp1 where
    frC: "useFrame_copy ?tk (0, (\<lambda>n. 0), Some 0) = Some (t1, ex1, grp1)"
    using useFrame_copy_total [of ?tk "(0, (\<lambda>n. 0), Some 0)"] by (metis prod_cases3)
  note inst3 = mouth_openness_formula [where tk = ?tk and v = example_vrm
      and ?t0.0 = 0 and ex = "\<lambda>n. 0" and grp = "Some 0" and ?t1.0 = t1 and ?ex1.0 = ex1
      and ?grp1.0 = grp1, THEN conjunct2, THEN conjunct1, rule_format]
  have c: "t1 = 0 + delta ?tk
        \<and> ex1 ''aa'' =
            min 1 (max 0 (0.05 + (0.65 * normalized_sinusoid 8.0 0 t1
                                 + 0.25 * normalized_sinusoid 3.7 1.3 t1
                                 + 0.10 * normalized_sinusoid 1.9 0.7 t1) * 0.8))"
    using inst3 frC example_ticks_loaded [of 2 True True] example_vrm_em spk by simp
  show ?thesis
    using a b c frI frC spk example_ticks_loaded [of 2 True True] example_vrm_em
      example_scene_1_frame
    by (simp add: example_tick_of_fields)
qed

subsection \<open>Calibration\<close>

lemma measureRaiseSign_None:
  "upper = None \<or> hand = None \<Longrightarrow> measureRaiseSign v upper hand p = None"
  by (cases upper; cases hand)
    (simp_all add: measureRaiseSign_def read_rotation_z_def write_rotation_def world_height_def)

lemma measureRaiseSign_pose:
  assumes "measureRaiseSign v upper hand p = Some (sg, p')"
  shows "p' = p"
proof (cases "upper = None \<or> hand = None")
  case True
  then show ?thesis using assms measureRaiseSign_None by fastforce
next
  case False
  then obtain u h where "upper = Some u" "hand = Some h" by auto
  then show ?thesis using assms by (simp add: measureRaiseSign_Some)
qed

lemma calibrate_pose:
  assumes "calibrate var v b (d, p) = Some (d', p')"
  shows "p' = p"
  using assms calibrate_due [of var b d v p] calibrate_not_due [of var b d v p]
  by (cases "calibration_due var b d") simp_all

lemma useFrame_calibrate:
  fixes tk :: tick and s :: scene
  assumes "tick_vrm tk = Some v"
  shows "\<exists>d. calibrate var v (frame_bones v s) (dirRef s, joints s) = Some (d, joints s)"
  by (rule useFrame_blocks [OF assms, of var s]) blast

lemma useFrame_dir:
  assumes v: "tick_vrm tk = Some v" and fr: "useFrame var tk s = Some s'"
  shows "dirRef s' =
     (if calibration_due var (frame_bones v s) (dirRef s)
      then (dirRef s)\<lparr>dir_l := raise_sign v (the (lUpperArm (frame_bones v s)))
                                  (the (lHand (frame_bones v s))) (joints s),
                      dir_r := raise_sign v (the (rUpperArm (frame_bones v s)))
                                  (the (rHand (frame_bones v s))) (joints s),
                      dir_done := True\<rparr>
      else dirRef s)"
proof -
  obtain d where c: "calibrate var v (frame_bones v s) (dirRef s, joints s) = Some (d, joints s)"
    and d: "dirRef s' = d"
    by (rule useFrame_blocks [OF v, of var s]) (use fr in auto)
  show ?thesis
    using c d calibrate_due [of var "frame_bones v s" "dirRef s" v "joints s"]
      calibrate_not_due [of var "frame_bones v s" "dirRef s" v "joints s"]
    by (cases "calibration_due var (frame_bones v s) (dirRef s)") simp_all
qed

lemma useFrame_done:
  assumes "dir_done (dirRef s)" "useFrame var tk s = Some s'"
  shows "dirRef s' = dirRef s" "\<not> calibrating var tk s"
proof -
  show "dirRef s' = dirRef s"
  proof (cases "tick_vrm tk")
    case None
    then show ?thesis using assms(2) by (simp add: useFrame_no_vrm)
  next
    case (Some v)
    show ?thesis
      using useFrame_dir [OF Some assms(2)] assms(1) by (simp add: calibration_due_def)
  qed
  show "\<not> calibrating var tk s"
    using assms(1) by (simp add: calibrating_def calibration_due_def split: option.splits)
qed

lemma frames_done_count:
  assumes "dir_done (dirRef s)"
  shows "calibrations var tks s = 0"
  using assms
proof (induction tks arbitrary: s)
  case Nil
  show ?case by simp
next
  case (Cons tk tks)
  obtain s1 where s1: "useFrame var tk s = Some s1" using useFrame_total by blast
  have "dir_done (dirRef s1)" using useFrame_done(1) [OF Cons.prems s1] Cons.prems by simp
  then show ?case
    using Cons.IH [of s1] useFrame_done(2) [OF Cons.prems s1] s1 by simp
qed

lemma frames_done_dir:
  assumes "dir_done (dirRef s)" "frames var tks s = Some s'"
  shows "dirRef s' = dirRef s"
  using assms
proof (induction tks arbitrary: s)
  case Nil
  then show ?case by simp
next
  case (Cons tk tks)
  obtain s1 where s1: "useFrame var tk s = Some s1" using useFrame_total by blast
  have d1: "dirRef s1 = dirRef s" using useFrame_done(1) [OF Cons.prems(1) s1] .
  then have "dir_done (dirRef s1)" using Cons.prems(1) by simp
  moreover have "frames var tks s1 = Some s'" using Cons.prems(2) s1 by simp
  ultimately show ?case using Cons.IH [of s1] d1 by simp
qed

lemma calibrating_sets_done:
  assumes "calibrating var tk s" "useFrame var tk s = Some s'"
  shows "dir_done (dirRef s')"
proof -
  obtain v where v: "tick_vrm tk = Some v"
    and due: "calibration_due var (frame_bones v s) (dirRef s)"
    using assms(1) by (auto simp: calibrating_def split: option.splits)
  show ?thesis using useFrame_dir [OF v assms(2)] due by simp
qed

lemma calibrations_le_1: "calibrations var tks s \<le> 1"
proof (induction tks arbitrary: s)
  case Nil
  show ?case by simp
next
  case (Cons tk tks)
  obtain s1 where s1: "useFrame var tk s = Some s1" using useFrame_total by blast
  show ?case
  proof (cases "calibrating var tk s")
    case True
    then have "calibrations var tks s1 = 0"
      using frames_done_count calibrating_sets_done [OF True s1] by blast
    then show ?thesis using True s1 by simp
  next
    case False
    then show ?thesis using Cons.IH [of s1] s1 by simp
  qed
qed

lemma first_frame_calibrates:
  assumes v: "tick_vrm tk = Some v" and fr: "useFrame var tk s = Some s1"
    and pre: "bonesRef s = None" "\<not> dir_done (dirRef s)"
    and rig: "getNormalizedBoneNode v LeftUpperArm \<noteq> None"
      "getNormalizedBoneNode v RightUpperArm \<noteq> None"
      "getNormalizedBoneNode v LeftHand \<noteq> None"
      "getNormalizedBoneNode v RightHand \<noteq> None"
    and sh: "if needs_shoulders var
             then getNormalizedBoneNode v LeftShoulder \<noteq> None
                  \<and> getNormalizedBoneNode v RightShoulder \<noteq> None
             else True"
  shows "calibrating var tk s"
    and "dirRef s1 = (dirRef s)\<lparr>dir_l := raise_sign v LeftUpperArm LeftHand (joints s),
                               dir_r := raise_sign v RightUpperArm RightHand (joints s),
                               dir_done := True\<rparr>"
proof -
  have wf: "bonesRef s = None \<or> bonesRef s = getBones (Some v)" using pre(1) by simp
  note fb = frame_bones_getBones [OF wf]
  have refs: "lUpperArm (frame_bones v s) = Some LeftUpperArm"
    "rUpperArm (frame_bones v s) = Some RightUpperArm"
    "lHand (frame_bones v s) = Some LeftHand"
    "rHand (frame_bones v s) = Some RightHand"
    using fb(1,2,5,6) rig getNormalizedBoneNode_cases by metis+
  have due: "calibration_due var (frame_bones v s) (dirRef s)"
    using refs pre(2) sh fb(7,8) by (simp add: calibration_due_def split: if_splits)
  show "calibrating var tk s" using due v by (simp add: calibrating_def)
  show "dirRef s1 = (dirRef s)\<lparr>dir_l := raise_sign v LeftUpperArm LeftHand (joints s),
                               dir_r := raise_sign v RightUpperArm RightHand (joints s),
                               dir_done := True\<rparr>"
    using useFrame_dir [OF v fr] due refs by simp
qed

lemma calibrates_once:
  assumes ticks: "\<forall>tk \<in> set tks. tick_vrm tk = None \<or> tick_vrm tk = Some v"
    and some: "\<exists>tk \<in> set tks. tick_vrm tk = Some v"
    and pre: "bonesRef s = None" "\<not> dir_done (dirRef s)"
    and rig: "getNormalizedBoneNode v LeftUpperArm \<noteq> None"
      "getNormalizedBoneNode v RightUpperArm \<noteq> None"
      "getNormalizedBoneNode v LeftHand \<noteq> None"
      "getNormalizedBoneNode v RightHand \<noteq> None"
    and sh: "if needs_shoulders var
             then getNormalizedBoneNode v LeftShoulder \<noteq> None
                  \<and> getNormalizedBoneNode v RightShoulder \<noteq> None
             else True"
  shows "calibrations var tks s = 1
     \<and> (\<exists>s'. frames var tks s = Some s'
          \<and> dirRef s' = (dirRef s)\<lparr>dir_l := raise_sign v LeftUpperArm LeftHand (joints s),
                                     dir_r := raise_sign v RightUpperArm RightHand (joints s),
                                     dir_done := True\<rparr>)"
  using ticks some pre
proof (induction tks arbitrary: s)
  case Nil
  then show ?case by simp
next
  case (Cons tk tks)
  obtain s1 where s1: "useFrame var tk s = Some s1" using useFrame_total by blast
  obtain s' where s': "frames var tks s1 = Some s'" using frames_total by blast
  show ?case
  proof (cases "tick_vrm tk")
    case None
    then have same: "s1 = s" using s1 by (simp add: useFrame_no_vrm)
    have nc: "\<not> calibrating var tk s" using None by (simp add: calibrating_def)
    have "\<exists>tk \<in> set tks. tick_vrm tk = Some v" using Cons.prems(2) None by auto
    then have "calibrations var tks s = 1
     \<and> (\<exists>s'. frames var tks s = Some s'
          \<and> dirRef s' = (dirRef s)\<lparr>dir_l := raise_sign v LeftUpperArm LeftHand (joints s),
                                     dir_r := raise_sign v RightUpperArm RightHand (joints s),
                                     dir_done := True\<rparr>)"
      using Cons.IH [of s] Cons.prems by simp
    then show ?thesis using nc s1 same by simp
  next
    case (Some w)
    then have v: "tick_vrm tk = Some v" using Cons.prems(1) by auto
    note f = first_frame_calibrates [OF v s1 Cons.prems(3,4) rig sh]
    have done1: "dir_done (dirRef s1)" using f(2) by simp
    have "calibrations var tks s1 = 0" using frames_done_count [OF done1] .
    moreover have "dirRef s' = dirRef s1" using frames_done_dir [OF done1 s'] .
    ultimately show ?thesis using f s1 s' by simp
  qed
qed

lemma incomplete_rig_not_due:
  fixes s :: scene
  assumes wf: "bonesRef s = None \<or> bonesRef s = getBones (Some v)"
    and rig: "\<not> calibration_rig var v"
  shows "\<not> calibration_due var (frame_bones v s) (dirRef s)"
  using frame_bones_getBones [OF wf] rig
  by (auto simp: calibration_due_def calibration_rig_def split: if_splits)

lemma never_calibrates:
  assumes ticks: "\<forall>tk \<in> set tks. tick_vrm tk = None \<or> tick_vrm tk = Some v"
    and wf: "bonesRef s = None \<or> bonesRef s = getBones (Some v)"
    and rig: "\<not> calibration_rig var v"
  shows "calibrations var tks s = 0
     \<and> (\<exists>s'. frames var tks s = Some s' \<and> dirRef s' = dirRef s)"
  using ticks wf
proof (induction tks arbitrary: s)
  case Nil
  then show ?case by simp
next
  case (Cons tk tks)
  obtain s1 where s1: "useFrame var tk s = Some s1" using useFrame_total by blast
  have rest: "\<forall>tk \<in> set tks. tick_vrm tk = None \<or> tick_vrm tk = Some v"
    using Cons.prems(1) by simp
  show ?case
  proof (cases "tick_vrm tk")
    case None
    then have same: "s1 = s" using s1 by (simp add: useFrame_no_vrm)
    have nc: "\<not> calibrating var tk s" using None by (simp add: calibrating_def)
    show ?thesis
      using Cons.IH [OF rest Cons.prems(2)] nc s1 same by simp
  next
    case (Some w)
    then have v: "tick_vrm tk = Some v" using Cons.prems(1) by auto
    have nd: "\<not> calibration_due var (frame_bones v s) (dirRef s)"
      using incomplete_rig_not_due [OF Cons.prems(2) rig] .
    have nc: "\<not> calibrating var tk s" using nd v by (simp add: calibrating_def)
    have d1: "dirRef s1 = dirRef s" using useFrame_dir [OF v s1] nd by simp
    have wf1: "bonesRef s1 = None \<or> bonesRef s1 = getBones (Some v)"
      using useFrame_bonesRef [OF v s1] Cons.prems(2) by auto
    show ?thesis
      using Cons.IH [OF rest wf1] nc s1 d1 by simp
  qed
qed

lemma calibration_rig_bones:
  assumes "calibration_rig var v"
  shows "getNormalizedBoneNode v LeftUpperArm \<noteq> None"
    "getNormalizedBoneNode v RightUpperArm \<noteq> None"
    "getNormalizedBoneNode v LeftHand \<noteq> None"
    "getNormalizedBoneNode v RightHand \<noteq> None"
    "if needs_shoulders var
     then getNormalizedBoneNode v LeftShoulder \<noteq> None
          \<and> getNormalizedBoneNode v RightShoulder \<noteq> None
     else True"
  using assms by (simp_all add: calibration_rig_def)

text \<open>
  Claim C7, as amended.  \<^verbatim>\<open>measureRaiseSign\<close> on an upper arm and a hand returns a
  sign that is a function of the model and the pose it starts from, and leaves that pose
  as it was, so running it again returns the same sign; the sign is \<open>+1\<close> exactly when
  the hand is higher with the upper arm turned by \<open>+0.18\<close> than with it turned by
  \<open>-0.18\<close>, and \<open>-1\<close> otherwise.  From the mount state, over frames that carry no
  model or one and the same model: when the rig of the model has both upper arms and
  both hands (and both shoulders where the variant waits for them) and at least one
  frame carries the model, the calibration runs exactly once, and the run ends with the
  \<^verbatim>\<open>done\<close> flag set and the signs measured on the pose at mount; when the rig lacks
  one of these bones, the calibration never runs, and the run ends with the flag unset
  and both signs at their initial \<open>+1\<close>.
\<close>

theorem calibration_deterministic_once:
  "measureRaiseSign v (Some u) (Some h) p = Some (raise_sign v u h p, p)
   \<and> (measureRaiseSign v (Some u) (Some h) p
        \<bind> (\<lambda>m. measureRaiseSign v (Some u) (Some h) (snd m)))
       = Some (raise_sign v u h p, p)
   \<and> raise_sign v u h p =
       (if matrixWorld_y v (p(u := (p u)\<lparr>rot_z := rot_z (p u) + 0.18\<rparr>)) h
           > matrixWorld_y v (p(u := (p u)\<lparr>rot_z := rot_z (p u) - 0.18\<rparr>)) h
        then 1 else - 1)
   \<and> ((\<forall>tk \<in> set tks. tick_vrm tk = None \<or> tick_vrm tk = Some v)
       \<and> (\<exists>tk \<in> set tks. tick_vrm tk = Some v)
       \<and> calibration_rig var v
      \<longrightarrow> calibrations var tks (mounted r p0 ex grp) = 1
        \<and> (\<exists>s'. frames var tks (mounted r p0 ex grp) = Some s'
             \<and> dir_done (dirRef s')
             \<and> dir_l (dirRef s') = raise_sign v LeftUpperArm LeftHand p0
             \<and> dir_r (dirRef s') = raise_sign v RightUpperArm RightHand p0))
   \<and> ((\<forall>tk \<in> set tks. tick_vrm tk = None \<or> tick_vrm tk = Some v)
       \<and> \<not> calibration_rig var v
      \<longrightarrow> calibrations var tks (mounted r p0 ex grp) = 0
        \<and> (\<exists>s'. frames var tks (mounted r p0 ex grp) = Some s'
             \<and> \<not> dir_done (dirRef s')
             \<and> dir_l (dirRef s') = 1 \<and> dir_r (dirRef s') = 1))
   \<and> calibration_rig var v =
       (getNormalizedBoneNode v LeftUpperArm \<noteq> None
        \<and> getNormalizedBoneNode v RightUpperArm \<noteq> None
        \<and> getNormalizedBoneNode v LeftHand \<noteq> None
        \<and> getNormalizedBoneNode v RightHand \<noteq> None
        \<and> (needs_shoulders var
           \<longrightarrow> getNormalizedBoneNode v LeftShoulder \<noteq> None
             \<and> getNormalizedBoneNode v RightShoulder \<noteq> None))"
proof (intro conjI impI)
  show m: "measureRaiseSign v (Some u) (Some h) p = Some (raise_sign v u h p, p)"
    by (rule measureRaiseSign_Some)
  show "(measureRaiseSign v (Some u) (Some h) p
        \<bind> (\<lambda>m. measureRaiseSign v (Some u) (Some h) (snd m)))
       = Some (raise_sign v u h p, p)"
    by (simp add: measureRaiseSign_Some)
  show "raise_sign v u h p =
       (if matrixWorld_y v (p(u := (p u)\<lparr>rot_z := rot_z (p u) + 0.18\<rparr>)) h
           > matrixWorld_y v (p(u := (p u)\<lparr>rot_z := rot_z (p u) - 0.18\<rparr>)) h
        then 1 else - 1)"
    by (simp only: raise_sign_def)
  show "calibration_rig var v =
       (getNormalizedBoneNode v LeftUpperArm \<noteq> None
        \<and> getNormalizedBoneNode v RightUpperArm \<noteq> None
        \<and> getNormalizedBoneNode v LeftHand \<noteq> None
        \<and> getNormalizedBoneNode v RightHand \<noteq> None
        \<and> (needs_shoulders var
           \<longrightarrow> getNormalizedBoneNode v LeftShoulder \<noteq> None
             \<and> getNormalizedBoneNode v RightShoulder \<noteq> None))"
    by (simp add: calibration_rig_def)
next
  assume a: "(\<forall>tk \<in> set tks. tick_vrm tk = None \<or> tick_vrm tk = Some v)
       \<and> (\<exists>tk \<in> set tks. tick_vrm tk = Some v)
       \<and> calibration_rig var v"
  then have rig: "calibration_rig var v" by simp
  have pre: "bonesRef (mounted r p0 ex grp) = None" "\<not> dir_done (dirRef (mounted r p0 ex grp))"
    "joints (mounted r p0 ex grp) = p0"
    by (simp_all add: mounted_def)
  have once: "calibrations var tks (mounted r p0 ex grp) = 1
     \<and> (\<exists>s'. frames var tks (mounted r p0 ex grp) = Some s'
          \<and> dirRef s' = (dirRef (mounted r p0 ex grp))
               \<lparr>dir_l := raise_sign v LeftUpperArm LeftHand (joints (mounted r p0 ex grp)),
                dir_r := raise_sign v RightUpperArm RightHand (joints (mounted r p0 ex grp)),
                dir_done := True\<rparr>)"
    using calibrates_once [OF _ _ pre(1,2) calibration_rig_bones [OF rig], of tks] a by blast
  show "calibrations var tks (mounted r p0 ex grp) = 1" using once by blast
  show "\<exists>s'. frames var tks (mounted r p0 ex grp) = Some s'
             \<and> dir_done (dirRef s')
             \<and> dir_l (dirRef s') = raise_sign v LeftUpperArm LeftHand p0
             \<and> dir_r (dirRef s') = raise_sign v RightUpperArm RightHand p0"
    using once pre(3) by auto
next
  assume a: "(\<forall>tk \<in> set tks. tick_vrm tk = None \<or> tick_vrm tk = Some v)
       \<and> \<not> calibration_rig var v"
  have wf: "bonesRef (mounted r p0 ex grp) = None
      \<or> bonesRef (mounted r p0 ex grp) = getBones (Some v)"
    by (simp add: mounted_def)
  have never: "calibrations var tks (mounted r p0 ex grp) = 0
     \<and> (\<exists>s'. frames var tks (mounted r p0 ex grp) = Some s'
          \<and> dirRef s' = dirRef (mounted r p0 ex grp))"
    using never_calibrates [OF _ wf, of tks var] a by blast
  show "calibrations var tks (mounted r p0 ex grp) = 0" using never by blast
  show "\<exists>s'. frames var tks (mounted r p0 ex grp) = Some s'
             \<and> \<not> dir_done (dirRef s')
             \<and> dir_l (dirRef s') = 1 \<and> dir_r (dirRef s') = 1"
    using never by (auto simp: mounted_def)
qed

lemma example_raise_signs:
  "raise_sign example_vrm LeftUpperArm LeftHand example_pose = 1"
  "raise_sign example_vrm RightUpperArm RightHand example_pose = - 1"
  by (simp_all add: raise_sign_def example_vrm_def example_pose_def)

lemma example_rigs:
  "calibration_rig TalkingAvatar_copy_4 example_vrm"
  "\<not> calibration_rig TalkingAvatar_part_000 example_vrm"
  "\<not> calibration_rig TalkingAvatar_copy_4 example_upper_chest_vrm"
  by (simp_all add: calibration_rig_def getNormalizedBoneNode_def example_vrm_def
      example_upper_chest_vrm_def TalkingAvatar_copy_4_def TalkingAvatar_part_000_def)

theorem calibration_deterministic_once_witness:
  "list_all (\<lambda>tk. tick_vrm tk = None \<or> tick_vrm tk = Some example_vrm)
      [example_tick_of None 1 True True, example_tick 2 True True, example_tick 0.5 True True]
   \<and> (\<exists>tk \<in> set [example_tick_of None 1 True True, example_tick 2 True True,
                   example_tick 0.5 True True]. tick_vrm tk = Some example_vrm)
   \<and> calibration_rig TalkingAvatar_copy_4 example_vrm
   \<and> calibrations TalkingAvatar_copy_4
        [example_tick_of None 1 True True, example_tick 2 True True, example_tick 0.5 True True]
        (mounted 0.5 example_pose (\<lambda>n. 0) (Some 0)) = 1
   \<and> (\<exists>s'. frames TalkingAvatar_copy_4
        [example_tick_of None 1 True True, example_tick 2 True True, example_tick 0.5 True True]
        (mounted 0.5 example_pose (\<lambda>n. 0) (Some 0)) = Some s'
        \<and> dir_done (dirRef s') \<and> dir_l (dirRef s') = 1 \<and> dir_r (dirRef s') = - 1)
   \<and> list_all (\<lambda>tk. tick_vrm tk = None \<or> tick_vrm tk = Some example_upper_chest_vrm)
      [example_tick_of (Some example_upper_chest_vrm) 2 True True,
       example_tick_of None 1 True True,
       example_tick_of (Some example_upper_chest_vrm) 0.5 True True]
   \<and> \<not> calibration_rig TalkingAvatar_copy_4 example_upper_chest_vrm
   \<and> calibrations TalkingAvatar_copy_4
        [example_tick_of (Some example_upper_chest_vrm) 2 True True,
         example_tick_of None 1 True True,
         example_tick_of (Some example_upper_chest_vrm) 0.5 True True]
        (mounted 0.5 example_pose (\<lambda>n. 0) (Some 0)) = 0
   \<and> (\<exists>s'. frames TalkingAvatar_copy_4
        [example_tick_of (Some example_upper_chest_vrm) 2 True True,
         example_tick_of None 1 True True,
         example_tick_of (Some example_upper_chest_vrm) 0.5 True True]
        (mounted 0.5 example_pose (\<lambda>n. 0) (Some 0)) = Some s'
        \<and> \<not> dir_done (dirRef s') \<and> dir_l (dirRef s') = 1 \<and> dir_r (dirRef s') = 1)
   \<and> measureRaiseSign example_vrm (Some LeftUpperArm) (Some LeftHand) example_pose
       = Some (1, example_pose)
   \<and> measureRaiseSign example_vrm (Some RightUpperArm) (Some RightHand) example_pose
       = Some (- 1, example_pose)"
proof -
  let ?tks = "[example_tick_of None 1 True True, example_tick 2 True True,
      example_tick 0.5 True True]"
  let ?uks = "[example_tick_of (Some example_upper_chest_vrm) 2 True True,
       example_tick_of None 1 True True,
       example_tick_of (Some example_upper_chest_vrm) 0.5 True True]"
  have t: "\<forall>tk \<in> set ?tks. tick_vrm tk = None \<or> tick_vrm tk = Some example_vrm"
    by (simp add: example_tick_of_def example_tick_def)
  have t': "list_all (\<lambda>tk. tick_vrm tk = None \<or> tick_vrm tk = Some example_vrm) ?tks"
    using t by (simp add: list_all_iff)
  have e: "\<exists>tk \<in> set ?tks. tick_vrm tk = Some example_vrm"
    by (simp add: example_tick_def)
  have u: "\<forall>tk \<in> set ?uks. tick_vrm tk = None \<or> tick_vrm tk = Some example_upper_chest_vrm"
    by (simp add: example_tick_of_def example_tick_def)
  have u': "list_all (\<lambda>tk. tick_vrm tk = None \<or> tick_vrm tk = Some example_upper_chest_vrm) ?uks"
    using u by (simp add: list_all_iff)
  note inst = calibration_deterministic_once [where v = example_vrm and tks = ?tks
      and var = TalkingAvatar_copy_4 and r = "0.5" and ?p0.0 = example_pose
      and ex = "\<lambda>n. 0" and grp = "Some 0"]
  have hyp: "(\<forall>tk \<in> set ?tks. tick_vrm tk = None \<or> tick_vrm tk = Some example_vrm)
       \<and> (\<exists>tk \<in> set ?tks. tick_vrm tk = Some example_vrm)
       \<and> calibration_rig TalkingAvatar_copy_4 example_vrm"
    using t e example_rigs(1) by (simp only: simp_thms)
  note once = inst [of LeftUpperArm LeftHand example_pose,
      THEN conjunct2, THEN conjunct2, THEN conjunct2, THEN conjunct1, rule_format, OF hyp]
  have run: "calibrations TalkingAvatar_copy_4 ?tks (mounted 0.5 example_pose (\<lambda>n. 0) (Some 0)) = 1
    \<and> (\<exists>s'. frames TalkingAvatar_copy_4 ?tks (mounted 0.5 example_pose (\<lambda>n. 0) (Some 0)) = Some s'
        \<and> dir_done (dirRef s') \<and> dir_l (dirRef s') = 1 \<and> dir_r (dirRef s') = - 1)"
    using once by (simp only: example_raise_signs)
  have hyp0: "(\<forall>tk \<in> set ?uks. tick_vrm tk = None \<or> tick_vrm tk = Some example_upper_chest_vrm)
       \<and> \<not> calibration_rig TalkingAvatar_copy_4 example_upper_chest_vrm"
    using u example_rigs(3) by (simp only: simp_thms)
  note never = calibration_deterministic_once [where v = example_upper_chest_vrm
      and tks = ?uks and var = TalkingAvatar_copy_4 and r = "0.5" and ?p0.0 = example_pose
      and ex = "\<lambda>n. 0" and grp = "Some 0" and u = LeftUpperArm and h = LeftHand
      and p = example_pose,
      THEN conjunct2, THEN conjunct2, THEN conjunct2, THEN conjunct2, THEN conjunct1,
      rule_format, OF hyp0]
  have l: "measureRaiseSign example_vrm (Some LeftUpperArm) (Some LeftHand) example_pose
       = Some (1, example_pose)"
    using inst [of LeftUpperArm LeftHand example_pose, THEN conjunct1]
    by (simp only: example_raise_signs)
  have r: "measureRaiseSign example_vrm (Some RightUpperArm) (Some RightHand) example_pose
       = Some (- 1, example_pose)"
    using inst [of RightUpperArm RightHand example_pose, THEN conjunct1]
    by (simp only: example_raise_signs)
  show ?thesis
    using t' e example_rigs(1,3) run u' never l r by blast
qed

text \<open>
  The calibration does not run once for every loaded skeleton.  The variant that waits
  for the shoulders never calibrates a rig that has both upper arms and both hands but
  no shoulders: the frames go by with the \<^verbatim>\<open>done\<close> flag unset and both signs at
  their initial \<open>+1\<close>, though the right arm of this rig measures \<open>-1\<close>.
\<close>

theorem calibration_never_runs_counterexample:
  "getNormalizedBoneNode example_vrm LeftUpperArm \<noteq> None
   \<and> getNormalizedBoneNode example_vrm RightUpperArm \<noteq> None
   \<and> getNormalizedBoneNode example_vrm LeftHand \<noteq> None
   \<and> getNormalizedBoneNode example_vrm RightHand \<noteq> None
   \<and> calibrations TalkingAvatar_part_000
        [example_tick 2 True True, example_tick 0.5 True True, example_tick 4 False True]
        example_scene = 0
   \<and> (\<exists>s'. frames TalkingAvatar_part_000
        [example_tick 2 True True, example_tick 0.5 True True, example_tick 4 False True]
        example_scene = Some s'
        \<and> \<not> dir_done (dirRef s') \<and> dir_l (dirRef s') = 1 \<and> dir_r (dirRef s') = 1)
   \<and> raise_sign example_vrm RightUpperArm RightHand example_pose = - 1"
proof -
  let ?tks = "[example_tick 2 True True, example_tick 0.5 True True, example_tick 4 False True]"
  have t: "\<forall>tk \<in> set ?tks. tick_vrm tk = None \<or> tick_vrm tk = Some example_vrm"
    by (simp add: example_tick_def)
  have wf: "bonesRef example_scene = None \<or> bonesRef example_scene = getBones (Some example_vrm)"
    by (simp add: example_scene_def mounted_def)
  have never: "calibrations TalkingAvatar_part_000 ?tks example_scene = 0
     \<and> (\<exists>s'. frames TalkingAvatar_part_000 ?tks example_scene = Some s'
          \<and> dirRef s' = dirRef example_scene)"
    using never_calibrates [OF t wf example_rigs(2)] .
  have d: "dirRef example_scene = \<lparr>dir_l = 1, dir_r = 1, dir_done = False\<rparr>"
    by (simp add: example_scene_def mounted_def)
  have b: "getNormalizedBoneNode example_vrm LeftUpperArm \<noteq> None"
    "getNormalizedBoneNode example_vrm RightUpperArm \<noteq> None"
    "getNormalizedBoneNode example_vrm LeftHand \<noteq> None"
    "getNormalizedBoneNode example_vrm RightHand \<noteq> None"
    by (simp_all add: getNormalizedBoneNode_def example_vrm_def)
  have "\<exists>s'. frames TalkingAvatar_part_000 ?tks example_scene = Some s'
        \<and> \<not> dir_done (dirRef s') \<and> dir_l (dirRef s') = 1 \<and> dir_r (dirRef s') = 1"
    using never d by auto
  then show ?thesis
    using b never example_raise_signs(2) by blast
qed

text \<open>
  Claim C10.  \<^verbatim>\<open>measureRaiseSign\<close>, whenever it returns, returns the pose it was
  given: the z rotation of the upper arm is saved, set to the saved value plus 0.18 and
  then minus 0.18, and set back to the saved value, and no other rotation is written.
  The calibration block therefore returns the joints as they were, in every frame with
  a model, and changes \<^verbatim>\<open>dirRef\<close> only.
\<close>

theorem measureRaiseSign_restores_rotation:
  "(measureRaiseSign v upper hand p = Some (sg, p') \<longrightarrow> p' = p)
   \<and> (upper = Some u \<and> hand = Some h
      \<longrightarrow> (\<exists>sg. measureRaiseSign v upper hand p = Some (sg, p)))
   \<and> (calibrate var v b (d, p) = Some (d', p') \<longrightarrow> p' = p)
   \<and> (tick_vrm (tk :: tick) = Some v
      \<longrightarrow> (\<exists>d'. calibrate var v (frame_bones v s) (dirRef s, joints s) = Some (d', joints s)))"
proof (intro conjI impI)
  assume "measureRaiseSign v upper hand p = Some (sg, p')"
  then show "p' = p" by (rule measureRaiseSign_pose)
next
  assume "upper = Some u \<and> hand = Some h"
  then show "\<exists>sg. measureRaiseSign v upper hand p = Some (sg, p)"
    using measureRaiseSign_Some by blast
next
  assume "calibrate var v b (d, p) = Some (d', p')"
  then show "p' = p" by (rule calibrate_pose)
next
  assume "tick_vrm tk = Some v"
  then show "\<exists>d'. calibrate var v (frame_bones v s) (dirRef s, joints s) = Some (d', joints s)"
    by (rule useFrame_calibrate)
qed

theorem measureRaiseSign_restores_rotation_witness:
  "measureRaiseSign example_vrm (Some LeftUpperArm) (Some LeftHand)
      (example_pose(LeftUpperArm := \<lparr>rot_x = 0.1, rot_y = 0.2, rot_z = 0.3\<rparr>))
     = Some (1, example_pose(LeftUpperArm := \<lparr>rot_x = 0.1, rot_y = 0.2, rot_z = 0.3\<rparr>))
   \<and> (\<exists>sg. measureRaiseSign example_vrm (Some RightUpperArm) (Some RightHand) example_pose
              = Some (sg, example_pose))
   \<and> tick_vrm (example_tick 2 True True) = Some example_vrm
   \<and> (\<exists>d'. calibrate TalkingAvatar_copy_4 example_vrm (frame_bones example_vrm example_scene)
              (dirRef example_scene, joints example_scene) = Some (d', joints example_scene))
   \<and> (\<exists>d' p'. calibrate TalkingAvatar_copy_4 example_vrm (frame_bones example_vrm example_scene)
              (dirRef example_scene, example_pose) = Some (d', p') \<and> p' = example_pose)"
proof -
  let ?p = "example_pose(LeftUpperArm := \<lparr>rot_x = 0.1, rot_y = 0.2, rot_z = 0.3\<rparr>)"
  have m: "measureRaiseSign example_vrm (Some LeftUpperArm) (Some LeftHand) ?p
      = Some (raise_sign example_vrm LeftUpperArm LeftHand ?p, ?p)"
    by (rule measureRaiseSign_Some)
  have sg: "raise_sign example_vrm LeftUpperArm LeftHand ?p = 1"
    by (simp add: raise_sign_def example_vrm_def)
  have a: "measureRaiseSign example_vrm (Some LeftUpperArm) (Some LeftHand) ?p = Some (1, ?p)"
    using measureRaiseSign_restores_rotation [where v = example_vrm
        and upper = "Some LeftUpperArm" and hand = "Some LeftHand" and p = ?p
        and u = LeftUpperArm and h = LeftHand and tk = "example_tick 2 True True", THEN conjunct2,
        THEN conjunct1] m sg
    by simp
  have b: "\<exists>sg. measureRaiseSign example_vrm (Some RightUpperArm) (Some RightHand) example_pose
              = Some (sg, example_pose)"
    using measureRaiseSign_restores_rotation [where v = example_vrm
        and upper = "Some RightUpperArm" and hand = "Some RightHand" and p = example_pose
        and u = RightUpperArm and h = RightHand and tk = "example_tick 2 True True",
        THEN conjunct2, THEN conjunct1]
    by simp
  have c: "\<exists>d'. calibrate TalkingAvatar_copy_4 example_vrm (frame_bones example_vrm example_scene)
              (dirRef example_scene, joints example_scene) = Some (d', joints example_scene)"
    using measureRaiseSign_restores_rotation [where v = example_vrm
        and tk = "example_tick 2 True True" and var = TalkingAvatar_copy_4 and s = example_scene,
        THEN conjunct2, THEN conjunct2, THEN conjunct2] example_ticks_loaded [of 2 True True]
    by simp
  have j: "joints example_scene = example_pose"
    by (simp add: example_scene_def mounted_def)
  have d: "\<exists>d' p'. calibrate TalkingAvatar_copy_4 example_vrm
              (frame_bones example_vrm example_scene)
              (dirRef example_scene, example_pose) = Some (d', p') \<and> p' = example_pose"
    using c j by auto
  show ?thesis
    using a b c d example_ticks_loaded [of 2 True True] by blast
qed

end
